theory Spec2Isabelle
  imports Complex_Main "HOL-Library.Word" "HOL-Library.Log_Nat"
begin

unbundle bit_operations_syntax

section \<open>The MPU6500 driver (flight/PiOS/Common/pios\_mpu6500.c)\<close>

text \<open>
  A shallow embedding of the driver. The driver's own functions are translated one by
  one, under their C names. What the driver calls but does not define (the SPI layer,
  the delay and watchdog services, the sensor registry, the FreeRTOS queues) is the
  environment: every such call is appended to a log, and the value it returns is read
  from an oracle of the state, indexed by the number of calls made so far. The driver
  is deterministic, so quantifying over the oracles covers every behaviour of the bus.

  Return codes of type \<open>int32_t\<close> are \<open>int\<close> (none of them can overflow), bytes are
  \<open>8 word\<close>, \<open>uint16_t\<close> is \<open>16 word\<close>, \<open>uint32_t\<close> is \<open>32 word\<close>.
\<close>

subsection \<open>Constants of pios\_mpu60x0.h\<close>

text \<open>
  The enumerations of pios\_mpu60x0.h. A C enumeration is an integer, so a variable of
  the type can hold a value that is none of the enumerators: the last constructor of
  each datatype stands for such a value (one that no \<open>case\<close> label of a \<open>switch\<close>
  matches) and carries it.
\<close>

datatype pios_mpu60x0_range =
    PIOS_MPU60X0_SCALE_250_DEG
  | PIOS_MPU60X0_SCALE_500_DEG
  | PIOS_MPU60X0_SCALE_1000_DEG
  | PIOS_MPU60X0_SCALE_2000_DEG
  | PIOS_MPU60X0_SCALE_UNLISTED int

datatype pios_mpu60x0_accel_range =
    PIOS_MPU60X0_ACCEL_2G
  | PIOS_MPU60X0_ACCEL_4G
  | PIOS_MPU60X0_ACCEL_8G
  | PIOS_MPU60X0_ACCEL_16G
  | PIOS_MPU60X0_ACCEL_UNLISTED int

datatype pios_mpu60x0_filter =
    PIOS_MPU60X0_LOWPASS_256_HZ
  | PIOS_MPU60X0_LOWPASS_OTHER int

datatype pios_mpu60x0_orientation =
    PIOS_MPU60X0_TOP_0DEG
  | PIOS_MPU60X0_TOP_90DEG
  | PIOS_MPU60X0_TOP_180DEG
  | PIOS_MPU60X0_TOP_270DEG
  | PIOS_MPU60X0_ORIENTATION_UNLISTED int

text \<open>
  The header pios\_mpu60x0.h and physical\_constants.h are not part of the sources at
  hand, so the numbers they define are parameters of the model: the register addresses,
  the two reset bits, the integer value of each enumerator, and \<open>GRAVITY\<close>.
\<close>

record mpu60x0_hdr =
  PIOS_MPU60X0_SMPLRT_DIV_REG :: "8 word"
  PIOS_MPU60X0_DLPF_CFG_REG :: "8 word"
  PIOS_MPU60X0_GYRO_CFG_REG :: "8 word"
  PIOS_MPU60X0_ACCEL_CFG_REG :: "8 word"
  PIOS_MPU60X0_INT_CFG_REG :: "8 word"
  PIOS_MPU60X0_INT_EN_REG :: "8 word"
  PIOS_MPU60X0_ACCEL_X_OUT_MSB :: "8 word"
  PIOS_MPU60X0_USER_CTRL_REG :: "8 word"
  PIOS_MPU60X0_PWR_MGMT_REG :: "8 word"
  PIOS_MPU60X0_WHOAMI :: "8 word"
  PIOS_MPU60X0_PWRMGMT_IMU_RST :: "8 word"
  PIOS_MPU60X0_USERCTL_GYRO_RST :: "8 word"
  SCALE_250_DEG_value :: int
  SCALE_500_DEG_value :: int
  SCALE_1000_DEG_value :: int
  SCALE_2000_DEG_value :: int
  ACCEL_2G_value :: int
  ACCEL_4G_value :: int
  ACCEL_8G_value :: int
  ACCEL_16G_value :: int
  LOWPASS_256_HZ_value :: int
  GRAVITY :: real

text \<open>The integer a value of an enumeration type stands for.\<close>

fun range_value :: "mpu60x0_hdr \<Rightarrow> pios_mpu60x0_range \<Rightarrow> int" where
  "range_value h PIOS_MPU60X0_SCALE_250_DEG = SCALE_250_DEG_value h"
| "range_value h PIOS_MPU60X0_SCALE_500_DEG = SCALE_500_DEG_value h"
| "range_value h PIOS_MPU60X0_SCALE_1000_DEG = SCALE_1000_DEG_value h"
| "range_value h PIOS_MPU60X0_SCALE_2000_DEG = SCALE_2000_DEG_value h"
| "range_value h (PIOS_MPU60X0_SCALE_UNLISTED v) = v"

fun accel_range_value :: "mpu60x0_hdr \<Rightarrow> pios_mpu60x0_accel_range \<Rightarrow> int" where
  "accel_range_value h PIOS_MPU60X0_ACCEL_2G = ACCEL_2G_value h"
| "accel_range_value h PIOS_MPU60X0_ACCEL_4G = ACCEL_4G_value h"
| "accel_range_value h PIOS_MPU60X0_ACCEL_8G = ACCEL_8G_value h"
| "accel_range_value h PIOS_MPU60X0_ACCEL_16G = ACCEL_16G_value h"
| "accel_range_value h (PIOS_MPU60X0_ACCEL_UNLISTED v) = v"

fun filter_value :: "mpu60x0_hdr \<Rightarrow> pios_mpu60x0_filter \<Rightarrow> int" where
  "filter_value h PIOS_MPU60X0_LOWPASS_256_HZ = LOWPASS_256_HZ_value h"
| "filter_value h (PIOS_MPU60X0_LOWPASS_OTHER v) = v"

text \<open>
  \<open>struct pios_mpu60x0_cfg\<close>, the board configuration: the fields the driver reads
  (\<open>exti_cfg\<close> is only handed on to \<open>PIOS_EXTI_Init\<close>).
\<close>

record pios_mpu60x0_cfg =
  default_samplerate :: "16 word"
  interrupt_cfg :: "8 word"
  interrupt_en :: "8 word"
  User_ctl :: "8 word"
  Pwr_mgmt_clk :: "8 word"
  default_filter :: pios_mpu60x0_filter
  orientation :: pios_mpu60x0_orientation

subsection \<open>Device state\<close>

definition MPU6500_WHOAMI_ID :: int where
  "MPU6500_WHOAMI_ID = 0x70"

definition pios_mpu6500_dev_MAGIC :: "32 word" where
  "pios_mpu6500_dev_MAGIC = 0x9da9bccc"

text \<open>
  \<open>struct mpu6500_dev\<close>. The queue handles are opaque: a number names the queue. The
  fields \<open>accel_range\<close> and \<open>accel_queue\<close> exist in the C structure only when
  \<open>PIOS_MPU6500_ACCEL\<close> is defined; the model keeps them and does not use them
  otherwise.
\<close>

record mpu6500_dev =
  spi_id :: "32 word"
  slave_num :: "32 word"
  gyro_range :: pios_mpu60x0_range
  gyro_queue :: nat
  accel_range :: pios_mpu60x0_accel_range
  accel_queue :: nat
  cfg :: pios_mpu60x0_cfg
  configured :: bool
  magic :: "32 word"
  filter :: pios_mpu60x0_filter

subsection \<open>The environment\<close>

text \<open>
  A sample handed to a queue (\<open>struct pios_sensor_gyro_data\<close> and
  \<open>struct pios_sensor_accel_data\<close>): \<open>x\<close>, \<open>y\<close>, \<open>z\<close> and the temperature, all
  of type \<open>float\<close>. The interrupt handler assigns \<open>x\<close> and \<open>y\<close> in a \<open>switch\<close>
  without a default; \<open>None\<close> is a member that was never assigned.
\<close>

type_synonym sample = "real option \<times> real option \<times> real \<times> real"

text \<open>The calls the driver makes into the rest of the firmware, with their arguments.\<close>

datatype event =
    Ev_SPI_ClaimBus "32 word"
  | Ev_SPI_ClaimBusISR "32 word"
  | Ev_SPI_RC_PinSet "32 word" "32 word" nat
  | Ev_SPI_TransferByte "32 word" "8 word"
  | Ev_SPI_TransferBlock "32 word" "8 word list"
  | Ev_SPI_ReleaseBus "32 word"
  | Ev_SPI_ReleaseBusISR "32 word"
  | Ev_DELAY_WaitmS nat
  | Ev_WDG_Clear
  | Ev_SENSORS_SetMaxGyro int
  | Ev_QueueSend nat sample

text \<open>
  The state: the global pointer \<open>pios_mpu6500_dev\<close> (\<open>None\<close> is \<open>NULL\<close>), the log of
  the calls made so far, oldest first, and the oracles. An oracle gives the result of
  a call as a function of the position the call takes in the log.
\<close>

record sys =
  dev_ptr :: "mpu6500_dev option"
  log :: "event list"
  spi_claim_ret :: "nat \<Rightarrow> int"
  spi_claim_isr_ret :: "nat \<Rightarrow> int \<times> bool"
  spi_xfer_ret :: "nat \<Rightarrow> int"
  spi_block_ret :: "nat \<Rightarrow> int \<times> (nat \<Rightarrow> 8 word)"
  spi_release_ret :: "nat \<Rightarrow> int"
  spi_release_isr_ret :: "nat \<Rightarrow> int \<times> bool"
  queue_woken :: "nat \<Rightarrow> bool"

definition emit :: "event \<Rightarrow> sys \<Rightarrow> sys" where
  "emit e s = s\<lparr>log := log s @ [e]\<rparr>"

definition PIOS_SPI_ClaimBus :: "32 word \<Rightarrow> sys \<Rightarrow> int \<times> sys" where
  "PIOS_SPI_ClaimBus spi s = (spi_claim_ret s (length (log s)), emit (Ev_SPI_ClaimBus spi) s)"

definition PIOS_SPI_ReleaseBus :: "32 word \<Rightarrow> sys \<Rightarrow> int \<times> sys" where
  "PIOS_SPI_ReleaseBus spi s =
     (spi_release_ret s (length (log s)), emit (Ev_SPI_ReleaseBus spi) s)"

definition PIOS_SPI_RC_PinSet :: "32 word \<Rightarrow> 32 word \<Rightarrow> nat \<Rightarrow> sys \<Rightarrow> sys" where
  "PIOS_SPI_RC_PinSet spi slave level s = emit (Ev_SPI_RC_PinSet spi slave level) s"

definition PIOS_SPI_TransferByte :: "32 word \<Rightarrow> 8 word \<Rightarrow> sys \<Rightarrow> int \<times> sys" where
  "PIOS_SPI_TransferByte spi b s =
     (spi_xfer_ret s (length (log s)), emit (Ev_SPI_TransferByte spi b) s)"

definition PIOS_DELAY_WaitmS :: "nat \<Rightarrow> sys \<Rightarrow> sys" where
  "PIOS_DELAY_WaitmS ms s = emit (Ev_DELAY_WaitmS ms) s"

definition PIOS_WDG_Clear :: "sys \<Rightarrow> sys" where
  "PIOS_WDG_Clear s = emit Ev_WDG_Clear s"

definition PIOS_SENSORS_SetMaxGyro :: "int \<Rightarrow> sys \<Rightarrow> sys" where
  "PIOS_SENSORS_SetMaxGyro v s = emit (Ev_SENSORS_SetMaxGyro v) s"

subsection \<open>Validation and bus arbitration\<close>

fun PIOS_MPU6500_Validate :: "mpu6500_dev option \<Rightarrow> int" where
  "PIOS_MPU6500_Validate None = -1"
| "PIOS_MPU6500_Validate (Some dev) =
     (if magic dev \<noteq> pios_mpu6500_dev_MAGIC then -2
      else if spi_id dev = 0 then -3
      else 0)"

text \<open>
  After a successful validation the pointer is not \<open>NULL\<close>, so the \<open>None\<close> branch of
  the functions below only repeats what \<open>PIOS_MPU6500_Validate\<close> answers there.
\<close>

definition PIOS_MPU6500_ClaimBus :: "sys \<Rightarrow> int \<times> sys" where
  "PIOS_MPU6500_ClaimBus s =
     (case dev_ptr s of
        None \<Rightarrow> (-1, s)
      | Some dev \<Rightarrow>
          if PIOS_MPU6500_Validate (Some dev) \<noteq> 0 then (-1, s)
          else
            let (r, s1) = PIOS_SPI_ClaimBus (spi_id dev) s
            in if r \<noteq> 0 then (-2, s1)
               else (0, PIOS_SPI_RC_PinSet (spi_id dev) (slave_num dev) 0 s1))"

definition PIOS_MPU6500_ReleaseBus :: "sys \<Rightarrow> int \<times> sys" where
  "PIOS_MPU6500_ReleaseBus s =
     (case dev_ptr s of
        None \<Rightarrow> (-1, s)
      | Some dev \<Rightarrow>
          if PIOS_MPU6500_Validate (Some dev) \<noteq> 0 then (-1, s)
          else PIOS_SPI_ReleaseBus (spi_id dev)
                 (PIOS_SPI_RC_PinSet (spi_id dev) (slave_num dev) 1 s))"

subsection \<open>Register protocol\<close>

text \<open>
  \<open>PIOS_MPU6500_GetReg\<close> stores what the second transfer returns in a \<open>uint8_t\<close> and
  returns that byte; it never looks at the result of the first transfer. The \<open>None\<close>
  branch after a successful claim cannot be taken (the claim has validated the
  pointer).
\<close>

definition PIOS_MPU6500_GetReg :: "8 word \<Rightarrow> sys \<Rightarrow> int \<times> sys" where
  "PIOS_MPU6500_GetReg reg s =
     (let (c, s1) = PIOS_MPU6500_ClaimBus s
      in if c \<noteq> 0 then (-1, s1)
         else case dev_ptr s1 of
                None \<Rightarrow> (-1, s1)
              | Some dev \<Rightarrow>
                  let (_, s2) = PIOS_SPI_TransferByte (spi_id dev) (0x80 OR reg) s1;
                      (r, s3) = PIOS_SPI_TransferByte (spi_id dev) 0 s2;
                      data = (word_of_int r :: 8 word);
                      (_, s4) = PIOS_MPU6500_ReleaseBus s3
                  in (uint data, s4))"

definition PIOS_MPU6500_SetReg :: "8 word \<Rightarrow> 8 word \<Rightarrow> sys \<Rightarrow> int \<times> sys" where
  "PIOS_MPU6500_SetReg reg data s =
     (let (c, s1) = PIOS_MPU6500_ClaimBus s
      in if c \<noteq> 0 then (-1, s1)
         else case dev_ptr s1 of
                None \<Rightarrow> (-1, s1)
              | Some dev \<Rightarrow>
                  let (r1, s2) = PIOS_SPI_TransferByte (spi_id dev) (0x7f AND reg) s1
                  in if r1 \<noteq> 0 then (-2, snd (PIOS_MPU6500_ReleaseBus s2))
                     else
                       let (r2, s3) = PIOS_SPI_TransferByte (spi_id dev) data s2
                       in if r2 \<noteq> 0 then (-3, snd (PIOS_MPU6500_ReleaseBus s3))
                          else (0, snd (PIOS_MPU6500_ReleaseBus s3)))"

subsection \<open>Identity and self-test\<close>

text \<open>
  In the C text \<open>PIOS_MPU6500_ReadID\<close> tests \<open>MPU6500_id\<close>, a name that differs in
  case from the variable \<open>mpu6500_id\<close> it has just assigned and that is declared
  nowhere; the model reads it as that variable.
\<close>

definition PIOS_MPU6500_ReadID :: "mpu60x0_hdr \<Rightarrow> sys \<Rightarrow> int \<times> sys" where
  "PIOS_MPU6500_ReadID h s =
     (let (mpu6500_id, s1) = PIOS_MPU6500_GetReg (PIOS_MPU60X0_WHOAMI h) s
      in if mpu6500_id < 0 then (-1, s1) else (mpu6500_id, s1))"

definition PIOS_MPU6500_Test :: "mpu60x0_hdr \<Rightarrow> sys \<Rightarrow> int \<times> sys" where
  "PIOS_MPU6500_Test h s =
     (let (mpu6500_id, s1) = PIOS_MPU6500_ReadID h s
      in if mpu6500_id < 0 then (-1, s1)
         else if mpu6500_id \<noteq> MPU6500_WHOAMI_ID then (-2, s1)
         else (0, s1))"

subsection \<open>Single-precision arithmetic\<close>

text \<open>
  The C type \<open>float\<close> is IEEE 754 binary32 and each operation is rounded to it (round
  to nearest, ties to even). A finite \<open>float\<close> is modelled by the real number it
  holds, and an operation by the exact operation followed by \<open>f32_round\<close>. The
  rounding is that of the normal range (magnitudes from \<open>2\<^sup>-\<^sup>1\<^sup>2\<^sup>6\<close> up to
  \<open>2\<^sup>1\<^sup>2\<^sup>8\<close>): a significand of 24 bits; overflow and subnormal numbers are not
  modelled, and no value the driver computes reaches them.
\<close>

definition round_half_even :: "real \<Rightarrow> int" where
  "round_half_even y =
     (let f = \<lfloor>y\<rfloor>; d = y - of_int f
      in if d < 1 / 2 then f
         else if 1 / 2 < d then f + 1
         else if even f then f else f + 1)"

text \<open>The exponent \<open>e\<close> with \<open>2\<^sup>e \<le> \<bar>x\<bar> < 2\<^sup>e\<^sup>+\<^sup>1\<close>, for \<open>x \<noteq> 0\<close>.\<close>

definition binary_exponent :: "real \<Rightarrow> int" where
  "binary_exponent x =
     (if 1 \<le> \<bar>x\<bar> then bitlen \<lfloor>\<bar>x\<bar>\<rfloor> - 1 else - bitlen (\<lceil>1 / \<bar>x\<bar>\<rceil> - 1))"

definition pow2 :: "int \<Rightarrow> real" where
  "pow2 e = (if 0 \<le> e then 2 ^ nat e else 1 / 2 ^ nat (- e))"

definition f32_round :: "real \<Rightarrow> real" where
  "f32_round x =
     (if x = 0 then 0
      else let u = pow2 (binary_exponent x - 23)
           in of_int (round_half_even (x / u)) * u)"

definition f32_add :: "real \<Rightarrow> real \<Rightarrow> real" where
  "f32_add a b = f32_round (a + b)"

definition f32_mul :: "real \<Rightarrow> real \<Rightarrow> real" where
  "f32_mul a b = f32_round (a * b)"

definition f32_div :: "real \<Rightarrow> real \<Rightarrow> real" where
  "f32_div a b = f32_round (a / b)"

text \<open>The conversion \<open>(int32_t)\<close> of a \<open>float\<close> discards the fractional part.\<close>

definition f32_to_int :: "real \<Rightarrow> int" where
  "f32_to_int x = (if 0 \<le> x then \<lfloor>x\<rfloor> else \<lceil>x\<rceil>)"

subsection \<open>Faults\<close>

text \<open>
  Where the C text has undefined behaviour the model stops with a fault:
  the setters and the configuration sequence dereference \<open>pios_mpu6500_dev\<close> without
  a check, and \<open>PIOS_MPU6500_SetSampleRate\<close> divides by the requested rate and converts
  the quotient to \<open>int32_t\<close>, which is undefined when the rate is zero (the quotient is
  infinite).
\<close>

datatype fault = NullPointerDereference | FloatToIntUndefined

definition and_then :: "fault + 'a \<Rightarrow> ('a \<Rightarrow> fault + 'b) \<Rightarrow> fault + 'b" where
  "and_then r f = (case r of Inl e \<Rightarrow> Inl e | Inr x \<Rightarrow> f x)"

definition update_dev :: "(mpu6500_dev \<Rightarrow> mpu6500_dev) \<Rightarrow> sys \<Rightarrow> fault + sys" where
  "update_dev f s =
     (case dev_ptr s of
        None \<Rightarrow> Inl NullPointerDereference
      | Some dev \<Rightarrow> Inr (s\<lparr>dev_ptr := Some (f dev)\<rparr>))"

subsection \<open>Range, sample rate and filter\<close>

text \<open>
  The setters discard what \<open>PIOS_MPU6500_SetReg\<close> returns. An enumeration value is
  converted to the \<open>uint8_t\<close> parameter of \<open>PIOS_MPU6500_SetReg\<close>, that is, reduced
  modulo 256.
\<close>

definition PIOS_MPU6500_SetGyroRange ::
    "mpu60x0_hdr \<Rightarrow> pios_mpu60x0_range \<Rightarrow> sys \<Rightarrow> fault + sys" where
  "PIOS_MPU6500_SetGyroRange h rng s =
     (let (_, s1) = PIOS_MPU6500_SetReg (PIOS_MPU60X0_GYRO_CFG_REG h)
                      (word_of_int (range_value h rng)) s;
          s2 = (case rng of
                  PIOS_MPU60X0_SCALE_250_DEG \<Rightarrow> PIOS_SENSORS_SetMaxGyro 250 s1
                | PIOS_MPU60X0_SCALE_500_DEG \<Rightarrow> PIOS_SENSORS_SetMaxGyro 500 s1
                | PIOS_MPU60X0_SCALE_1000_DEG \<Rightarrow> PIOS_SENSORS_SetMaxGyro 1000 s1
                | PIOS_MPU60X0_SCALE_2000_DEG \<Rightarrow> PIOS_SENSORS_SetMaxGyro 2000 s1
                | PIOS_MPU60X0_SCALE_UNLISTED _ \<Rightarrow> s1)
      in update_dev (\<lambda>dev. dev\<lparr>gyro_range := rng\<rparr>) s2)"

definition PIOS_MPU6500_SetAccelRange ::
    "mpu60x0_hdr \<Rightarrow> pios_mpu60x0_accel_range \<Rightarrow> sys \<Rightarrow> fault + sys" where
  "PIOS_MPU6500_SetAccelRange h rng s =
     (let (_, s1) = PIOS_MPU6500_SetReg (PIOS_MPU60X0_ACCEL_CFG_REG h)
                      (word_of_int (accel_range_value h rng)) s
      in update_dev (\<lambda>dev. dev\<lparr>accel_range := rng\<rparr>) s1)"

text \<open>
  The divisor that \<open>PIOS_MPU6500_SetSampleRate\<close> computes from the clamped rate, in
  single precision: \<open>(int32_t)(((float)filter_frequency / samplerate_hz) + 0.5f) - 1\<close>,
  then limited to the range of the register.
\<close>

definition samplerate_divisor :: "16 word \<Rightarrow> 16 word \<Rightarrow> int" where
  "samplerate_divisor filter_frequency samplerate_hz =
     (let divisor = f32_to_int (f32_add (f32_div (real (unat filter_frequency))
                                           (real (unat samplerate_hz))) (1 / 2)) - 1;
          divisor = (if divisor < 0 then 0 else divisor);
          divisor = (if divisor > 0xff then 0xff else divisor)
      in divisor)"

definition PIOS_MPU6500_SetSampleRate :: "mpu60x0_hdr \<Rightarrow> 16 word \<Rightarrow> sys \<Rightarrow> fault + sys" where
  "PIOS_MPU6500_SetSampleRate h samplerate_hz s =
     (case dev_ptr s of
        None \<Rightarrow> Inl NullPointerDereference
      | Some dev \<Rightarrow>
          let filter_frequency =
                (if filter dev \<noteq> PIOS_MPU60X0_LOWPASS_256_HZ then 1000 else 8000 :: 16 word);
              samplerate_hz =
                (if samplerate_hz > filter_frequency then filter_frequency else samplerate_hz)
          in if samplerate_hz = 0 then Inl FloatToIntUndefined
             else Inr (snd (PIOS_MPU6500_SetReg (PIOS_MPU60X0_SMPLRT_DIV_REG h)
                              (word_of_int (samplerate_divisor filter_frequency samplerate_hz))
                              s)))"

definition PIOS_MPU6500_SetLPF ::
    "mpu60x0_hdr \<Rightarrow> pios_mpu60x0_filter \<Rightarrow> sys \<Rightarrow> fault + sys" where
  "PIOS_MPU6500_SetLPF h flt s =
     (let (_, s1) = PIOS_MPU6500_SetReg (PIOS_MPU60X0_DLPF_CFG_REG h)
                      (word_of_int (filter_value h flt)) s
      in update_dev (\<lambda>dev. dev\<lparr>filter := flt\<rparr>) s1)"

subsection \<open>Scale factors\<close>

text \<open>
  Both functions read the range from \<open>pios_mpu6500_dev\<close>; their only caller, the
  interrupt handler, has validated the pointer, so the model takes the structure. The
  literals 32.8f and 16.4f are rounded to single precision; the other literals are
  exact.
\<close>

definition PIOS_MPU6500_GetGyroScale :: "mpu6500_dev \<Rightarrow> real" where
  "PIOS_MPU6500_GetGyroScale dev =
     (case gyro_range dev of
        PIOS_MPU60X0_SCALE_250_DEG \<Rightarrow> f32_div 1 131
      | PIOS_MPU60X0_SCALE_500_DEG \<Rightarrow> f32_div 1 (f32_round 65.5)
      | PIOS_MPU60X0_SCALE_1000_DEG \<Rightarrow> f32_div 1 (f32_round 32.8)
      | PIOS_MPU60X0_SCALE_2000_DEG \<Rightarrow> f32_div 1 (f32_round 16.4)
      | PIOS_MPU60X0_SCALE_UNLISTED _ \<Rightarrow> 0)"

definition PIOS_MPU6500_GetAccelScale :: "mpu60x0_hdr \<Rightarrow> mpu6500_dev \<Rightarrow> real" where
  "PIOS_MPU6500_GetAccelScale h dev =
     (case accel_range dev of
        PIOS_MPU60X0_ACCEL_2G \<Rightarrow> f32_div (GRAVITY h) 16384
      | PIOS_MPU60X0_ACCEL_4G \<Rightarrow> f32_div (GRAVITY h) 8192
      | PIOS_MPU60X0_ACCEL_8G \<Rightarrow> f32_div (GRAVITY h) 4096
      | PIOS_MPU60X0_ACCEL_16G \<Rightarrow> f32_div (GRAVITY h) 2048
      | PIOS_MPU60X0_ACCEL_UNLISTED _ \<Rightarrow> 0)"

subsection \<open>Configuration sequence\<close>

text \<open>The two build options that select the text of the driver.\<close>

record build =
  PIOS_MPU6500_SIMPLE_INIT_SEQUENCE :: bool
  PIOS_MPU6500_ACCEL :: bool

text \<open>
  The sequence compiled when \<open>PIOS_MPU6500_SIMPLE_INIT_SEQUENCE\<close> is defined. Every
  result of \<open>PIOS_MPU6500_SetReg\<close> is discarded, as in the C text (the test of the
  first one is commented out there).
\<close>

definition Config_simple ::
    "build \<Rightarrow> mpu60x0_hdr \<Rightarrow> pios_mpu60x0_cfg \<Rightarrow> sys \<Rightarrow> fault + sys" where
  "Config_simple b h c s =
     (let s = snd (PIOS_MPU6500_SetReg (PIOS_MPU60X0_PWR_MGMT_REG h)
                     (PIOS_MPU60X0_PWRMGMT_IMU_RST h) s);
          s = PIOS_DELAY_WaitmS 50 s;
          s = PIOS_WDG_Clear s;
          s = snd (PIOS_MPU6500_SetReg (PIOS_MPU60X0_USER_CTRL_REG h)
                     (PIOS_MPU60X0_USERCTL_GYRO_RST h) s);
          s = PIOS_DELAY_WaitmS 10 s;
          s = snd (PIOS_MPU6500_SetReg (PIOS_MPU60X0_PWR_MGMT_REG h) (Pwr_mgmt_clk c) s);
          s = snd (PIOS_MPU6500_SetReg (PIOS_MPU60X0_USER_CTRL_REG h) (User_ctl c) s)
      in and_then (PIOS_MPU6500_SetLPF h (default_filter c) s) (\<lambda>s.
         and_then (PIOS_MPU6500_SetSampleRate h (default_samplerate c) s) (\<lambda>s.
         and_then (PIOS_MPU6500_SetGyroRange h PIOS_MPU60X0_SCALE_500_DEG s) (\<lambda>s.
         and_then (if PIOS_MPU6500_ACCEL b
                   then PIOS_MPU6500_SetAccelRange h PIOS_MPU60X0_ACCEL_8G s
                   else Inr s) (\<lambda>s.
           let s = snd (PIOS_MPU6500_SetReg (PIOS_MPU60X0_INT_CFG_REG h) (interrupt_cfg c) s);
               s = snd (PIOS_MPU6500_SetReg (PIOS_MPU60X0_INT_EN_REG h) (interrupt_en c) s)
           in update_dev (\<lambda>dev. dev\<lparr>configured := True\<rparr>) s)))))"

text \<open>
  The loop \<open>do { PIOS_DELAY_WaitmS(5); } while (read() & msk);\<close> of the other
  sequence. It has no iteration count, so it need not return: \<open>None\<close> is the loop
  that runs forever.
\<close>

partial_function (option) poll_until_clear ::
    "(sys \<Rightarrow> int \<times> sys) \<Rightarrow> int \<Rightarrow> sys \<Rightarrow> sys option" where
  "poll_until_clear rd msk s =
     (let s1 = PIOS_DELAY_WaitmS 5 s;
          (v, s2) = rd s1
      in if v AND msk \<noteq> 0 then poll_until_clear rd msk s2 else Some s2)"

text \<open>What follows the two reset loops in that sequence.\<close>

definition Config_after_reset ::
    "build \<Rightarrow> mpu60x0_hdr \<Rightarrow> pios_mpu60x0_cfg \<Rightarrow> sys \<Rightarrow> fault + sys" where
  "Config_after_reset b h c s =
     (let s = PIOS_DELAY_WaitmS 25 s;
          s = snd (PIOS_MPU6500_SetReg (PIOS_MPU60X0_PWR_MGMT_REG h) (Pwr_mgmt_clk c) s);
          s = snd (PIOS_MPU6500_SetReg (PIOS_MPU60X0_INT_CFG_REG h) (interrupt_cfg c) s);
          s = snd (PIOS_MPU6500_SetReg (PIOS_MPU60X0_INT_EN_REG h) (interrupt_en c) s)
      in and_then (if PIOS_MPU6500_ACCEL b
                   then PIOS_MPU6500_SetAccelRange h PIOS_MPU60X0_ACCEL_8G s
                   else Inr s) (\<lambda>s.
         and_then (PIOS_MPU6500_SetLPF h (default_filter c) s) (\<lambda>s.
         and_then (PIOS_MPU6500_SetSampleRate h (default_samplerate c) s) (\<lambda>s.
         and_then (PIOS_MPU6500_SetGyroRange h PIOS_MPU60X0_SCALE_500_DEG s) (\<lambda>s.
           let s = snd (PIOS_MPU6500_SetReg (PIOS_MPU60X0_USER_CTRL_REG h) (User_ctl c) s);
               s = snd (PIOS_MPU6500_SetReg (PIOS_MPU60X0_PWR_MGMT_REG h) (Pwr_mgmt_clk c) s);
               s = snd (PIOS_MPU6500_SetReg (PIOS_MPU60X0_INT_CFG_REG h) (interrupt_cfg c) s);
               s = snd (PIOS_MPU6500_SetReg (PIOS_MPU60X0_INT_EN_REG h) (interrupt_en c) s)
           in update_dev (\<lambda>dev. dev\<lparr>configured := True\<rparr>) s)))))"

text \<open>
  The sequence compiled otherwise. Its second loop calls \<open>PIOS_MPU5000_GetReg\<close>, a
  name that no source file defines; the model reads it as \<open>PIOS_MPU6500_GetReg\<close>,
  the function the first loop calls.
\<close>

definition Config_polling ::
    "build \<Rightarrow> mpu60x0_hdr \<Rightarrow> pios_mpu60x0_cfg \<Rightarrow> sys \<Rightarrow> (fault + sys) option" where
  "Config_polling b h c s =
     (let s = snd (PIOS_MPU6500_ClaimBus s);
          s = PIOS_DELAY_WaitmS 1 s;
          s = snd (PIOS_MPU6500_ReleaseBus s);
          s = PIOS_DELAY_WaitmS 10 s;
          s = snd (PIOS_MPU6500_SetReg (PIOS_MPU60X0_PWR_MGMT_REG h)
                     (0x80 OR Pwr_mgmt_clk c) s)
      in case poll_until_clear (PIOS_MPU6500_GetReg (PIOS_MPU60X0_PWR_MGMT_REG h)) 0x80 s of
           None \<Rightarrow> None
         | Some s \<Rightarrow>
             let s = PIOS_DELAY_WaitmS 25 s;
                 s = snd (PIOS_MPU6500_SetReg (PIOS_MPU60X0_USER_CTRL_REG h)
                            (0x80 OR 0x01 OR 0x02 OR 0x04) s)
             in case poll_until_clear
                       (PIOS_MPU6500_GetReg (PIOS_MPU60X0_USER_CTRL_REG h)) 0x07 s of
                  None \<Rightarrow> None
                | Some s \<Rightarrow> Some (Config_after_reset b h c s))"

definition PIOS_MPU6500_Config ::
    "build \<Rightarrow> mpu60x0_hdr \<Rightarrow> pios_mpu60x0_cfg \<Rightarrow> sys \<Rightarrow> (fault + sys) option" where
  "PIOS_MPU6500_Config b h c s =
     (if PIOS_MPU6500_SIMPLE_INIT_SEQUENCE b then Some (Config_simple b h c s)
      else Config_polling b h c s)"

subsection \<open>Interrupt handler\<close>

text \<open>
  The interrupt variants of claim and release receive a pointer to \<open>woken\<close> and may
  write to it: the oracle gives the value \<open>woken\<close> holds after the call.
\<close>

definition PIOS_SPI_ClaimBusISR :: "32 word \<Rightarrow> sys \<Rightarrow> (int \<times> bool) \<times> sys" where
  "PIOS_SPI_ClaimBusISR spi s =
     (spi_claim_isr_ret s (length (log s)), emit (Ev_SPI_ClaimBusISR spi) s)"

definition PIOS_SPI_ReleaseBusISR :: "32 word \<Rightarrow> sys \<Rightarrow> (int \<times> bool) \<times> sys" where
  "PIOS_SPI_ReleaseBusISR spi s =
     (spi_release_isr_ret s (length (log s)), emit (Ev_SPI_ReleaseBusISR spi) s)"

text \<open>The block transfer returns a code and fills the receive buffer.\<close>

definition PIOS_SPI_TransferBlock ::
    "32 word \<Rightarrow> 8 word list \<Rightarrow> sys \<Rightarrow> (int \<times> (nat \<Rightarrow> 8 word)) \<times> sys" where
  "PIOS_SPI_TransferBlock spi send_buf s =
     (spi_block_ret s (length (log s)), emit (Ev_SPI_TransferBlock spi send_buf) s)"

text \<open>
  \<open>xQueueSendToBackFromISR\<close>: the result is whether the flag the third argument
  points to equals \<open>pdTRUE\<close> after the call.
\<close>

definition xQueueSendToBackFromISR :: "nat \<Rightarrow> sample \<Rightarrow> sys \<Rightarrow> bool \<times> sys" where
  "xQueueSendToBackFromISR q item s =
     (queue_woken s (length (log s)), emit (Ev_QueueSend q item) s)"

definition PIOS_MPU6500_ClaimBusISR :: "bool \<Rightarrow> sys \<Rightarrow> (int \<times> bool) \<times> sys" where
  "PIOS_MPU6500_ClaimBusISR woken s =
     (case dev_ptr s of
        None \<Rightarrow> ((-1, woken), s)
      | Some dev \<Rightarrow>
          if PIOS_MPU6500_Validate (Some dev) \<noteq> 0 then ((-1, woken), s)
          else
            let ((r, woken), s1) = PIOS_SPI_ClaimBusISR (spi_id dev) s
            in if r \<noteq> 0 then ((-2, woken), s1)
               else ((0, woken), PIOS_SPI_RC_PinSet (spi_id dev) (slave_num dev) 0 s1))"

definition PIOS_MPU6500_ReleaseBusISR :: "bool \<Rightarrow> sys \<Rightarrow> (int \<times> bool) \<times> sys" where
  "PIOS_MPU6500_ReleaseBusISR woken s =
     (case dev_ptr s of
        None \<Rightarrow> ((-1, woken), s)
      | Some dev \<Rightarrow>
          if PIOS_MPU6500_Validate (Some dev) \<noteq> 0 then ((-1, woken), s)
          else PIOS_SPI_ReleaseBusISR (spi_id dev)
                 (PIOS_SPI_RC_PinSet (spi_id dev) (slave_num dev) 1 s))"

text \<open>The positions in the buffers of the burst read.\<close>

definition IDX_ACCEL_XOUT_H :: nat where "IDX_ACCEL_XOUT_H = 1"
definition IDX_ACCEL_XOUT_L :: nat where "IDX_ACCEL_XOUT_L = 2"
definition IDX_ACCEL_YOUT_H :: nat where "IDX_ACCEL_YOUT_H = 3"
definition IDX_ACCEL_YOUT_L :: nat where "IDX_ACCEL_YOUT_L = 4"
definition IDX_ACCEL_ZOUT_H :: nat where "IDX_ACCEL_ZOUT_H = 5"
definition IDX_ACCEL_ZOUT_L :: nat where "IDX_ACCEL_ZOUT_L = 6"
definition IDX_TEMP_OUT_H :: nat where "IDX_TEMP_OUT_H = 7"
definition IDX_TEMP_OUT_L :: nat where "IDX_TEMP_OUT_L = 8"
definition IDX_GYRO_XOUT_H :: nat where "IDX_GYRO_XOUT_H = 9"
definition IDX_GYRO_XOUT_L :: nat where "IDX_GYRO_XOUT_L = 10"
definition IDX_GYRO_YOUT_H :: nat where "IDX_GYRO_YOUT_H = 11"
definition IDX_GYRO_YOUT_L :: nat where "IDX_GYRO_YOUT_L = 12"
definition IDX_GYRO_ZOUT_H :: nat where "IDX_GYRO_ZOUT_H = 13"
definition IDX_GYRO_ZOUT_L :: nat where "IDX_GYRO_ZOUT_L = 14"
definition BUFFER_SIZE :: nat where "BUFFER_SIZE = 15"

text \<open>
  \<open>(int16_t)(buf[H] << 8 | buf[L])\<close>: the two bytes as a signed 16-bit number. A
  minus sign in front of it is applied to the promoted \<open>int\<close>, so it cannot overflow.
\<close>

definition raw16 :: "(nat \<Rightarrow> 8 word) \<Rightarrow> nat \<Rightarrow> nat \<Rightarrow> int" where
  "raw16 buf hi lo = sint (word_of_int (push_bit 8 (uint (buf hi)) OR uint (buf lo)) :: 16 word)"

text \<open>
  The \<open>switch\<close> on the orientation of the build with \<open>PIOS_MPU6500_ACCEL\<close>: the values
  assigned to \<open>accel_data.x\<close>, \<open>accel_data.y\<close>, \<open>gyro_data.x\<close> and \<open>gyro_data.y\<close>, in
  this order. No case matches an unlisted orientation, and nothing is assigned.
\<close>

definition rotate_accel_gyro ::
    "pios_mpu60x0_orientation \<Rightarrow> (nat \<Rightarrow> 8 word) \<Rightarrow> (int \<times> int \<times> int \<times> int) option" where
  "rotate_accel_gyro ori buf =
     (case ori of
        PIOS_MPU60X0_TOP_0DEG \<Rightarrow>
          Some (raw16 buf IDX_ACCEL_YOUT_H IDX_ACCEL_YOUT_L,
                raw16 buf IDX_ACCEL_XOUT_H IDX_ACCEL_XOUT_L,
                raw16 buf IDX_GYRO_YOUT_H IDX_GYRO_YOUT_L,
                raw16 buf IDX_GYRO_XOUT_H IDX_GYRO_XOUT_L)
      | PIOS_MPU60X0_TOP_90DEG \<Rightarrow>
          Some (raw16 buf IDX_ACCEL_XOUT_H IDX_ACCEL_XOUT_L,
                - raw16 buf IDX_ACCEL_YOUT_H IDX_ACCEL_YOUT_L,
                raw16 buf IDX_GYRO_XOUT_H IDX_GYRO_XOUT_L,
                - raw16 buf IDX_GYRO_YOUT_H IDX_GYRO_YOUT_L)
      | PIOS_MPU60X0_TOP_180DEG \<Rightarrow>
          Some (- raw16 buf IDX_ACCEL_YOUT_H IDX_ACCEL_YOUT_L,
                - raw16 buf IDX_ACCEL_XOUT_H IDX_ACCEL_XOUT_L,
                - raw16 buf IDX_GYRO_YOUT_H IDX_GYRO_YOUT_L,
                - raw16 buf IDX_GYRO_XOUT_H IDX_GYRO_XOUT_L)
      | PIOS_MPU60X0_TOP_270DEG \<Rightarrow>
          Some (- raw16 buf IDX_ACCEL_XOUT_H IDX_ACCEL_XOUT_L,
                raw16 buf IDX_ACCEL_YOUT_H IDX_ACCEL_YOUT_L,
                - raw16 buf IDX_GYRO_XOUT_H IDX_GYRO_XOUT_L,
                raw16 buf IDX_GYRO_YOUT_H IDX_GYRO_YOUT_L)
      | PIOS_MPU60X0_ORIENTATION_UNLISTED _ \<Rightarrow> None)"

text \<open>The same \<open>switch\<close> in the build without it: \<open>gyro_data.x\<close> and \<open>gyro_data.y\<close>.\<close>

definition rotate_gyro ::
    "pios_mpu60x0_orientation \<Rightarrow> (nat \<Rightarrow> 8 word) \<Rightarrow> (int \<times> int) option" where
  "rotate_gyro ori buf =
     (case ori of
        PIOS_MPU60X0_TOP_0DEG \<Rightarrow>
          Some (raw16 buf IDX_GYRO_YOUT_H IDX_GYRO_YOUT_L,
                raw16 buf IDX_GYRO_XOUT_H IDX_GYRO_XOUT_L)
      | PIOS_MPU60X0_TOP_90DEG \<Rightarrow>
          Some (raw16 buf IDX_GYRO_XOUT_H IDX_GYRO_XOUT_L,
                - raw16 buf IDX_GYRO_YOUT_H IDX_GYRO_YOUT_L)
      | PIOS_MPU60X0_TOP_180DEG \<Rightarrow>
          Some (- raw16 buf IDX_GYRO_YOUT_H IDX_GYRO_YOUT_L,
                - raw16 buf IDX_GYRO_XOUT_H IDX_GYRO_XOUT_L)
      | PIOS_MPU60X0_TOP_270DEG \<Rightarrow>
          Some (- raw16 buf IDX_GYRO_XOUT_H IDX_GYRO_XOUT_L,
                raw16 buf IDX_GYRO_YOUT_H IDX_GYRO_YOUT_L)
      | PIOS_MPU60X0_ORIENTATION_UNLISTED _ \<Rightarrow> None)"

text \<open>The \<open>z\<close> members, assigned after the \<open>switch\<close>.\<close>

definition gyro_z :: "(nat \<Rightarrow> 8 word) \<Rightarrow> int" where
  "gyro_z buf = - raw16 buf IDX_GYRO_ZOUT_H IDX_GYRO_ZOUT_L"

definition accel_z :: "(nat \<Rightarrow> 8 word) \<Rightarrow> int" where
  "accel_z buf = - raw16 buf IDX_ACCEL_ZOUT_H IDX_ACCEL_ZOUT_L"

text \<open>\<open>35.0f + ((float)raw_temp + 512.0f) / 340.0f\<close>\<close>

definition temperature_of :: "(nat \<Rightarrow> 8 word) \<Rightarrow> real" where
  "temperature_of buf =
     f32_add 35 (f32_div (f32_add (real_of_int (raw16 buf IDX_TEMP_OUT_H IDX_TEMP_OUT_L)) 512)
                   340)"

text \<open>\<open>member *= scale\<close> on a member that holds an integer from the buffer.\<close>

definition scaled :: "real \<Rightarrow> int \<Rightarrow> real" where
  "scaled scale v = f32_mul (real_of_int v) scale"

definition PIOS_MPU6500_IRQHandler :: "build \<Rightarrow> mpu60x0_hdr \<Rightarrow> sys \<Rightarrow> bool \<times> sys" where
  "PIOS_MPU6500_IRQHandler b h s =
     (case dev_ptr s of
        None \<Rightarrow> (False, s)
      | Some dev \<Rightarrow>
          if PIOS_MPU6500_Validate (Some dev) \<noteq> 0 \<or> configured dev = False then (False, s)
          else
            let ((c, woken), s) = PIOS_MPU6500_ClaimBusISR False s
            in if c \<noteq> 0 then (False, s)
               else
                 let mpu6500_send_buf =
                       (PIOS_MPU60X0_ACCEL_X_OUT_MSB h OR 0x80) # replicate (BUFFER_SIZE - 1) 0;
                     ((r, mpu6500_rec_buf), s) =
                       PIOS_SPI_TransferBlock (spi_id dev) mpu6500_send_buf s
                 in if r < 0 then (False, snd (PIOS_MPU6500_ReleaseBusISR woken s))
                    else
                      let ((_, woken), s) = PIOS_MPU6500_ReleaseBusISR woken s;
                          temperature = temperature_of mpu6500_rec_buf;
                          gyro_scale = PIOS_MPU6500_GetGyroScale dev
                      in if PIOS_MPU6500_ACCEL b then
                           let xy = rotate_accel_gyro (orientation (cfg dev)) mpu6500_rec_buf;
                               accel_scale = PIOS_MPU6500_GetAccelScale h dev;
                               accel_data =
                                 (map_option (\<lambda>(ax, ay, gx, gy). scaled accel_scale ax) xy,
                                  map_option (\<lambda>(ax, ay, gx, gy). scaled accel_scale ay) xy,
                                  scaled accel_scale (accel_z mpu6500_rec_buf),
                                  temperature);
                               gyro_data =
                                 (map_option (\<lambda>(ax, ay, gx, gy). scaled gyro_scale gx) xy,
                                  map_option (\<lambda>(ax, ay, gx, gy). scaled gyro_scale gy) xy,
                                  scaled gyro_scale (gyro_z mpu6500_rec_buf),
                                  temperature);
                               (woken_accel, s) =
                                 xQueueSendToBackFromISR (accel_queue dev) accel_data s;
                               (woken_gyro, s) =
                                 xQueueSendToBackFromISR (gyro_queue dev) gyro_data s
                           in (woken_accel \<or> woken_gyro \<or> woken, s)
                         else
                           let xy = rotate_gyro (orientation (cfg dev)) mpu6500_rec_buf;
                               gyro_data =
                                 (map_option (\<lambda>(gx, gy). scaled gyro_scale gx) xy,
                                  map_option (\<lambda>(gx, gy). scaled gyro_scale gy) xy,
                                  scaled gyro_scale (gyro_z mpu6500_rec_buf),
                                  temperature);
                               (woken_gyro, s) =
                                 xQueueSendToBackFromISR (gyro_queue dev) gyro_data s
                           in (woken_gyro \<or> woken, s))"

subsection \<open>The sensor's side of the bus\<close>

text \<open>
  Modelled from the spec: the sensor chip is hardware, no source file describes it.
  The spec (section 4.3) gives a register write as one transaction: the chip is
  selected, a first byte carries the address with the write bit (the top bit clear),
  a second byte carries the value. The chip model replays the log of SPI calls and
  keeps, for each register, the value last written to it this way (\<open>None\<close>: never
  written).
\<close>

datatype chip_phase = Deselected | AwaitAddress | AwaitValue "8 word" | Finished

record chip =
  phase :: chip_phase
  registers :: "8 word \<Rightarrow> 8 word option"

definition chip_reset :: chip where
  "chip_reset = \<lparr>phase = Deselected, registers = (\<lambda>_. None)\<rparr>"

fun chip_step :: "chip \<Rightarrow> event \<Rightarrow> chip" where
  "chip_step c (Ev_SPI_RC_PinSet _ _ level) =
     c\<lparr>phase := (if level = 0 then AwaitAddress else Deselected)\<rparr>"
| "chip_step c (Ev_SPI_TransferByte _ v) =
     (case phase c of
        AwaitAddress \<Rightarrow> c\<lparr>phase := (if v AND 0x80 = 0 then AwaitValue v else Finished)\<rparr>
      | AwaitValue a \<Rightarrow> c\<lparr>phase := Finished, registers := (registers c)(a \<mapsto> v)\<rparr>
      | _ \<Rightarrow> c)"
| "chip_step c _ = c"

definition chip_after :: "event list \<Rightarrow> chip" where
  "chip_after evs = foldl chip_step chip_reset evs"

definition hw_register :: "sys \<Rightarrow> 8 word \<Rightarrow> 8 word option" where
  "hw_register s a = registers (chip_after (log s)) a"

subsection \<open>Observing the reset loop and a run\<close>

text \<open>
  The state in which the loop starts its \<open>n\<close>-th round (counting from 0), and the
  value it reads in that round.
\<close>

primrec poll_state :: "(sys \<Rightarrow> int \<times> sys) \<Rightarrow> nat \<Rightarrow> sys \<Rightarrow> sys" where
  "poll_state rd 0 s = s"
| "poll_state rd (Suc n) s = poll_state rd n (snd (rd (PIOS_DELAY_WaitmS 5 s)))"

definition poll_value :: "(sys \<Rightarrow> int \<times> sys) \<Rightarrow> nat \<Rightarrow> sys \<Rightarrow> int" where
  "poll_value rd n s = fst (rd (PIOS_DELAY_WaitmS 5 (poll_state rd n s)))"

text \<open>
  The state in which the first reset loop of \<open>Config_polling\<close> starts: what precedes
  the loop in the sequence.
\<close>

definition before_first_loop :: "mpu60x0_hdr \<Rightarrow> pios_mpu60x0_cfg \<Rightarrow> sys \<Rightarrow> sys" where
  "before_first_loop h c s =
     (let s = snd (PIOS_MPU6500_ClaimBus s);
          s = PIOS_DELAY_WaitmS 1 s;
          s = snd (PIOS_MPU6500_ReleaseBus s);
          s = PIOS_DELAY_WaitmS 10 s
      in snd (PIOS_MPU6500_SetReg (PIOS_MPU60X0_PWR_MGMT_REG h) (0x80 OR Pwr_mgmt_clk c) s))"

text \<open>A later state of the same run: only the log has grown.\<close>

definition extends :: "sys \<Rightarrow> sys \<Rightarrow> bool" where
  "extends s s' \<longleftrightarrow> (\<exists>evs. s' = s\<lparr>log := log s @ evs\<rparr>)"

text \<open>The device structure after a run that returned without a fault.\<close>

definition dev_after :: "(fault + sys) option \<Rightarrow> mpu6500_dev option" where
  "dev_after r = (case r of Some (Inr s) \<Rightarrow> dev_ptr s | _ \<Rightarrow> None)"

text \<open>
  The cached ranges and the registers of the sensor after a call that returned without
  a fault.
\<close>

definition cached_gyro_range :: "fault + sys \<Rightarrow> pios_mpu60x0_range option" where
  "cached_gyro_range r = (case r of Inr s \<Rightarrow> map_option gyro_range (dev_ptr s) | Inl _ \<Rightarrow> None)"

definition cached_accel_range :: "fault + sys \<Rightarrow> pios_mpu60x0_accel_range option" where
  "cached_accel_range r =
     (case r of Inr s \<Rightarrow> map_option accel_range (dev_ptr s) | Inl _ \<Rightarrow> None)"

definition programmed :: "fault + sys \<Rightarrow> 8 word \<Rightarrow> 8 word option" where
  "programmed r = (case r of Inr s \<Rightarrow> hw_register s | Inl _ \<Rightarrow> (\<lambda>_. None))"

subsection \<open>A bus on which every write goes through\<close>

text \<open>
  The condition under which \<open>PIOS_MPU6500_SetReg\<close> completes its transaction whenever
  it is called: the device is allocated and bound, the bus is granted to every claim,
  and every byte transferred is answered with zero (\<open>PIOS_MPU6500_SetReg\<close> gives up on
  any other answer). The registers the reset loops read then read as zero.
\<close>

definition healthy :: "sys \<Rightarrow> bool" where
  "healthy s \<longleftrightarrow>
     PIOS_MPU6500_Validate (dev_ptr s) = 0
     \<and> spi_claim_ret s = (\<lambda>_. 0) \<and> spi_xfer_ret s = (\<lambda>_. 0)"

text \<open>The registers that the configuration sequence writes.\<close>

definition written_registers :: "mpu60x0_hdr \<Rightarrow> 8 word list" where
  "written_registers h =
     [PIOS_MPU60X0_PWR_MGMT_REG h, PIOS_MPU60X0_USER_CTRL_REG h,
      PIOS_MPU60X0_DLPF_CFG_REG h, PIOS_MPU60X0_SMPLRT_DIV_REG h,
      PIOS_MPU60X0_GYRO_CFG_REG h, PIOS_MPU60X0_ACCEL_CFG_REG h,
      PIOS_MPU60X0_INT_CFG_REG h, PIOS_MPU60X0_INT_EN_REG h]"

text \<open>
  The registers of the sensor after a run of the configuration sequence that returned
  without a fault (no register holds a value after a run that did not).
\<close>

definition registers_after :: "(fault + sys) option \<Rightarrow> 8 word \<Rightarrow> 8 word option" where
  "registers_after r = (case r of Some (Inr s) \<Rightarrow> hw_register s | _ \<Rightarrow> (\<lambda>_. None))"

text \<open>
  A list of register writes (address as the driver passes it, value) applied in order
  to the registers of the sensor, and a state that a run has reached from another by
  exactly these writes, the bus still healthy.
\<close>

fun apply_writes ::
    "(8 word \<Rightarrow> 8 word option) \<Rightarrow> (8 word \<times> 8 word) list \<Rightarrow> 8 word \<Rightarrow> 8 word option" where
  "apply_writes R [] = R"
| "apply_writes R ((a, v) # ws) = apply_writes (R(0x7f AND a \<mapsto> v)) ws"

definition reaches :: "sys \<Rightarrow> (8 word \<times> 8 word) list \<Rightarrow> sys \<Rightarrow> bool" where
  "reaches s ws s' \<longleftrightarrow> healthy s' \<and> hw_register s' = apply_writes (hw_register s) ws"

subsection \<open>The divisor as the specification words it\<close>

text \<open>
  The second definition of the sample-rate divisor, from the words of the
  specification and in exact arithmetic: the filter clock is 8000 Hz for the widest
  filter and 1000 Hz otherwise, the requested rate is clamped to it, and the divisor is
  \<open>round (filter_clock / rate) - 1\<close> clamped to \<open>[0, 255]\<close>.
\<close>

definition spec_filter_clock :: "pios_mpu60x0_filter \<Rightarrow> nat" where
  "spec_filter_clock f = (if f = PIOS_MPU60X0_LOWPASS_256_HZ then 8000 else 1000)"

definition spec_divisor :: "pios_mpu60x0_filter \<Rightarrow> nat \<Rightarrow> int" where
  "spec_divisor f rate =
     (let filter_clock = spec_filter_clock f;
          rate = min rate filter_clock
      in max 0 (min 255 (round (real filter_clock / real rate) - 1)))"

subsection \<open>Concrete inputs\<close>

text \<open>
  Inputs at which the theorems below are evaluated: the register map of the MPU-60x0
  family as one instance of the header, a board configuration, an allocated and bound
  device, and a state whose bus grants every claim and echoes zero on every transfer.
\<close>

definition mpu60x0_regs :: mpu60x0_hdr where
  "mpu60x0_regs =
     \<lparr>PIOS_MPU60X0_SMPLRT_DIV_REG = 0x19, PIOS_MPU60X0_DLPF_CFG_REG = 0x1A,
      PIOS_MPU60X0_GYRO_CFG_REG = 0x1B, PIOS_MPU60X0_ACCEL_CFG_REG = 0x1C,
      PIOS_MPU60X0_INT_CFG_REG = 0x37, PIOS_MPU60X0_INT_EN_REG = 0x38,
      PIOS_MPU60X0_ACCEL_X_OUT_MSB = 0x3B, PIOS_MPU60X0_USER_CTRL_REG = 0x6A,
      PIOS_MPU60X0_PWR_MGMT_REG = 0x6B, PIOS_MPU60X0_WHOAMI = 0x75,
      PIOS_MPU60X0_PWRMGMT_IMU_RST = 0x80, PIOS_MPU60X0_USERCTL_GYRO_RST = 0x01,
      SCALE_250_DEG_value = 0x00, SCALE_500_DEG_value = 0x08,
      SCALE_1000_DEG_value = 0x10, SCALE_2000_DEG_value = 0x18,
      ACCEL_2G_value = 0x00, ACCEL_4G_value = 0x08,
      ACCEL_8G_value = 0x10, ACCEL_16G_value = 0x18,
      LOWPASS_256_HZ_value = 0x00, GRAVITY = 9.805\<rparr>"

definition board_cfg :: pios_mpu60x0_cfg where
  "board_cfg =
     \<lparr>default_samplerate = 500, interrupt_cfg = 0x10, interrupt_en = 0x01,
      User_ctl = 0x10, Pwr_mgmt_clk = 0x01,
      default_filter = PIOS_MPU60X0_LOWPASS_256_HZ,
      orientation = PIOS_MPU60X0_TOP_180DEG\<rparr>"

definition bound_dev :: mpu6500_dev where
  "bound_dev =
     \<lparr>spi_id = 1, slave_num = 0, gyro_range = PIOS_MPU60X0_SCALE_250_DEG, gyro_queue = 1,
      accel_range = PIOS_MPU60X0_ACCEL_2G, accel_queue = 2, cfg = board_cfg,
      configured = False, magic = pios_mpu6500_dev_MAGIC,
      filter = PIOS_MPU60X0_LOWPASS_256_HZ\<rparr>"

definition simple_build :: build where
  "simple_build = \<lparr>PIOS_MPU6500_SIMPLE_INIT_SEQUENCE = True, PIOS_MPU6500_ACCEL = True\<rparr>"

definition polling_build :: build where
  "polling_build = \<lparr>PIOS_MPU6500_SIMPLE_INIT_SEQUENCE = False, PIOS_MPU6500_ACCEL = True\<rparr>"

definition quiet_bus :: "mpu6500_dev option \<Rightarrow> sys" where
  "quiet_bus p =
     \<lparr>dev_ptr = p, log = [],
      spi_claim_ret = (\<lambda>_. 0), spi_claim_isr_ret = (\<lambda>_. (0, False)),
      spi_xfer_ret = (\<lambda>_. 0),
      spi_block_ret = (\<lambda>_. (0, \<lambda>_. 0)),
      spi_release_ret = (\<lambda>_. 0), spi_release_isr_ret = (\<lambda>_. (0, False)),
      queue_woken = (\<lambda>_. False)\<rparr>"



text \<open>
  Three faulty buses for the same device: one that never grants the bus, one whose
  every transfer returns 0x80 (the reset bit reads as set for ever), and one whose
  every transfer returns 8 (no write is acknowledged with zero, and the bits the
  reset loops wait for read as clear).
\<close>

definition refusing_bus :: sys where
  "refusing_bus = (quiet_bus (Some bound_dev))\<lparr>spi_claim_ret := (\<lambda>_. -1)\<rparr>"

definition stuck_bus :: sys where
  "stuck_bus = (quiet_bus (Some bound_dev))\<lparr>spi_xfer_ret := (\<lambda>_. 0x80)\<rparr>"

definition noisy_bus :: sys where
  "noisy_bus = (quiet_bus (Some bound_dev))\<lparr>spi_xfer_ret := (\<lambda>_. 8)\<rparr>"

text \<open>A bus that is granted to the first claim and to no later one.\<close>

definition one_shot_bus :: sys where
  "one_shot_bus =
     (quiet_bus (Some bound_dev))\<lparr>spi_claim_ret := (\<lambda>n. if n = 0 then 0 else -1)\<rparr>"

section \<open>Properties\<close>

subsection \<open>The environment calls\<close>

lemma emit_fields [simp]:
  "dev_ptr (emit e s) = dev_ptr s"
  "log (emit e s) = log s @ [e]"
  "spi_claim_ret (emit e s) = spi_claim_ret s"
  "spi_claim_isr_ret (emit e s) = spi_claim_isr_ret s"
  "spi_xfer_ret (emit e s) = spi_xfer_ret s"
  "spi_block_ret (emit e s) = spi_block_ret s"
  "spi_release_ret (emit e s) = spi_release_ret s"
  "spi_release_isr_ret (emit e s) = spi_release_isr_ret s"
  "queue_woken (emit e s) = queue_woken s"
  by (simp_all add: emit_def)

subsection \<open>Register protocol\<close>

text \<open>
  The claim made by the driver, spelled out: it fails without a call when the handle
  is invalid, fails after the one SPI call when the bus is not granted, and otherwise
  selects the chip.
\<close>

lemma ClaimBus_cases:
  "PIOS_MPU6500_ClaimBus s =
     (if PIOS_MPU6500_Validate (dev_ptr s) \<noteq> 0 then (-1, s)
      else if spi_claim_ret s (length (log s)) \<noteq> 0
        then (-2, emit (Ev_SPI_ClaimBus (spi_id (the (dev_ptr s)))) s)
      else (0, emit (Ev_SPI_RC_PinSet (spi_id (the (dev_ptr s)))
                       (slave_num (the (dev_ptr s))) 0)
                 (emit (Ev_SPI_ClaimBus (spi_id (the (dev_ptr s)))) s)))"
  by (simp add: PIOS_MPU6500_ClaimBus_def PIOS_SPI_ClaimBus_def PIOS_SPI_RC_PinSet_def
      split: option.split)

lemma GetReg_result:
  "fst (PIOS_MPU6500_GetReg reg s) =
     (if fst (PIOS_MPU6500_ClaimBus s) \<noteq> 0 then -1
      else uint (word_of_int (spi_xfer_ret s (length (log s) + 3)) :: 8 word))"
  by (auto simp add: PIOS_MPU6500_GetReg_def ClaimBus_cases PIOS_SPI_TransferByte_def
      numeral_2_eq_2 numeral_3_eq_3 split: option.split prod.split)

lemma SetReg_result:
  "fst (PIOS_MPU6500_SetReg reg data s) =
     (if fst (PIOS_MPU6500_ClaimBus s) \<noteq> 0 then -1
      else if spi_xfer_ret s (length (log s) + 2) \<noteq> 0 then -2
      else if spi_xfer_ret s (length (log s) + 3) \<noteq> 0 then -3
      else 0)"
  by (auto simp add: PIOS_MPU6500_SetReg_def ClaimBus_cases PIOS_SPI_TransferByte_def
      numeral_2_eq_2 numeral_3_eq_3 split: option.split prod.split)

lemma Test_result:
  "fst (PIOS_MPU6500_Test h s) =
     (let r = fst (PIOS_MPU6500_GetReg (PIOS_MPU60X0_WHOAMI h) s)
      in if r < 0 then -1 else if r \<noteq> 0x70 then -2 else 0)"
  by (simp add: PIOS_MPU6500_Test_def PIOS_MPU6500_ReadID_def MPU6500_WHOAMI_ID_def Let_def
      split: prod.split)

lemma uint_byte_range: "0 \<le> uint (b :: 8 word) \<and> uint b \<le> 255"
  using uint_lt2p [of b] by simp

lemma uint_byte_not_minus1: "uint (b :: 8 word) \<noteq> -1"
  using uint_ge_0 [of b] by linarith

lemma uint_byte_not_neg: "\<not> uint (b :: 8 word) < 0"
  using uint_ge_0 [of b] by linarith

text \<open>
  C9. The self-test returns -1 exactly when the read of the identity register fails
  (\<open>PIOS_MPU6500_GetReg\<close> returns a negative value), -2 exactly when the read
  succeeds with a value other than 0x70, and 0 exactly when it succeeds with 0x70.
\<close>

theorem Test_return_codes:
  "(fst (PIOS_MPU6500_Test h s) = -1 \<longleftrightarrow>
      fst (PIOS_MPU6500_GetReg (PIOS_MPU60X0_WHOAMI h) s) < 0)
   \<and> (fst (PIOS_MPU6500_Test h s) = -2 \<longleftrightarrow>
        0 \<le> fst (PIOS_MPU6500_GetReg (PIOS_MPU60X0_WHOAMI h) s)
        \<and> fst (PIOS_MPU6500_GetReg (PIOS_MPU60X0_WHOAMI h) s) \<noteq> 0x70)
   \<and> (fst (PIOS_MPU6500_Test h s) = 0 \<longleftrightarrow>
        fst (PIOS_MPU6500_GetReg (PIOS_MPU60X0_WHOAMI h) s) = 0x70)"
  by (simp add: Test_result Let_def)

text \<open>
  C10. The single-byte read fails (with -1) exactly when the driver's bus claim fails.
  Once the bus is claimed it returns the byte received in the second transfer, a value
  from 0 to 255, whatever the two transfers report; the single-byte write, on the same
  bus, returns -2 or -3 when the first or the second transfer returns non-zero. So the
  self-test answers -1 exactly when the claim fails.
\<close>

theorem GetReg_fails_only_on_claim:
  "(fst (PIOS_MPU6500_GetReg reg s) = -1 \<longleftrightarrow> fst (PIOS_MPU6500_ClaimBus s) \<noteq> 0)
   \<and> (fst (PIOS_MPU6500_ClaimBus s) = 0 \<longrightarrow>
        fst (PIOS_MPU6500_GetReg reg s)
          = uint (word_of_int (spi_xfer_ret s (length (log s) + 3)) :: 8 word)
        \<and> 0 \<le> fst (PIOS_MPU6500_GetReg reg s) \<and> fst (PIOS_MPU6500_GetReg reg s) \<le> 255)
   \<and> (fst (PIOS_MPU6500_ClaimBus s) = 0 \<longrightarrow>
        fst (PIOS_MPU6500_SetReg reg data s)
          = (if spi_xfer_ret s (length (log s) + 2) \<noteq> 0 then -2
             else if spi_xfer_ret s (length (log s) + 3) \<noteq> 0 then -3
             else 0))
   \<and> (fst (PIOS_MPU6500_ClaimBus s) \<noteq> 0 \<longrightarrow> fst (PIOS_MPU6500_SetReg reg data s) = -1)
   \<and> (fst (PIOS_MPU6500_Test h s) = -1 \<longleftrightarrow> fst (PIOS_MPU6500_ClaimBus s) \<noteq> 0)"
proof -
  have neg: "fst (PIOS_MPU6500_GetReg r s) < 0 \<longleftrightarrow> fst (PIOS_MPU6500_ClaimBus s) \<noteq> 0" for r
    by (simp add: GetReg_result uint_byte_not_neg)
  have m1: "fst (PIOS_MPU6500_GetReg reg s) = -1 \<longleftrightarrow> fst (PIOS_MPU6500_ClaimBus s) \<noteq> 0"
    by (simp add: GetReg_result uint_byte_not_minus1)
  have rd: "fst (PIOS_MPU6500_ClaimBus s) = 0 \<longrightarrow>
        fst (PIOS_MPU6500_GetReg reg s)
          = uint (word_of_int (spi_xfer_ret s (length (log s) + 3)) :: 8 word)
        \<and> 0 \<le> fst (PIOS_MPU6500_GetReg reg s) \<and> fst (PIOS_MPU6500_GetReg reg s) \<le> 255"
    using uint_byte_range [of "word_of_int (spi_xfer_ret s (length (log s) + 3))"]
    by (simp add: GetReg_result)
  have tst: "fst (PIOS_MPU6500_Test h s) = -1 \<longleftrightarrow> fst (PIOS_MPU6500_ClaimBus s) \<noteq> 0"
    using neg [of "PIOS_MPU60X0_WHOAMI h"] by (simp add: Test_result Let_def)
  have wr: "fst (PIOS_MPU6500_ClaimBus s) = 0 \<longrightarrow>
        fst (PIOS_MPU6500_SetReg reg data s)
          = (if spi_xfer_ret s (length (log s) + 2) \<noteq> 0 then -2
             else if spi_xfer_ret s (length (log s) + 3) \<noteq> 0 then -3
             else 0)"
    by (simp add: SetReg_result)
  have wr1: "fst (PIOS_MPU6500_ClaimBus s) \<noteq> 0 \<longrightarrow> fst (PIOS_MPU6500_SetReg reg data s) = -1"
    by (simp add: SetReg_result)
  from m1 rd wr wr1 tst show ?thesis
    by blast
qed

text \<open>
  At a bus that grants the claim and returns 0x170 on every transfer, the read returns
  the low byte 0x70 and the write returns -2.
\<close>

theorem GetReg_fails_only_on_claim_witness:
  "fst (PIOS_MPU6500_ClaimBus ((quiet_bus (Some bound_dev))\<lparr>spi_xfer_ret := (\<lambda>_. 0x170)\<rparr>)) = 0
   \<and> fst (PIOS_MPU6500_GetReg 0x75 ((quiet_bus (Some bound_dev))\<lparr>spi_xfer_ret := (\<lambda>_. 0x170)\<rparr>))
       = 0x70
   \<and> fst (PIOS_MPU6500_SetReg 0x75 0x08
            ((quiet_bus (Some bound_dev))\<lparr>spi_xfer_ret := (\<lambda>_. 0x170)\<rparr>)) = -2
   \<and> fst (PIOS_MPU6500_SetReg 0x75 0x08 (quiet_bus None)) = -1"
proof -
  have c: "fst (PIOS_MPU6500_ClaimBus
                 ((quiet_bus (Some bound_dev))\<lparr>spi_xfer_ret := (\<lambda>_. 0x170)\<rparr>)) = 0"
    by (simp add: ClaimBus_cases quiet_bus_def bound_dev_def pios_mpu6500_dev_MAGIC_def)
  have n: "fst (PIOS_MPU6500_ClaimBus (quiet_bus None)) \<noteq> 0"
    by (simp add: ClaimBus_cases quiet_bus_def)
  show ?thesis
    using c n
      GetReg_fails_only_on_claim
        [where reg = "0x75" and data = "0x08" and h = mpu60x0_regs
           and s = "(quiet_bus (Some bound_dev))\<lparr>spi_xfer_ret := (\<lambda>_. 0x170)\<rparr>"]
      GetReg_fails_only_on_claim
        [where reg = "0x75" and data = "0x08" and h = mpu60x0_regs and s = "quiet_bus None"]
    by (simp add: quiet_bus_def)
qed

subsection \<open>Single-precision rounding\<close>

lemma pow2_pos: "0 < pow2 e"
  by (simp add: pow2_def)

lemma pow2_powi: "pow2 e = 2 powi e"
  by (simp add: pow2_def power_int_def inverse_eq_divide power_one_over)

lemma pow2_shift: "pow2 (e - 23) * 2 ^ 23 = pow2 e"
proof -
  have "(2::real) powi (e - 23) * 2 powi 23 = 2 powi (e - 23 + 23)"
    by (subst power_int_add) simp_all
  then show ?thesis by (simp add: pow2_powi)
qed

lemma binary_exponent_bounds:
  assumes "1 \<le> x"
  shows "0 \<le> binary_exponent x" "pow2 (binary_exponent x) \<le> x"
    "x < 2 * pow2 (binary_exponent x)"
proof -
  let ?n = "\<lfloor>x\<rfloor>"
  have n: "0 < ?n" using assms by simp
  have e: "binary_exponent x = bitlen ?n - 1"
    using assms by (simp add: binary_exponent_def)
  have b1: "1 \<le> bitlen ?n" using n by (simp add: bitlen_alt_def)
  show "0 \<le> binary_exponent x" using e b1 by simp
  have lo: "2 ^ nat (bitlen ?n - 1) \<le> ?n" and hi: "?n < 2 ^ nat (bitlen ?n)"
    using bitlen_bounds [OF n] by simp_all
  have "real_of_int (2 ^ nat (bitlen ?n - 1)) \<le> real_of_int ?n"
    using lo by (simp only: of_int_le_iff)
  also have "\<dots> \<le> x" by simp
  finally show "pow2 (binary_exponent x) \<le> x"
    using e b1 by (simp add: pow2_def)
  have "?n + 1 \<le> 2 ^ nat (bitlen ?n)" using hi by simp
  then have "real_of_int (?n + 1) \<le> real_of_int (2 ^ nat (bitlen ?n))"
    by (simp only: of_int_le_iff)
  moreover have "nat (bitlen ?n) = Suc (nat (bitlen ?n - 1))" using b1 by simp
  ultimately have "real_of_int ?n + 1 \<le> 2 * 2 ^ nat (bitlen ?n - 1)" by simp
  moreover have "x < real_of_int ?n + 1" by (rule real_of_int_floor_add_one_gt)
  ultimately have "x < 2 * 2 ^ nat (bitlen ?n - 1)" by linarith
  then show "x < 2 * pow2 (binary_exponent x)"
    using e b1 by (simp add: pow2_def)
qed

lemma round_half_even_error: "\<bar>real_of_int (round_half_even y) - y\<bar> \<le> 1 / 2"
  unfolding round_half_even_def Let_def by (simp; linarith)

lemma round_half_even_of_int: "round_half_even (of_int k) = k"
  by (simp add: round_half_even_def)

lemma f32_round_error:
  assumes "1 \<le> x"
  shows "\<bar>f32_round x - x\<bar> \<le> x / 2 ^ 24"
proof -
  define u where "u = pow2 (binary_exponent x - 23)"
  have u: "0 < u" by (simp add: u_def pow2_pos)
  have ux: "u * 2 ^ 23 \<le> x"
    using binary_exponent_bounds(2) [OF assms] pow2_shift [of "binary_exponent x"]
    by (simp only: u_def)
  have "f32_round x - x = u * (real_of_int (round_half_even (x / u)) - x / u)"
    using assms u by (simp add: f32_round_def u_def [symmetric] Let_def field_simps)
  then have "\<bar>f32_round x - x\<bar> = u * \<bar>real_of_int (round_half_even (x / u)) - x / u\<bar>"
    using u by (simp add: abs_mult)
  also have "\<dots> \<le> u * (1 / 2)"
    using u round_half_even_error [of "x / u"] by (intro mult_left_mono) simp_all
  also have "\<dots> \<le> x / 2 ^ 24" using ux by simp
  finally show ?thesis .
qed

lemma f32_round_exact:
  assumes x: "x = real_of_int m / 2" and lo: "1 \<le> x" and hi: "x < 2 ^ 23"
  shows "f32_round x = x"
proof -
  define e where "e = binary_exponent x"
  have e0: "0 \<le> e" and ex: "pow2 e \<le> x"
    using binary_exponent_bounds [OF lo] by (simp_all add: e_def)
  have "(2::real) ^ nat e < 2 ^ 23" using ex hi e0 by (simp add: pow2_def)
  then have "nat e < 23" by (simp only: power_strict_increasing_iff one_less_numeral_iff semiring_norm)
  then have "e - 23 = - int (Suc (22 - nat e))" using e0 by simp
  then obtain k where k: "e - 23 = - int (Suc k)" ..
  have nk: "nat (- (e - 23)) = Suc k" and neg: "\<not> 0 \<le> e - 23" using k by simp_all
  have u: "pow2 (e - 23) = 1 / 2 ^ Suc k" unfolding pow2_def using nk neg by simp
  have "x / pow2 (e - 23) = real_of_int (m * 2 ^ k)" by (simp add: u x)
  then have r: "round_half_even (x / pow2 (e - 23)) = m * 2 ^ k"
    by (simp only: round_half_even_of_int)
  have "x \<noteq> 0" using lo by simp
  then have "f32_round x
      = real_of_int (round_half_even (x / pow2 (e - 23))) * pow2 (e - 23)"
    by (simp add: f32_round_def e_def Let_def)
  also have "\<dots> = real_of_int (m * 2 ^ k) * (1 / 2 ^ Suc k)"
    by (simp only: r) (simp only: u)
  also have "\<dots> = x" by (simp add: x)
  finally show ?thesis .
qed

lemma samplerate_rounding:
  fixes fc r :: nat
  assumes r1: "1 \<le> r" and rf: "r \<le> fc" and fc: "fc \<le> 8000"
  shows "f32_to_int (f32_add (f32_div (real fc) (real r)) (1 / 2)) = round (real fc / real r)"
proof -
  define x where "x = real fc / real r"
  define t where "t = x + 1 / 2"
  define k where "k = \<lfloor>t\<rfloor>"
  have rpos: "0 < real r" using r1 by simp
  have x1: "1 \<le> x" using r1 rf by (simp add: x_def)
  have xfc: "x \<le> 8000"
  proof -
    have "real fc / real r \<le> real fc / 1" using r1 by (intro divide_left_mono) simp_all
    then show ?thesis using fc by (simp add: x_def)
  qed
  have rnd: "round (real fc / real r) = k" by (simp add: round_def k_def t_def x_def)
  define q where "q = f32_round x"
  define s where "s = f32_round (q + 1 / 2)"
  have goal: "f32_add (f32_div (real fc) (real r)) (1 / 2) = s"
    by (simp add: f32_add_def f32_div_def s_def q_def x_def)
  have kt: "real_of_int k \<le> t" "t < real_of_int k + 1" by (simp_all add: k_def)
  have k1: "1 \<le> k" using x1 by (simp add: k_def t_def le_floor_iff)
  have k8: "k \<le> 8000" using xfc by (simp add: k_def t_def floor_le_iff)
  have "\<lfloor>s\<rfloor> = k \<and> 0 \<le> s"
  proof (cases "t = real_of_int k")
    case True
    then have xk: "x = real_of_int (2 * k - 1) / 2" by (simp add: t_def)
    have "x < 2 ^ 23" using xfc by simp
    then have qx: "q = x" unfolding q_def using xk x1 by (intro f32_round_exact) 
    have "q + 1 / 2 = real_of_int (2 * k) / 2" using qx xk by simp
    moreover have "1 \<le> q + 1 / 2" using qx x1 by simp
    moreover have "q + 1 / 2 < 2 ^ 23" using qx xfc by simp
    ultimately have "s = q + 1 / 2" unfolding s_def by (intro f32_round_exact)
    then have "s = real_of_int k" using qx True by (simp add: t_def)
    then show ?thesis using k1 by simp
  next
    case False
    define N where "N = 2 * int fc + int r"
    have tN: "t = real_of_int N / (2 * real r)"
      using rpos by (simp add: t_def x_def N_def field_simps)
    have "real_of_int (2 * int r * k) < real_of_int N"
      using kt(1) False rpos by (simp add: tN field_simps)
    then have "2 * int r * k < N" by (simp only: of_int_less_iff)
    then have "2 * int r * k + 1 \<le> N" by simp
    then have "real_of_int (2 * int r * k + 1) \<le> real_of_int N" by (simp only: of_int_le_iff)
    then have "real_of_int (2 * int r * k + 1) / (2 * real r) \<le> real_of_int N / (2 * real r)"
      using rpos by (intro divide_right_mono) simp_all
    moreover have "real_of_int (2 * int r * k + 1) / (2 * real r)
        = real_of_int k + 1 / (2 * real r)"
      using rpos by (simp add: add_divide_distrib)
    ultimately have lo: "real_of_int k + 1 / (2 * real r) \<le> t"
      by (simp only: tN)
    have "real_of_int N < real_of_int (2 * int r * (k + 1))"
      using kt(2) rpos by (simp add: tN field_simps)
    then have "N < 2 * int r * (k + 1)" by (simp only: of_int_less_iff)
    then have "N + 1 \<le> 2 * int r * (k + 1)" by simp
    then have "real_of_int (N + 1) \<le> real_of_int (2 * int r * (k + 1))"
      by (simp only: of_int_le_iff)
    then have "real_of_int (N + 1) / (2 * real r)
        \<le> real_of_int (2 * int r * (k + 1)) / (2 * real r)"
      using rpos by (intro divide_right_mono) simp_all
    moreover have "real_of_int (N + 1) / (2 * real r) = t + 1 / (2 * real r)"
      by (simp add: tN add_divide_distrib)
    moreover have "real_of_int (2 * int r * (k + 1)) / (2 * real r) = real_of_int k + 1"
      using rpos by simp
    ultimately have hi: "t \<le> real_of_int k + 1 - 1 / (2 * real r)"
      by linarith
    have eq: "\<bar>q - x\<bar> \<le> x / 2 ^ 24" unfolding q_def by (rule f32_round_error [OF x1])
    have "x - q \<le> \<bar>q - x\<bar>" by simp
    then have "x - q \<le> x / 2 ^ 24" using eq by (rule order_trans)
    then have ql: "x - q \<le> x / 16777216" by simp
    have "q - x \<le> \<bar>q - x\<bar>" by simp
    then have "q - x \<le> x / 2 ^ 24" using eq by (rule order_trans)
    then have qu: "q - x \<le> x / 16777216" by simp
    have q1: "1 \<le> q + 1 / 2" using ql x1 by argo
    have q2: "q \<le> 2 * x" using qu x1 by argo
    have es: "\<bar>s - (q + 1 / 2)\<bar> \<le> (q + 1 / 2) / 2 ^ 24"
      unfolding s_def by (rule f32_round_error [OF q1])
    have "\<bar>s - t\<bar> \<le> \<bar>s - (q + 1 / 2)\<bar> + \<bar>q - x\<bar>" by (simp add: t_def)
    also have "\<dots> \<le> (q + 1 / 2) / 2 ^ 24 + x / 2 ^ 24" using es eq by (rule add_mono)
    also have "\<dots> \<le> (2 * x + 1) / 2 ^ 23" using q2 x1 by (simp add: field_simps)
    finally have st: "\<bar>s - t\<bar> \<le> (2 * x + 1) / 2 ^ 23" .
    have "(2 * x + 1) * (2 * real r) = 2 * real_of_int N"
      using rpos by (simp add: x_def N_def field_simps)
    moreover have "N \<le> 24000" using rf fc by (simp add: N_def)
    then have "real_of_int N \<le> 24000" by (simp only: of_int_le_numeral_iff)
    ultimately have "(2 * x + 1) * (2 * real r) \<le> 48000" by linarith
    then have "(2 * x + 1) * (2 * real r) < 2 ^ 23" by simp
    then have "(2 * x + 1) / 2 ^ 23 < 1 / (2 * real r)"
      using rpos by (simp add: field_simps)
    with st have "\<bar>s - t\<bar> < 1 / (2 * real r)" by simp
    then have "real_of_int k < s" "s < real_of_int k + 1" using lo hi by (simp_all add: abs_less_iff)
    then have "\<lfloor>s\<rfloor> = k" by (simp add: floor_eq_iff)
    moreover have "0 \<le> s" using \<open>real_of_int k < s\<close> k1 by simp
    ultimately show ?thesis by simp
  qed
  then show ?thesis unfolding goal rnd by (simp add: f32_to_int_def)
qed

subsection \<open>Sample-rate divisor\<close>

lemma clamped_rate:
  fixes r fc :: "16 word"
  shows "unat (if r > fc then fc else r) = min (unat r) (unat fc)"
  by (auto simp: word_less_nat_alt min_def word_le_nat_alt not_less)

lemma samplerate_divisor_spec:
  assumes f: "filter_frequency = (if flt \<noteq> PIOS_MPU60X0_LOWPASS_256_HZ then 1000 else 8000)"
    and r0: "r \<noteq> 0"
  shows "samplerate_divisor filter_frequency (if r > filter_frequency then filter_frequency else r)
         = spec_divisor flt (unat r)"
proof -
  define fc where "fc = unat filter_frequency"
  define r' where "r' = min (unat r) fc"
  have fc: "fc = spec_filter_clock flt" by (simp add: fc_def f spec_filter_clock_def)
  have fc8: "fc \<le> 8000" "1 \<le> fc" by (simp_all add: fc spec_filter_clock_def)
  have ur: "1 \<le> unat r" using r0 by (simp add: unat_gt_0 Suc_le_eq)
  have r'1: "1 \<le> r'" "r' \<le> fc" using ur fc8 by (simp_all add: r'_def)
  have cl: "unat (if r > filter_frequency then filter_frequency else r) = r'"
    by (simp only: clamped_rate r'_def fc_def)
  have "samplerate_divisor filter_frequency
          (if r > filter_frequency then filter_frequency else r)
        = (let d = round (real fc / real r') - 1;
               d = (if d < 0 then 0 else d);
               d = (if d > 0xff then 0xff else d) in d)"
    unfolding samplerate_divisor_def cl fc_def [symmetric]
    by (simp only: samplerate_rounding [OF r'1 fc8(1)])
  also have "\<dots> = max 0 (min 255 (round (real fc / real r') - 1))"
    by (simp add: Let_def max_def min_def)
  finally show ?thesis by (simp add: spec_divisor_def Let_def fc r'_def)
qed

lemma spec_divisor_500: "spec_divisor PIOS_MPU60X0_LOWPASS_256_HZ 500 = 15"
  by (simp add: spec_divisor_def spec_filter_clock_def round_def)

lemma spec_divisor_exceeding: "spec_filter_clock f < rate \<Longrightarrow> spec_divisor f rate = 0"
  by (simp add: spec_divisor_def spec_filter_clock_def round_def min_def Let_def)

text \<open>
  C3. For every requested rate other than zero and every active filter,
  \<open>PIOS_MPU6500_SetSampleRate\<close> writes to the divider register the byte the
  specification derives: the single-precision computation of the driver agrees with
  \<open>round (filter_clock / rate) - 1\<close> in exact arithmetic, clamped to \<open>[0, 255]\<close>. At
  500 Hz under the widest filter the divisor is 15, and at any rate above the filter
  clock it is 0. (At rate zero the C text divides by zero and converts the infinite
  quotient to an integer; the formula of the specification has no value there
  either.)
\<close>

theorem SetSampleRate_programs_spec_divisor:
  "dev_ptr s = Some dev \<Longrightarrow> samplerate_hz \<noteq> 0 \<Longrightarrow>
     PIOS_MPU6500_SetSampleRate h samplerate_hz s
       = Inr (snd (PIOS_MPU6500_SetReg (PIOS_MPU60X0_SMPLRT_DIV_REG h)
                     (word_of_int (spec_divisor (filter dev) (unat samplerate_hz))) s))
     \<and> spec_divisor PIOS_MPU60X0_LOWPASS_256_HZ 500 = 15
     \<and> (\<forall>f rate. spec_filter_clock f < rate \<longrightarrow> spec_divisor f rate = 0)"
proof -
  assume d: "dev_ptr s = Some dev" and r0: "samplerate_hz \<noteq> 0"
  define fq :: "16 word" where
    "fq = (if filter dev \<noteq> PIOS_MPU60X0_LOWPASS_256_HZ then 1000 else 8000)"
  have nz: "(if samplerate_hz > fq then fq else samplerate_hz) \<noteq> 0"
    using r0 by (simp add: fq_def)
  have "PIOS_MPU6500_SetSampleRate h samplerate_hz s
       = Inr (snd (PIOS_MPU6500_SetReg (PIOS_MPU60X0_SMPLRT_DIV_REG h)
                (word_of_int (samplerate_divisor fq
                   (if samplerate_hz > fq then fq else samplerate_hz))) s))"
    using nz r0 by (auto simp add: PIOS_MPU6500_SetSampleRate_def d fq_def Let_def)
  then show ?thesis
    using samplerate_divisor_spec [OF fq_def r0] spec_divisor_500 spec_divisor_exceeding
    by simp
qed

theorem SetSampleRate_programs_spec_divisor_witness:
  "PIOS_MPU6500_SetSampleRate mpu60x0_regs 500 (quiet_bus (Some bound_dev))
     = Inr (snd (PIOS_MPU6500_SetReg 0x19 15 (quiet_bus (Some bound_dev))))
   \<and> spec_filter_clock PIOS_MPU60X0_LOWPASS_256_HZ < 9000
   \<and> spec_divisor PIOS_MPU60X0_LOWPASS_256_HZ 9000 = 0"
proof -
  have d: "dev_ptr (quiet_bus (Some bound_dev)) = Some bound_dev"
    by (simp add: quiet_bus_def)
  have n: "(500 :: 16 word) \<noteq> 0" by simp
  have u: "unat (500 :: 16 word) = 500" by simp
  show ?thesis
    using SetSampleRate_programs_spec_divisor [OF d n, of mpu60x0_regs]
    by (simp add: u bound_dev_def mpu60x0_regs_def spec_filter_clock_def)
qed

subsection \<open>Scale factors\<close>

lemma f32_round_65_5: "f32_round (131 / 2) = 131 / 2"
  by (rule f32_round_exact [where m = 131]) simp_all

text \<open>
  The four gyro constants as numbers: each is the single-precision value next to the
  exact quotient, within a relative error of \<open>2\<^sup>-\<^sup>2\<^sup>3\<close>.
\<close>

lemma gyro_scale_values:
  "f32_div 1 131 = 16393005 / 2 ^ 31"
  "f32_div 1 65.5 = 16393005 / 2 ^ 30"
  "f32_div 1 (f32_round 32.8) = 16368016 / 2 ^ 29"
  "f32_div 1 (f32_round 16.4) = 16368016 / 2 ^ 28"
  by code_simp+

lemma gyro_scale_accuracy:
  "\<bar>f32_div 1 131 * 131 - 1\<bar> \<le> 1 / 2 ^ 23"
  "\<bar>f32_div 1 65.5 * 65.5 - 1\<bar> \<le> 1 / 2 ^ 23"
  "\<bar>f32_div 1 (f32_round 32.8) * 32.8 - 1\<bar> \<le> 1 / 2 ^ 23"
  "\<bar>f32_div 1 (f32_round 16.4) * 16.4 - 1\<bar> \<le> 1 / 2 ^ 23"
  by code_simp+

text \<open>
  C7. For each of the four gyro ranges \<open>PIOS_MPU6500_GetGyroScale\<close> returns the
  constant of the C text, the single-precision quotient 1/131, 1/65.5, 1/32.8, 1/16.4;
  for each of the four accel ranges \<open>PIOS_MPU6500_GetAccelScale\<close> returns
  \<open>GRAVITY\<close> divided by 16384, 8192, 4096, 2048; for a range value that is none of
  the enumerators both return 0.
\<close>

theorem scale_per_range:
  "PIOS_MPU6500_GetGyroScale (dev\<lparr>gyro_range := PIOS_MPU60X0_SCALE_250_DEG\<rparr>) = f32_div 1 131
   \<and> PIOS_MPU6500_GetGyroScale (dev\<lparr>gyro_range := PIOS_MPU60X0_SCALE_500_DEG\<rparr>)
       = f32_div 1 65.5
   \<and> PIOS_MPU6500_GetGyroScale (dev\<lparr>gyro_range := PIOS_MPU60X0_SCALE_1000_DEG\<rparr>)
       = f32_div 1 (f32_round 32.8)
   \<and> PIOS_MPU6500_GetGyroScale (dev\<lparr>gyro_range := PIOS_MPU60X0_SCALE_2000_DEG\<rparr>)
       = f32_div 1 (f32_round 16.4)
   \<and> PIOS_MPU6500_GetGyroScale (dev\<lparr>gyro_range := PIOS_MPU60X0_SCALE_UNLISTED v\<rparr>) = 0
   \<and> PIOS_MPU6500_GetAccelScale h (dev\<lparr>accel_range := PIOS_MPU60X0_ACCEL_2G\<rparr>)
       = f32_div (GRAVITY h) 16384
   \<and> PIOS_MPU6500_GetAccelScale h (dev\<lparr>accel_range := PIOS_MPU60X0_ACCEL_4G\<rparr>)
       = f32_div (GRAVITY h) 8192
   \<and> PIOS_MPU6500_GetAccelScale h (dev\<lparr>accel_range := PIOS_MPU60X0_ACCEL_8G\<rparr>)
       = f32_div (GRAVITY h) 4096
   \<and> PIOS_MPU6500_GetAccelScale h (dev\<lparr>accel_range := PIOS_MPU60X0_ACCEL_16G\<rparr>)
       = f32_div (GRAVITY h) 2048
   \<and> PIOS_MPU6500_GetAccelScale h (dev\<lparr>accel_range := PIOS_MPU60X0_ACCEL_UNLISTED w\<rparr>) = 0"
  by (simp add: PIOS_MPU6500_GetGyroScale_def PIOS_MPU6500_GetAccelScale_def f32_round_65_5)

subsection \<open>Interrupt entry\<close>

text \<open>
  C8. When the handle is \<open>NULL\<close>, or its magic tag is wrong, or its bus handle is
  unset, or the device is not configured, the interrupt handler returns \<open>false\<close> and
  leaves the state as it found it: the log has no new entry, so no claim, transfer or
  release was made.
\<close>

theorem IRQHandler_does_nothing_unless_ready:
  "dev_ptr s = None
     \<or> (\<exists>dev. dev_ptr s = Some dev
           \<and> (magic dev \<noteq> pios_mpu6500_dev_MAGIC \<or> spi_id dev = 0 \<or> \<not> configured dev)) \<Longrightarrow>
   PIOS_MPU6500_IRQHandler b h s = (False, s)"
  by (auto simp add: PIOS_MPU6500_IRQHandler_def)

theorem IRQHandler_does_nothing_unless_ready_witness:
  "PIOS_MPU6500_IRQHandler simple_build mpu60x0_regs (quiet_bus None) = (False, quiet_bus None)
   \<and> PIOS_MPU6500_IRQHandler simple_build mpu60x0_regs (quiet_bus (Some (bound_dev\<lparr>magic := 0\<rparr>)))
       = (False, quiet_bus (Some (bound_dev\<lparr>magic := 0\<rparr>)))
   \<and> PIOS_MPU6500_IRQHandler simple_build mpu60x0_regs (quiet_bus (Some (bound_dev\<lparr>spi_id := 0, configured := True\<rparr>)))
       = (False, quiet_bus (Some (bound_dev\<lparr>spi_id := 0, configured := True\<rparr>)))
   \<and> PIOS_MPU6500_IRQHandler simple_build mpu60x0_regs (quiet_bus (Some bound_dev))
       = (False, quiet_bus (Some bound_dev))
   \<and> log (snd (PIOS_MPU6500_IRQHandler simple_build mpu60x0_regs (quiet_bus (Some bound_dev)))) = []"
proof -
  have 1: "dev_ptr (quiet_bus None) = None" by (simp add: quiet_bus_def)
  have 2: "\<exists>dev. dev_ptr (quiet_bus (Some (bound_dev\<lparr>magic := 0\<rparr>))) = Some dev
           \<and> (magic dev \<noteq> pios_mpu6500_dev_MAGIC \<or> spi_id dev = 0 \<or> \<not> configured dev)"
    by (simp add: quiet_bus_def pios_mpu6500_dev_MAGIC_def)
  have 3: "\<exists>dev. dev_ptr (quiet_bus (Some (bound_dev\<lparr>spi_id := 0, configured := True\<rparr>)))
             = Some dev
           \<and> (magic dev \<noteq> pios_mpu6500_dev_MAGIC \<or> spi_id dev = 0 \<or> \<not> configured dev)"
    by (simp add: quiet_bus_def)
  have 4: "\<exists>dev. dev_ptr (quiet_bus (Some bound_dev)) = Some dev
           \<and> (magic dev \<noteq> pios_mpu6500_dev_MAGIC \<or> spi_id dev = 0 \<or> \<not> configured dev)"
    by (simp add: quiet_bus_def bound_dev_def)
  show ?thesis
    using IRQHandler_does_nothing_unless_ready [OF disjI1, OF 1, of simple_build mpu60x0_regs]
      IRQHandler_does_nothing_unless_ready [OF disjI2, OF 2, of simple_build mpu60x0_regs]
      IRQHandler_does_nothing_unless_ready [OF disjI2, OF 3, of simple_build mpu60x0_regs]
      IRQHandler_does_nothing_unless_ready [OF disjI2, OF 4, of simple_build mpu60x0_regs]
    by (simp add: quiet_bus_def)
qed

subsection \<open>What the driver's calls leave unchanged\<close>

text \<open>
  Every call only appends to the log: the pointer and the oracles stay as they are.
\<close>

lemma extends_refl [simp]: "extends s s"
  by (auto simp: extends_def intro: exI [where x = "[]"])

lemma extends_emit [simp]: "extends s (emit e s)"
  by (auto simp: extends_def emit_def)

lemma extends_trans: "extends s s1 \<Longrightarrow> extends s1 s2 \<Longrightarrow> extends s s2"
  by (auto simp: extends_def)

lemma extends_emit_after [simp]: "extends s s1 \<Longrightarrow> extends s (emit e s1)"
  by (rule extends_trans [OF _ extends_emit])

lemma extends_fields:
  assumes "extends s s'"
  shows "dev_ptr s' = dev_ptr s" "spi_claim_ret s' = spi_claim_ret s"
    "spi_xfer_ret s' = spi_xfer_ret s" "spi_release_ret s' = spi_release_ret s"
    "spi_claim_isr_ret s' = spi_claim_isr_ret s" "spi_block_ret s' = spi_block_ret s"
    "spi_release_isr_ret s' = spi_release_isr_ret s" "queue_woken s' = queue_woken s"
  using assms by (auto simp: extends_def)

lemma ClaimBus_extends [simp]: "extends s (snd (PIOS_MPU6500_ClaimBus s))"
  by (simp add: ClaimBus_cases)

lemma ReleaseBus_extends [simp]: "extends s (snd (PIOS_MPU6500_ReleaseBus s))"
  by (simp add: PIOS_MPU6500_ReleaseBus_def PIOS_SPI_ReleaseBus_def PIOS_SPI_RC_PinSet_def
      split: option.split)

lemma ReleaseBus_extends_after [simp]:
  "extends s s1 \<Longrightarrow> extends s (snd (PIOS_MPU6500_ReleaseBus s1))"
  by (rule extends_trans [OF _ ReleaseBus_extends])

lemma GetReg_extends [simp]: "extends s (snd (PIOS_MPU6500_GetReg reg s))"
  by (simp add: PIOS_MPU6500_GetReg_def ClaimBus_cases PIOS_SPI_TransferByte_def Let_def
      case_prod_beta split: option.split)

lemma SetReg_extends [simp]: "extends s (snd (PIOS_MPU6500_SetReg reg data s))"
  by (simp add: PIOS_MPU6500_SetReg_def ClaimBus_cases PIOS_SPI_TransferByte_def Let_def
      case_prod_beta split: option.split)

lemma SetReg_extends_after [simp]:
  "extends s s1 \<Longrightarrow> extends s (snd (PIOS_MPU6500_SetReg reg data s1))"
  by (rule extends_trans [OF _ SetReg_extends])

lemma Delay_extends [simp]: "extends s s1 \<Longrightarrow> extends s (PIOS_DELAY_WaitmS n s1)"
  by (simp add: PIOS_DELAY_WaitmS_def)

lemma WDG_extends [simp]: "extends s s1 \<Longrightarrow> extends s (PIOS_WDG_Clear s1)"
  by (simp add: PIOS_WDG_Clear_def)

lemma SetMaxGyro_extends [simp]: "extends s s1 \<Longrightarrow> extends s (PIOS_SENSORS_SetMaxGyro n s1)"
  by (simp add: PIOS_SENSORS_SetMaxGyro_def)

subsection \<open>The reset loop\<close>

lemma poll_value_Suc:
  "poll_value rd (Suc n) s = poll_value rd n (snd (rd (PIOS_DELAY_WaitmS 5 s)))"
  by (simp add: poll_value_def)

lemma poll_returns_if:
  "poll_value rd n s AND m = 0 \<Longrightarrow> poll_until_clear rd m s \<noteq> None"
proof (induction n arbitrary: s)
  case 0
  then show ?case
    by (subst poll_until_clear.simps) (simp add: poll_value_def Let_def case_prod_beta)
next
  case (Suc n)
  have "poll_until_clear rd m (snd (rd (PIOS_DELAY_WaitmS 5 s))) \<noteq> None"
    using Suc.prems by (intro Suc.IH) (simp add: poll_value_Suc)
  then show ?case
    by (subst poll_until_clear.simps) (simp add: Let_def case_prod_beta)
qed

lemma poll_returns_only_if:
  assumes "poll_until_clear rd m s = Some y"
  shows "\<exists>n. poll_value rd n s AND m = 0"
proof (rule poll_until_clear.raw_induct
    [where P = "\<lambda>rd m s y. \<exists>n. poll_value rd n s AND m = 0", OF _ assms])
  fix poll rd m s and y :: sys
  assume IH: "\<And>rd m s y. poll rd m s = Some y \<Longrightarrow> \<exists>n. poll_value rd n s AND m = 0"
    and body: "(let s1 = PIOS_DELAY_WaitmS 5 s; (v, s2) = rd s1
                in if v AND m \<noteq> 0 then poll rd m s2 else Some s2) = Some y"
  obtain v s2 where rd: "rd (PIOS_DELAY_WaitmS 5 s) = (v, s2)"
    by (cases "rd (PIOS_DELAY_WaitmS 5 s)")
  show "\<exists>n. poll_value rd n s AND m = 0"
  proof (cases "v AND m = 0")
    case True
    then have "poll_value rd 0 s AND m = 0" by (simp add: poll_value_def rd)
    then show ?thesis ..
  next
    case False
    then have "poll rd m s2 = Some y" using body by (simp add: rd Let_def)
    then obtain n where "poll_value rd n s2 AND m = 0" using IH by blast
    then have "poll_value rd (Suc n) s AND m = 0" by (simp add: poll_value_Suc rd)
    then show ?thesis ..
  qed
qed

lemma poll_result_extends:
  assumes ret: "poll_until_clear rd m s = Some y" and ext: "\<And>s. extends s (snd (rd s))"
  shows "extends s y"
proof -
  have "(\<forall>s. extends s (snd (rd s))) \<longrightarrow> extends s y"
  proof (rule poll_until_clear.raw_induct
      [where P = "\<lambda>rd m s y. (\<forall>s. extends s (snd (rd s))) \<longrightarrow> extends s y", OF _ ret])
    fix poll rd m s and y :: sys
    assume IH: "\<And>rd m s y. poll rd m s = Some y \<Longrightarrow>
                 (\<forall>s. extends s (snd (rd s))) \<longrightarrow> extends s y"
      and body: "(let s1 = PIOS_DELAY_WaitmS 5 s; (v, s2) = rd s1
                  in if v AND m \<noteq> 0 then poll rd m s2 else Some s2) = Some y"
    obtain v s2 where rd: "rd (PIOS_DELAY_WaitmS 5 s) = (v, s2)"
      by (cases "rd (PIOS_DELAY_WaitmS 5 s)")
    show "(\<forall>s. extends s (snd (rd s))) \<longrightarrow> extends s y"
    proof
      assume e: "\<forall>s. extends s (snd (rd s))"
      have "extends (PIOS_DELAY_WaitmS 5 s) s2" using e rd by (metis snd_conv)
      moreover have "extends s (PIOS_DELAY_WaitmS 5 s)" by simp
      ultimately have e2: "extends s s2" by (blast intro: extends_trans)
      show "extends s y"
      proof (cases "v AND m = 0")
        case True
        then have "y = s2" using body by (simp add: rd Let_def)
        then show ?thesis using e2 by simp
      next
        case False
        then have "poll rd m s2 = Some y" using body by (simp add: rd Let_def)
        then have "extends s2 y" using IH e by blast
        then show ?thesis using e2 by (blast intro: extends_trans)
      qed
    qed
  qed
  then show ?thesis using ext by blast
qed

subsection \<open>The setters on an allocated device\<close>

lemma SetReg_dev_ptr [simp]: "dev_ptr (snd (PIOS_MPU6500_SetReg reg data s)) = dev_ptr s"
  by (rule extends_fields(1) [OF SetReg_extends])

lemma Delay_dev_ptr [simp]: "dev_ptr (PIOS_DELAY_WaitmS n s) = dev_ptr s"
  by (simp add: PIOS_DELAY_WaitmS_def)

lemma WDG_dev_ptr [simp]: "dev_ptr (PIOS_WDG_Clear s) = dev_ptr s"
  by (simp add: PIOS_WDG_Clear_def)

lemma SetMaxGyro_dev_ptr [simp]: "dev_ptr (PIOS_SENSORS_SetMaxGyro n s) = dev_ptr s"
  by (simp add: PIOS_SENSORS_SetMaxGyro_def)

lemma SetLPF_allocated:
  assumes "dev_ptr s = Some dev"
  obtains s' where "PIOS_MPU6500_SetLPF h f s = Inr s'"
    and "dev_ptr s' = Some (dev\<lparr>filter := f\<rparr>)"
  using assms by (simp add: PIOS_MPU6500_SetLPF_def update_dev_def case_prod_beta)

lemma SetGyroRange_allocated:
  assumes "dev_ptr s = Some dev"
  obtains s' where "PIOS_MPU6500_SetGyroRange h r s = Inr s'"
    and "dev_ptr s' = Some (dev\<lparr>gyro_range := r\<rparr>)"
  using assms
  by (cases r) (simp_all add: PIOS_MPU6500_SetGyroRange_def update_dev_def case_prod_beta)

lemma SetAccelRange_allocated:
  assumes "dev_ptr s = Some dev"
  obtains s' where "PIOS_MPU6500_SetAccelRange h r s = Inr s'"
    and "dev_ptr s' = Some (dev\<lparr>accel_range := r\<rparr>)"
  using assms by (simp add: PIOS_MPU6500_SetAccelRange_def update_dev_def case_prod_beta)

lemma SetSampleRate_allocated:
  assumes "dev_ptr s = Some dev" and "r \<noteq> 0"
  obtains s' where "PIOS_MPU6500_SetSampleRate h r s = Inr s'" and "dev_ptr s' = Some dev"
proof -
  define fq :: "16 word" where
    "fq = (if filter dev \<noteq> PIOS_MPU60X0_LOWPASS_256_HZ then 1000 else 8000)"
  have "(if r > fq then fq else r) \<noteq> 0" using assms(2) by (simp add: fq_def)
  then have "PIOS_MPU6500_SetSampleRate h r s
       = Inr (snd (PIOS_MPU6500_SetReg (PIOS_MPU60X0_SMPLRT_DIV_REG h)
                (word_of_int (samplerate_divisor fq (if r > fq then fq else r))) s))"
    using assms by (auto simp add: PIOS_MPU6500_SetSampleRate_def fq_def Let_def)
  then show ?thesis using that assms(1) by simp
qed

text \<open>
  The tail shared by both sequences (filter, rate, gyro range, accel range in either
  order, then register writes and the flag), on an allocated device and a non-zero
  default rate: it returns, the flag is set, and the cached settings are the defaults.
\<close>

lemma Config_simple_allocated:
  assumes d: "dev_ptr s = Some dev" and r: "default_samplerate c \<noteq> 0"
  obtains s' dev' where "Config_simple b h c s = Inr s'" and "dev_ptr s' = Some dev'"
    and "configured dev'" and "gyro_range dev' = PIOS_MPU60X0_SCALE_500_DEG"
    and "PIOS_MPU6500_ACCEL b \<longrightarrow> accel_range dev' = PIOS_MPU60X0_ACCEL_8G"
    and "filter dev' = default_filter c"
proof -
  define s0 where "s0 =
     (let s = snd (PIOS_MPU6500_SetReg (PIOS_MPU60X0_PWR_MGMT_REG h)
                     (PIOS_MPU60X0_PWRMGMT_IMU_RST h) s);
          s = PIOS_DELAY_WaitmS 50 s;
          s = PIOS_WDG_Clear s;
          s = snd (PIOS_MPU6500_SetReg (PIOS_MPU60X0_USER_CTRL_REG h)
                     (PIOS_MPU60X0_USERCTL_GYRO_RST h) s);
          s = PIOS_DELAY_WaitmS 10 s;
          s = snd (PIOS_MPU6500_SetReg (PIOS_MPU60X0_PWR_MGMT_REG h) (Pwr_mgmt_clk c) s)
      in snd (PIOS_MPU6500_SetReg (PIOS_MPU60X0_USER_CTRL_REG h) (User_ctl c) s))"
  have d0: "dev_ptr s0 = Some dev" by (simp add: s0_def d Let_def)
  obtain s1 where 1: "PIOS_MPU6500_SetLPF h (default_filter c) s0 = Inr s1"
    and d1: "dev_ptr s1 = Some (dev\<lparr>filter := default_filter c\<rparr>)"
    using SetLPF_allocated [OF d0] by blast
  obtain s2 where 2: "PIOS_MPU6500_SetSampleRate h (default_samplerate c) s1 = Inr s2"
    and d2: "dev_ptr s2 = Some (dev\<lparr>filter := default_filter c\<rparr>)"
    using SetSampleRate_allocated [OF d1 r] by blast
  obtain s3 where 3: "PIOS_MPU6500_SetGyroRange h PIOS_MPU60X0_SCALE_500_DEG s2 = Inr s3"
    and d3: "dev_ptr s3 = Some (dev\<lparr>filter := default_filter c,
                                  gyro_range := PIOS_MPU60X0_SCALE_500_DEG\<rparr>)"
    using SetGyroRange_allocated [OF d2] by blast
  obtain s4 dev4 where 4: "(if PIOS_MPU6500_ACCEL b
                   then PIOS_MPU6500_SetAccelRange h PIOS_MPU60X0_ACCEL_8G s3
                   else Inr s3) = Inr s4"
    and d4: "dev_ptr s4 = Some dev4" "gyro_range dev4 = PIOS_MPU60X0_SCALE_500_DEG"
      "filter dev4 = default_filter c"
      "PIOS_MPU6500_ACCEL b \<longrightarrow> accel_range dev4 = PIOS_MPU60X0_ACCEL_8G"
  proof (cases "PIOS_MPU6500_ACCEL b")
    case True
    obtain s4 where "PIOS_MPU6500_SetAccelRange h PIOS_MPU60X0_ACCEL_8G s3 = Inr s4"
      and "dev_ptr s4 = Some (dev\<lparr>filter := default_filter c,
              gyro_range := PIOS_MPU60X0_SCALE_500_DEG,
              accel_range := PIOS_MPU60X0_ACCEL_8G\<rparr>)"
      using SetAccelRange_allocated [OF d3] by blast
    then show ?thesis using True that by simp
  next
    case False
    then show ?thesis using d3 that by simp
  qed
  have "Config_simple b h c s =
      update_dev (\<lambda>dev. dev\<lparr>configured := True\<rparr>)
        (snd (PIOS_MPU6500_SetReg (PIOS_MPU60X0_INT_EN_REG h) (interrupt_en c)
          (snd (PIOS_MPU6500_SetReg (PIOS_MPU60X0_INT_CFG_REG h) (interrupt_cfg c) s4))))"
proof -
    have "Config_simple b h c s =
      and_then (PIOS_MPU6500_SetLPF h (default_filter c) s0) (\<lambda>s.
      and_then (PIOS_MPU6500_SetSampleRate h (default_samplerate c) s) (\<lambda>s.
      and_then (PIOS_MPU6500_SetGyroRange h PIOS_MPU60X0_SCALE_500_DEG s) (\<lambda>s.
      and_then (if PIOS_MPU6500_ACCEL b
                then PIOS_MPU6500_SetAccelRange h PIOS_MPU60X0_ACCEL_8G s
                else Inr s) (\<lambda>s.
        update_dev (\<lambda>dev. dev\<lparr>configured := True\<rparr>)
          (snd (PIOS_MPU6500_SetReg (PIOS_MPU60X0_INT_EN_REG h) (interrupt_en c)
            (snd (PIOS_MPU6500_SetReg (PIOS_MPU60X0_INT_CFG_REG h) (interrupt_cfg c)
               s))))))))"
      by (simp add: Config_simple_def s0_def Let_def)
    then show ?thesis by (simp add: 1 2 3 4 and_then_def)
  qed
  also have "\<dots> = Inr ((snd (PIOS_MPU6500_SetReg (PIOS_MPU60X0_INT_EN_REG h) (interrupt_en c)
          (snd (PIOS_MPU6500_SetReg (PIOS_MPU60X0_INT_CFG_REG h) (interrupt_cfg c) s4))))
          \<lparr>dev_ptr := Some (dev4\<lparr>configured := True\<rparr>)\<rparr>)"
    by (simp add: update_dev_def d4)
  finally show ?thesis using that [of _ "dev4\<lparr>configured := True\<rparr>"] d4 by simp
qed

lemma Config_after_reset_allocated:
  assumes d: "dev_ptr s = Some dev" and r: "default_samplerate c \<noteq> 0"
  obtains s' dev' where "Config_after_reset b h c s = Inr s'" and "dev_ptr s' = Some dev'"
    and "configured dev'" and "gyro_range dev' = PIOS_MPU60X0_SCALE_500_DEG"
    and "PIOS_MPU6500_ACCEL b \<longrightarrow> accel_range dev' = PIOS_MPU60X0_ACCEL_8G"
    and "filter dev' = default_filter c"
proof -
  define s0 where "s0 =
     (let s = PIOS_DELAY_WaitmS 25 s;
          s = snd (PIOS_MPU6500_SetReg (PIOS_MPU60X0_PWR_MGMT_REG h) (Pwr_mgmt_clk c) s);
          s = snd (PIOS_MPU6500_SetReg (PIOS_MPU60X0_INT_CFG_REG h) (interrupt_cfg c) s)
      in snd (PIOS_MPU6500_SetReg (PIOS_MPU60X0_INT_EN_REG h) (interrupt_en c) s))"
  have d0: "dev_ptr s0 = Some dev" by (simp add: s0_def d Let_def)
  obtain s1 dev1 where 1: "(if PIOS_MPU6500_ACCEL b
                   then PIOS_MPU6500_SetAccelRange h PIOS_MPU60X0_ACCEL_8G s0
                   else Inr s0) = Inr s1"
    and d1: "dev_ptr s1 = Some dev1"
      "PIOS_MPU6500_ACCEL b \<longrightarrow> accel_range dev1 = PIOS_MPU60X0_ACCEL_8G"
  proof (cases "PIOS_MPU6500_ACCEL b")
    case True
    obtain s1 where "PIOS_MPU6500_SetAccelRange h PIOS_MPU60X0_ACCEL_8G s0 = Inr s1"
      and "dev_ptr s1 = Some (dev\<lparr>accel_range := PIOS_MPU60X0_ACCEL_8G\<rparr>)"
      using SetAccelRange_allocated [OF d0] by blast
    then show ?thesis using True that by simp
  next
    case False
    then show ?thesis using d0 that by simp
  qed
  obtain s2 where 2: "PIOS_MPU6500_SetLPF h (default_filter c) s1 = Inr s2"
    and d2: "dev_ptr s2 = Some (dev1\<lparr>filter := default_filter c\<rparr>)"
    using SetLPF_allocated [OF d1(1)] by blast
  obtain s3 where 3: "PIOS_MPU6500_SetSampleRate h (default_samplerate c) s2 = Inr s3"
    and d3: "dev_ptr s3 = Some (dev1\<lparr>filter := default_filter c\<rparr>)"
    using SetSampleRate_allocated [OF d2 r] by blast
  obtain s4 where 4: "PIOS_MPU6500_SetGyroRange h PIOS_MPU60X0_SCALE_500_DEG s3 = Inr s4"
    and d4: "dev_ptr s4 = Some (dev1\<lparr>filter := default_filter c,
                                  gyro_range := PIOS_MPU60X0_SCALE_500_DEG\<rparr>)"
    using SetGyroRange_allocated [OF d3] by blast
  define s5 where "s5 =
     (let s = snd (PIOS_MPU6500_SetReg (PIOS_MPU60X0_USER_CTRL_REG h) (User_ctl c) s4);
          s = snd (PIOS_MPU6500_SetReg (PIOS_MPU60X0_PWR_MGMT_REG h) (Pwr_mgmt_clk c) s);
          s = snd (PIOS_MPU6500_SetReg (PIOS_MPU60X0_INT_CFG_REG h) (interrupt_cfg c) s)
      in snd (PIOS_MPU6500_SetReg (PIOS_MPU60X0_INT_EN_REG h) (interrupt_en c) s))"
  have d5: "dev_ptr s5 = Some (dev1\<lparr>filter := default_filter c,
                                  gyro_range := PIOS_MPU60X0_SCALE_500_DEG\<rparr>)"
    by (simp add: s5_def d4 Let_def)
  have "Config_after_reset b h c s = update_dev (\<lambda>dev. dev\<lparr>configured := True\<rparr>) s5"
proof -
    have "Config_after_reset b h c s =
      and_then (if PIOS_MPU6500_ACCEL b
                then PIOS_MPU6500_SetAccelRange h PIOS_MPU60X0_ACCEL_8G s0
                else Inr s0) (\<lambda>s.
      and_then (PIOS_MPU6500_SetLPF h (default_filter c) s) (\<lambda>s.
      and_then (PIOS_MPU6500_SetSampleRate h (default_samplerate c) s) (\<lambda>s.
      and_then (PIOS_MPU6500_SetGyroRange h PIOS_MPU60X0_SCALE_500_DEG s) (\<lambda>s.
        update_dev (\<lambda>dev. dev\<lparr>configured := True\<rparr>)
          (let s = snd (PIOS_MPU6500_SetReg (PIOS_MPU60X0_USER_CTRL_REG h) (User_ctl c) s);
               s = snd (PIOS_MPU6500_SetReg (PIOS_MPU60X0_PWR_MGMT_REG h) (Pwr_mgmt_clk c) s);
               s = snd (PIOS_MPU6500_SetReg (PIOS_MPU60X0_INT_CFG_REG h) (interrupt_cfg c) s)
           in snd (PIOS_MPU6500_SetReg (PIOS_MPU60X0_INT_EN_REG h) (interrupt_en c) s))))))"
      by (simp add: Config_after_reset_def s0_def Let_def)
    then show ?thesis by (simp add: 1 2 3 4 and_then_def s5_def)
  qed
  also have "\<dots> = Inr (s5\<lparr>dev_ptr := Some (dev1\<lparr>filter := default_filter c,
        gyro_range := PIOS_MPU60X0_SCALE_500_DEG, configured := True\<rparr>)\<rparr>)"
    by (simp add: update_dev_def d5)
  finally show ?thesis
    using that [of _ "dev1\<lparr>filter := default_filter c,
        gyro_range := PIOS_MPU60X0_SCALE_500_DEG, configured := True\<rparr>"] d1 by simp
qed

subsection \<open>Runs of the configuration sequence\<close>

lemma poll_state_extends: "extends s (poll_state (PIOS_MPU6500_GetReg reg) n s)"
proof (induction n arbitrary: s)
  case 0
  show ?case by simp
next
  case (Suc n)
  have "extends s (snd (PIOS_MPU6500_GetReg reg (PIOS_DELAY_WaitmS 5 s)))"
    by (rule extends_trans [OF _ GetReg_extends]) simp
  then show ?case using Suc.IH by (auto intro: extends_trans)
qed

lemma before_first_loop_extends: "extends s (before_first_loop h c s)"
  by (simp add: before_first_loop_def Let_def)

lemma Config_polling_unfold:
  "Config_polling b h c s =
     (case poll_until_clear (PIOS_MPU6500_GetReg (PIOS_MPU60X0_PWR_MGMT_REG h)) 0x80
             (before_first_loop h c s) of
        None \<Rightarrow> None
      | Some s1 \<Rightarrow>
          (case poll_until_clear (PIOS_MPU6500_GetReg (PIOS_MPU60X0_USER_CTRL_REG h)) 0x07
                  (snd (PIOS_MPU6500_SetReg (PIOS_MPU60X0_USER_CTRL_REG h)
                          (0x80 OR 0x01 OR 0x02 OR 0x04) (PIOS_DELAY_WaitmS 25 s1))) of
             None \<Rightarrow> None
           | Some s2 \<Rightarrow> Some (Config_after_reset b h c s2)))"
  by (simp add: Config_polling_def before_first_loop_def Let_def split: option.split)

lemma Config_polling_returns:
  assumes "Config_polling b h c s = Some r"
  obtains s2 where "extends s s2" and "r = Config_after_reset b h c s2"
proof -
  obtain s1 where 1: "poll_until_clear (PIOS_MPU6500_GetReg (PIOS_MPU60X0_PWR_MGMT_REG h)) 0x80
             (before_first_loop h c s) = Some s1"
    using assms by (auto simp add: Config_polling_unfold split: option.splits)
  obtain s2 where 2: "poll_until_clear (PIOS_MPU6500_GetReg (PIOS_MPU60X0_USER_CTRL_REG h)) 0x07
                  (snd (PIOS_MPU6500_SetReg (PIOS_MPU60X0_USER_CTRL_REG h)
                          (0x80 OR 0x01 OR 0x02 OR 0x04) (PIOS_DELAY_WaitmS 25 s1))) = Some s2"
    and r: "r = Config_after_reset b h c s2"
    using assms 1 by (auto simp add: Config_polling_unfold split: option.splits)
  have "extends (before_first_loop h c s) s1"
    by (rule poll_result_extends [OF 1]) simp
  then have e1: "extends s s1"
    using before_first_loop_extends by (blast intro: extends_trans)
  have "extends (snd (PIOS_MPU6500_SetReg (PIOS_MPU60X0_USER_CTRL_REG h)
                          (0x80 OR 0x01 OR 0x02 OR 0x04) (PIOS_DELAY_WaitmS 25 s1))) s2"
    by (rule poll_result_extends [OF 2]) simp
  moreover have "extends s1 (snd (PIOS_MPU6500_SetReg (PIOS_MPU60X0_USER_CTRL_REG h)
                          (0x80 OR 0x01 OR 0x02 OR 0x04) (PIOS_DELAY_WaitmS 25 s1)))"
    by simp
  ultimately have "extends s s2" using e1 by (blast intro: extends_trans)
  then show ?thesis using r that by blast
qed

text \<open>
  Whatever the register writes return, a run on an allocated device with a non-zero
  default rate that comes back has set the flag and cached the default ranges.
\<close>

lemma Config_returned_state:
  assumes d: "dev_ptr s = Some dev" and r: "default_samplerate c \<noteq> 0"
    and ret: "PIOS_MPU6500_Config b h c s \<noteq> None"
  obtains dev' where "dev_after (PIOS_MPU6500_Config b h c s) = Some dev'"
    and "configured dev'" and "gyro_range dev' = PIOS_MPU60X0_SCALE_500_DEG"
    and "PIOS_MPU6500_ACCEL b \<longrightarrow> accel_range dev' = PIOS_MPU60X0_ACCEL_8G"
    and "filter dev' = default_filter c"
proof (cases "PIOS_MPU6500_SIMPLE_INIT_SEQUENCE b")
  case True
  obtain s' dev' where "Config_simple b h c s = Inr s'" "dev_ptr s' = Some dev'"
    "configured dev'" "gyro_range dev' = PIOS_MPU60X0_SCALE_500_DEG"
    "PIOS_MPU6500_ACCEL b \<longrightarrow> accel_range dev' = PIOS_MPU60X0_ACCEL_8G"
    "filter dev' = default_filter c"
    using Config_simple_allocated [OF d r] by blast
  then show ?thesis using True that by (simp add: PIOS_MPU6500_Config_def dev_after_def)
next
  case False
  then obtain res where res: "Config_polling b h c s = Some res"
    using ret by (auto simp add: PIOS_MPU6500_Config_def)
  obtain s2 where e: "extends s s2" and rr: "res = Config_after_reset b h c s2"
    using Config_polling_returns [OF res] by blast
  have d2: "dev_ptr s2 = Some dev" using extends_fields(1) [OF e] d by simp
  obtain s' dev' where "Config_after_reset b h c s2 = Inr s'" "dev_ptr s' = Some dev'"
    "configured dev'" "gyro_range dev' = PIOS_MPU60X0_SCALE_500_DEG"
    "PIOS_MPU6500_ACCEL b \<longrightarrow> accel_range dev' = PIOS_MPU60X0_ACCEL_8G"
    "filter dev' = default_filter c"
    using Config_after_reset_allocated [OF d2 r] by blast
  then show ?thesis
    using False that res rr by (simp add: PIOS_MPU6500_Config_def dev_after_def)
qed

lemma poll_never_returns:
  "(\<forall>n. poll_value rd n s AND m \<noteq> 0) \<Longrightarrow> poll_until_clear rd m s = None"
  using poll_returns_only_if [of rd m s] by (cases "poll_until_clear rd m s") auto

lemma Config_polling_stuck:
  assumes "\<forall>n. poll_value (PIOS_MPU6500_GetReg (PIOS_MPU60X0_PWR_MGMT_REG h)) n
                  (before_first_loop h c s) AND 0x80 \<noteq> 0"
  shows "Config_polling b h c s = None"
  by (simp add: Config_polling_unfold poll_never_returns [OF assms])

lemma GetReg_bit7_stuck:
  assumes "spi_xfer_ret s = (\<lambda>_. 0x80)"
  shows "fst (PIOS_MPU6500_GetReg reg s) AND 0x80 \<noteq> 0"
  by (simp add: GetReg_result assms)

lemma poll_value_bit7_stuck:
  assumes "spi_xfer_ret s = (\<lambda>_. 0x80)"
  shows "poll_value (PIOS_MPU6500_GetReg reg) n s AND 0x80 \<noteq> 0"
proof -
  have "extends s (PIOS_DELAY_WaitmS 5 (poll_state (PIOS_MPU6500_GetReg reg) n s))"
    using poll_state_extends by simp
  then have "spi_xfer_ret (PIOS_DELAY_WaitmS 5 (poll_state (PIOS_MPU6500_GetReg reg) n s))
      = (\<lambda>_. 0x80)"
    using extends_fields(3) assms by metis
  then show ?thesis unfolding poll_value_def by (rule GetReg_bit7_stuck)
qed

lemma GetReg_claim_refused:
  assumes "spi_claim_ret s = (\<lambda>_. -1)"
  shows "fst (PIOS_MPU6500_GetReg reg s) = -1"
  by (simp add: GetReg_result ClaimBus_cases assms)

lemma poll_value_claim_refused:
  assumes "spi_claim_ret s = (\<lambda>_. -1)"
  shows "poll_value (PIOS_MPU6500_GetReg reg) n s = -1"
proof -
  have "extends s (PIOS_DELAY_WaitmS 5 (poll_state (PIOS_MPU6500_GetReg reg) n s))"
    using poll_state_extends by simp
  then have "spi_claim_ret (PIOS_DELAY_WaitmS 5 (poll_state (PIOS_MPU6500_GetReg reg) n s))
      = (\<lambda>_. -1)"
    using extends_fields(2) assms by metis
  then show ?thesis unfolding poll_value_def by (rule GetReg_claim_refused)
qed

subsection \<open>The faulty buses\<close>

lemma bound_dev_valid [simp]:
  "spi_id bound_dev \<noteq> 0" "magic bound_dev = pios_mpu6500_dev_MAGIC"
  by (simp_all add: bound_dev_def)

lemma noisy_GetReg:
  assumes "extends noisy_bus s"
  shows "fst (PIOS_MPU6500_GetReg reg s) = 8"
proof -
  have "dev_ptr s = Some bound_dev" "spi_claim_ret s = (\<lambda>_. 0)" "spi_xfer_ret s = (\<lambda>_. 8)"
    using extends_fields [OF assms] by (simp_all add: noisy_bus_def quiet_bus_def)
  then show ?thesis by (simp add: GetReg_result ClaimBus_cases)
qed

lemma noisy_SetReg:
  assumes "extends noisy_bus s"
  shows "fst (PIOS_MPU6500_SetReg reg data s) = -2"
proof -
  have "dev_ptr s = Some bound_dev" "spi_claim_ret s = (\<lambda>_. 0)" "spi_xfer_ret s = (\<lambda>_. 8)"
    using extends_fields [OF assms] by (simp_all add: noisy_bus_def quiet_bus_def)
  then show ?thesis by (simp add: SetReg_result ClaimBus_cases)
qed

lemma noisy_poll_returns:
  assumes e: "extends noisy_bus s" and m: "8 AND m = (0::int)"
  obtains s' where "poll_until_clear (PIOS_MPU6500_GetReg reg) m s = Some s'"
    and "extends noisy_bus s'"
proof -
  have "extends noisy_bus (PIOS_DELAY_WaitmS 5 s)" using e by simp
  then have "poll_value (PIOS_MPU6500_GetReg reg) 0 s AND m = 0"
    using m by (simp add: poll_value_def noisy_GetReg)
  then obtain s' where s': "poll_until_clear (PIOS_MPU6500_GetReg reg) m s = Some s'"
    using poll_returns_if by blast
  have "extends s s'" by (rule poll_result_extends [OF s']) simp
  then have "extends noisy_bus s'" using e by (blast intro: extends_trans)
  then show ?thesis using s' that by blast
qed

lemma noisy_Config_returns:
  "PIOS_MPU6500_Config polling_build mpu60x0_regs board_cfg noisy_bus \<noteq> None"
proof -
  have m80: "(8::int) AND 0x80 = 0" and m7: "(8::int) AND 0x07 = 0" by simp_all
  have "extends noisy_bus (before_first_loop mpu60x0_regs board_cfg noisy_bus)"
    by (rule before_first_loop_extends)
  then obtain s1 where 1: "poll_until_clear
        (PIOS_MPU6500_GetReg (PIOS_MPU60X0_PWR_MGMT_REG mpu60x0_regs)) 0x80
        (before_first_loop mpu60x0_regs board_cfg noisy_bus) = Some s1"
    and e1: "extends noisy_bus s1"
    using noisy_poll_returns [OF _ m80] by blast
  have "extends noisy_bus
          (snd (PIOS_MPU6500_SetReg (PIOS_MPU60X0_USER_CTRL_REG mpu60x0_regs)
                  (0x80 OR 0x01 OR 0x02 OR 0x04) (PIOS_DELAY_WaitmS 25 s1)))"
    using e1 by simp
  then obtain s2 where 2: "poll_until_clear
        (PIOS_MPU6500_GetReg (PIOS_MPU60X0_USER_CTRL_REG mpu60x0_regs)) 0x07
        (snd (PIOS_MPU6500_SetReg (PIOS_MPU60X0_USER_CTRL_REG mpu60x0_regs)
                  (0x80 OR 0x01 OR 0x02 OR 0x04) (PIOS_DELAY_WaitmS 25 s1))) = Some s2"
    using noisy_poll_returns [OF _ m7] by blast
  show ?thesis
    using 1 2 by (simp add: PIOS_MPU6500_Config_def polling_build_def Config_polling_unfold)
qed

lemma refusing_SetReg:
  assumes "extends refusing_bus s"
  shows "fst (PIOS_MPU6500_SetReg reg data s) = -1"
proof -
  have "dev_ptr s = Some bound_dev" "spi_claim_ret s = (\<lambda>_. -1)"
    using extends_fields [OF assms] by (simp_all add: refusing_bus_def quiet_bus_def)
  then show ?thesis by (simp add: SetReg_result ClaimBus_cases)
qed

lemma faulty_bus_dev:
  "dev_ptr refusing_bus = Some bound_dev" "dev_ptr noisy_bus = Some bound_dev"
  "dev_ptr stuck_bus = Some bound_dev" "dev_ptr (quiet_bus p) = p"
  by (simp_all add: refusing_bus_def noisy_bus_def stuck_bus_def quiet_bus_def)

lemma board_cfg_rate: "default_samplerate board_cfg \<noteq> 0"
  by (simp add: board_cfg_def)

lemma simple_Config_returns:
  "PIOS_MPU6500_Config simple_build h c s \<noteq> None"
  by (simp add: PIOS_MPU6500_Config_def simple_build_def)

lemma configured_after:
  assumes "dev_ptr s = Some dev" and "default_samplerate c \<noteq> 0"
    and "PIOS_MPU6500_Config b h c s \<noteq> None"
  shows "map_option configured (dev_after (PIOS_MPU6500_Config b h c s)) = Some True"
proof -
  obtain dev' where "dev_after (PIOS_MPU6500_Config b h c s) = Some dev'" "configured dev'"
    using Config_returned_state [OF assms] by blast
  then show ?thesis by simp
qed

lemma ranges_after:
  assumes "dev_ptr s = Some dev" and "default_samplerate c \<noteq> 0"
    and "PIOS_MPU6500_Config b h c s \<noteq> None"
  shows "map_option gyro_range (dev_after (PIOS_MPU6500_Config b h c s))
           = Some PIOS_MPU60X0_SCALE_500_DEG"
    and "PIOS_MPU6500_ACCEL b \<Longrightarrow>
         map_option accel_range (dev_after (PIOS_MPU6500_Config b h c s))
           = Some PIOS_MPU60X0_ACCEL_8G"
proof -
  obtain dev' where d: "dev_after (PIOS_MPU6500_Config b h c s) = Some dev'"
    "gyro_range dev' = PIOS_MPU60X0_SCALE_500_DEG"
    "PIOS_MPU6500_ACCEL b \<longrightarrow> accel_range dev' = PIOS_MPU60X0_ACCEL_8G"
    using Config_returned_state [OF assms] by blast
  show "map_option gyro_range (dev_after (PIOS_MPU6500_Config b h c s))
           = Some PIOS_MPU60X0_SCALE_500_DEG"
    using d by simp
  show "map_option accel_range (dev_after (PIOS_MPU6500_Config b h c s))
           = Some PIOS_MPU60X0_ACCEL_8G" if "PIOS_MPU6500_ACCEL b"
    using d that by simp
qed

text \<open>
  C1, as amended. The sequence discards the result of every register write, so on an
  allocated device and with a non-zero default rate, every run that returns has set
  the configured flag, whether the writes succeeded or not. The sequence of the
  build with \<open>PIOS_MPU6500_SIMPLE_INIT_SEQUENCE\<close> always returns.
\<close>

theorem Config_sets_flag_whatever_the_writes_return:
  "dev_ptr s = Some dev \<Longrightarrow> default_samplerate c \<noteq> 0 \<Longrightarrow>
     (PIOS_MPU6500_SIMPLE_INIT_SEQUENCE b \<longrightarrow> PIOS_MPU6500_Config b h c s \<noteq> None)
     \<and> (PIOS_MPU6500_Config b h c s \<noteq> None \<longrightarrow>
          map_option configured (dev_after (PIOS_MPU6500_Config b h c s)) = Some True)"
  using configured_after [of s dev c b h] by (simp add: PIOS_MPU6500_Config_def)

text \<open>On the bus that acknowledges no write, in the build with the reset loops.\<close>

theorem Config_sets_flag_whatever_the_writes_return_witness:
  "dev_ptr noisy_bus = Some bound_dev \<and> default_samplerate board_cfg \<noteq> 0
   \<and> PIOS_MPU6500_Config polling_build mpu60x0_regs board_cfg noisy_bus \<noteq> None
   \<and> map_option configured
         (dev_after (PIOS_MPU6500_Config polling_build mpu60x0_regs board_cfg noisy_bus))
       = Some True"
  using Config_sets_flag_whatever_the_writes_return
          [OF faulty_bus_dev(2) board_cfg_rate, of polling_build mpu60x0_regs]
        faulty_bus_dev(2) board_cfg_rate noisy_Config_returns
  by simp

text \<open>
  C1 as stated fails: on the bus that is never granted the first register write of
  the sequence returns -1 (and so does every later one), and the run still ends with
  the flag set; in the build with the reset loops, on the bus that acknowledges no
  write, the first write returns -2 and the flag is set all the same.
\<close>

theorem Config_flag_counterexample:
  "fst (PIOS_MPU6500_SetReg (PIOS_MPU60X0_PWR_MGMT_REG mpu60x0_regs)
          (PIOS_MPU60X0_PWRMGMT_IMU_RST mpu60x0_regs) refusing_bus) = -1
   \<and> map_option configured
         (dev_after (PIOS_MPU6500_Config simple_build mpu60x0_regs board_cfg refusing_bus))
       = Some True
   \<and> fst (PIOS_MPU6500_SetReg (PIOS_MPU60X0_PWR_MGMT_REG mpu60x0_regs)
          (0x80 OR Pwr_mgmt_clk board_cfg)
          (PIOS_DELAY_WaitmS 10 (snd (PIOS_MPU6500_ReleaseBus
             (PIOS_DELAY_WaitmS 1 (snd (PIOS_MPU6500_ClaimBus noisy_bus))))))) = -2
   \<and> map_option configured
         (dev_after (PIOS_MPU6500_Config polling_build mpu60x0_regs board_cfg noisy_bus))
       = Some True"
proof -
  have "extends noisy_bus (PIOS_DELAY_WaitmS 10 (snd (PIOS_MPU6500_ReleaseBus
             (PIOS_DELAY_WaitmS 1 (snd (PIOS_MPU6500_ClaimBus noisy_bus))))))"
    by simp
  then show ?thesis
    using refusing_SetReg [OF extends_refl]
      configured_after [OF faulty_bus_dev(1) board_cfg_rate simple_Config_returns]
      configured_after [OF faulty_bus_dev(2) board_cfg_rate noisy_Config_returns]
    by (simp add: noisy_SetReg)
qed

subsection \<open>Termination of the reset loops\<close>

lemma poll_returns_iff:
  "poll_until_clear rd m s \<noteq> None \<longleftrightarrow> (\<exists>n. poll_value rd n s AND m = 0)"
  using poll_returns_if [of rd _ s m] poll_returns_only_if [of rd m s] by auto

lemma stuck_Config_never_returns:
  "PIOS_MPU6500_Config polling_build mpu60x0_regs board_cfg stuck_bus = None"
proof -
  have "extends stuck_bus (before_first_loop mpu60x0_regs board_cfg stuck_bus)"
    by (rule before_first_loop_extends)
  then have "spi_xfer_ret (before_first_loop mpu60x0_regs board_cfg stuck_bus) = (\<lambda>_. 0x80)"
    using extends_fields(3) by (simp add: stuck_bus_def quiet_bus_def)
  then have "Config_polling polling_build mpu60x0_regs board_cfg stuck_bus = None"
    by (intro Config_polling_stuck allI poll_value_bit7_stuck)
  then show ?thesis by (simp add: PIOS_MPU6500_Config_def polling_build_def)
qed

lemma refusing_polls:
  "poll_value (PIOS_MPU6500_GetReg reg) n (before_first_loop h c refusing_bus) = -1"
proof -
  have "extends refusing_bus (before_first_loop h c refusing_bus)"
    by (rule before_first_loop_extends)
  then have "spi_claim_ret (before_first_loop h c refusing_bus) = (\<lambda>_. -1)"
    using extends_fields(2) by (simp add: refusing_bus_def quiet_bus_def)
  then show ?thesis by (rule poll_value_claim_refused)
qed

text \<open>
  C4, as amended. A reset loop has no bound on its rounds: it returns exactly when
  some round reads the awaited bits clear. So when the reset bit reads as set in every
  round of the first loop (a read that fails returns -1, whose bits are all set), the
  configuration sequence with the loops never returns.
\<close>

theorem reset_loop_returns_iff_bits_clear:
  "(poll_until_clear rd m s \<noteq> None \<longleftrightarrow> (\<exists>n. poll_value rd n s AND m = 0))
   \<and> (\<not> PIOS_MPU6500_SIMPLE_INIT_SEQUENCE b \<longrightarrow>
        (\<forall>n. poll_value (PIOS_MPU6500_GetReg (PIOS_MPU60X0_PWR_MGMT_REG h)) n
                (before_first_loop h c s0) AND 0x80 \<noteq> 0) \<longrightarrow>
        PIOS_MPU6500_Config b h c s0 = None)"
  using poll_returns_iff [of rd m s] Config_polling_stuck [of h c s0 b]
  by (simp add: PIOS_MPU6500_Config_def)

text \<open>
  On the quiet bus the first round of a loop reads 0 and the loop returns; on the bus
  that is never granted every round reads -1 and the sequence does not return.
\<close>

theorem reset_loop_returns_iff_bits_clear_witness:
  "poll_value (PIOS_MPU6500_GetReg 0x6B) 0 (quiet_bus (Some bound_dev)) AND 0x80 = 0
   \<and> poll_until_clear (PIOS_MPU6500_GetReg 0x6B) 0x80 (quiet_bus (Some bound_dev)) \<noteq> None
   \<and> \<not> PIOS_MPU6500_SIMPLE_INIT_SEQUENCE polling_build
   \<and> (\<forall>n. poll_value (PIOS_MPU6500_GetReg (PIOS_MPU60X0_PWR_MGMT_REG mpu60x0_regs)) n
             (before_first_loop mpu60x0_regs board_cfg refusing_bus) AND 0x80 \<noteq> 0)
   \<and> PIOS_MPU6500_Config polling_build mpu60x0_regs board_cfg refusing_bus = None"
proof -
  have q: "poll_value (PIOS_MPU6500_GetReg 0x6B) 0 (quiet_bus (Some bound_dev)) AND 0x80 = 0"
    by (simp add: poll_value_def GetReg_result ClaimBus_cases PIOS_DELAY_WaitmS_def
        quiet_bus_def)
  have r: "\<forall>n. poll_value (PIOS_MPU6500_GetReg (PIOS_MPU60X0_PWR_MGMT_REG mpu60x0_regs)) n
             (before_first_loop mpu60x0_regs board_cfg refusing_bus) AND 0x80 \<noteq> 0"
    by (simp add: refusing_polls)
  have b: "\<not> PIOS_MPU6500_SIMPLE_INIT_SEQUENCE polling_build"
    by (simp add: polling_build_def)
  show ?thesis
    using q r b
      reset_loop_returns_iff_bits_clear
        [where rd = "PIOS_MPU6500_GetReg 0x6B" and m = "0x80"
           and s = "quiet_bus (Some bound_dev)" and b = polling_build
           and h = mpu60x0_regs and c = board_cfg and ?s0.0 = refusing_bus]
    by blast
qed

text \<open>
  C4 as stated fails: on the bus whose transfers always return 0x80 the reset bit
  never reads as clear, and the configuration sequence with the loops does not
  return.
\<close>

theorem reset_loop_counterexample:
  "PIOS_MPU6500_Config polling_build mpu60x0_regs board_cfg stuck_bus = None"
  by (rule stuck_Config_never_returns)

subsection \<open>What reaches the sensor\<close>

lemma chip_after_append: "chip_after (xs @ ys) = foldl chip_step (chip_after xs) ys"
  by (simp add: chip_after_def)

lemma write_address_bit: "(0x7f AND reg) AND 0x80 = (0 :: 8 word)"
proof -
  have "(0x7f AND reg) AND 0x80 = reg AND (0x7f AND (0x80 :: 8 word))"
    by (simp only: and.assoc and.commute and.left_commute)
  also have "\<dots> = 0" by simp
  finally show ?thesis .
qed

lemma SetReg_log:
  "log (snd (PIOS_MPU6500_SetReg reg data s)) =
     log s @
     (if PIOS_MPU6500_Validate (dev_ptr s) \<noteq> 0 then []
      else if spi_claim_ret s (length (log s)) \<noteq> 0
        then [Ev_SPI_ClaimBus (spi_id (the (dev_ptr s)))]
      else [Ev_SPI_ClaimBus (spi_id (the (dev_ptr s))),
            Ev_SPI_RC_PinSet (spi_id (the (dev_ptr s))) (slave_num (the (dev_ptr s))) 0,
            Ev_SPI_TransferByte (spi_id (the (dev_ptr s))) (0x7f AND reg)]
           @ (if spi_xfer_ret s (length (log s) + 2) \<noteq> 0 then []
              else [Ev_SPI_TransferByte (spi_id (the (dev_ptr s))) data])
           @ [Ev_SPI_RC_PinSet (spi_id (the (dev_ptr s))) (slave_num (the (dev_ptr s))) 1,
              Ev_SPI_ReleaseBus (spi_id (the (dev_ptr s)))])"
  by (auto simp add: PIOS_MPU6500_SetReg_def ClaimBus_cases PIOS_SPI_TransferByte_def
      PIOS_MPU6500_ReleaseBus_def PIOS_SPI_ReleaseBus_def PIOS_SPI_RC_PinSet_def
      Let_def case_prod_beta numeral_2_eq_2 split: option.split)

lemma SetReg_hw_register:
  "hw_register (snd (PIOS_MPU6500_SetReg reg data s)) =
     (if fst (PIOS_MPU6500_ClaimBus s) = 0 \<and> spi_xfer_ret s (length (log s) + 2) = 0
      then (hw_register s)(0x7f AND reg \<mapsto> data)
      else hw_register s)"
  by (auto simp add: hw_register_def SetReg_log chip_after_append ClaimBus_cases
      write_address_bit fun_eq_iff)


lemma hw_register_SetMaxGyro [simp]:
  "hw_register (PIOS_SENSORS_SetMaxGyro v s) = hw_register s"
  by (rule ext) (simp add: hw_register_def PIOS_SENSORS_SetMaxGyro_def chip_after_append)

lemma hw_register_dev_ptr [simp]: "hw_register (s\<lparr>dev_ptr := p\<rparr>) = hw_register s"
  by (rule ext) (simp add: hw_register_def)

lemma SetReg_sent_value:
  "fst (PIOS_MPU6500_SetReg reg data s) = 0 \<or> fst (PIOS_MPU6500_SetReg reg data s) = -3
     \<longleftrightarrow> fst (PIOS_MPU6500_ClaimBus s) = 0 \<and> spi_xfer_ret s (length (log s) + 2) = 0"
  by (simp add: SetReg_result)

lemma SetGyroRange_effect:
  assumes "dev_ptr s = Some dev"
  shows "cached_gyro_range (PIOS_MPU6500_SetGyroRange h r s) = Some r"
    and "programmed (PIOS_MPU6500_SetGyroRange h r s) =
      (if fst (PIOS_MPU6500_SetReg (PIOS_MPU60X0_GYRO_CFG_REG h)
                 (word_of_int (range_value h r)) s) = 0
          \<or> fst (PIOS_MPU6500_SetReg (PIOS_MPU60X0_GYRO_CFG_REG h)
                 (word_of_int (range_value h r)) s) = -3
       then (hw_register s)(0x7f AND PIOS_MPU60X0_GYRO_CFG_REG h
                              \<mapsto> word_of_int (range_value h r))
       else hw_register s)"
  using assms
  by (cases r;
      simp add: PIOS_MPU6500_SetGyroRange_def update_dev_def case_prod_beta
        cached_gyro_range_def programmed_def SetReg_hw_register SetReg_sent_value)+

lemma SetAccelRange_effect:
  assumes "dev_ptr s = Some dev"
  shows "cached_accel_range (PIOS_MPU6500_SetAccelRange h r s) = Some r"
    and "programmed (PIOS_MPU6500_SetAccelRange h r s) =
      (if fst (PIOS_MPU6500_SetReg (PIOS_MPU60X0_ACCEL_CFG_REG h)
                 (word_of_int (accel_range_value h r)) s) = 0
          \<or> fst (PIOS_MPU6500_SetReg (PIOS_MPU60X0_ACCEL_CFG_REG h)
                 (word_of_int (accel_range_value h r)) s) = -3
       then (hw_register s)(0x7f AND PIOS_MPU60X0_ACCEL_CFG_REG h
                              \<mapsto> word_of_int (accel_range_value h r))
       else hw_register s)"
  using assms
  by (simp_all add: PIOS_MPU6500_SetAccelRange_def update_dev_def case_prod_beta
        cached_accel_range_def programmed_def SetReg_hw_register SetReg_sent_value)

text \<open>
  C2, as amended. On an allocated device \<open>PIOS_MPU6500_SetGyroRange\<close> and
  \<open>PIOS_MPU6500_SetAccelRange\<close> always cache the requested range. The register of the
  sensor takes that range exactly when the write got as far as sending the value
  (\<open>PIOS_MPU6500_SetReg\<close> returns 0 or -3); when the write fails before that (it
  returns -1 or -2) every register of the sensor keeps its content, while the cache
  has changed.
\<close>

theorem range_cached_always_programmed_if_sent:
  "dev_ptr s = Some dev \<Longrightarrow>
     cached_gyro_range (PIOS_MPU6500_SetGyroRange h r s) = Some r
     \<and> programmed (PIOS_MPU6500_SetGyroRange h r s) =
         (if fst (PIOS_MPU6500_SetReg (PIOS_MPU60X0_GYRO_CFG_REG h)
                    (word_of_int (range_value h r)) s) = 0
             \<or> fst (PIOS_MPU6500_SetReg (PIOS_MPU60X0_GYRO_CFG_REG h)
                    (word_of_int (range_value h r)) s) = -3
          then (hw_register s)(0x7f AND PIOS_MPU60X0_GYRO_CFG_REG h
                                 \<mapsto> word_of_int (range_value h r))
          else hw_register s)
     \<and> cached_accel_range (PIOS_MPU6500_SetAccelRange h a s) = Some a
     \<and> programmed (PIOS_MPU6500_SetAccelRange h a s) =
         (if fst (PIOS_MPU6500_SetReg (PIOS_MPU60X0_ACCEL_CFG_REG h)
                    (word_of_int (accel_range_value h a)) s) = 0
             \<or> fst (PIOS_MPU6500_SetReg (PIOS_MPU60X0_ACCEL_CFG_REG h)
                    (word_of_int (accel_range_value h a)) s) = -3
          then (hw_register s)(0x7f AND PIOS_MPU60X0_ACCEL_CFG_REG h
                                 \<mapsto> word_of_int (accel_range_value h a))
          else hw_register s)"
  using SetGyroRange_effect [of s dev h r] SetAccelRange_effect [of s dev h a] by simp

text \<open>
  On the quiet bus the write succeeds: 2000 deg/s is cached and its code 0x18 is in
  the gyro configuration register 0x1B; 16 g is cached and 0x18 is in register 0x1C.
\<close>

theorem range_cached_always_programmed_if_sent_witness:
  "dev_ptr (quiet_bus (Some bound_dev)) = Some bound_dev
   \<and> cached_gyro_range (PIOS_MPU6500_SetGyroRange mpu60x0_regs PIOS_MPU60X0_SCALE_2000_DEG
                           (quiet_bus (Some bound_dev)))
       = Some PIOS_MPU60X0_SCALE_2000_DEG
   \<and> programmed (PIOS_MPU6500_SetGyroRange mpu60x0_regs PIOS_MPU60X0_SCALE_2000_DEG
                    (quiet_bus (Some bound_dev))) 0x1B = Some 0x18
   \<and> cached_accel_range (PIOS_MPU6500_SetAccelRange mpu60x0_regs PIOS_MPU60X0_ACCEL_16G
                            (quiet_bus (Some bound_dev)))
       = Some PIOS_MPU60X0_ACCEL_16G
   \<and> programmed (PIOS_MPU6500_SetAccelRange mpu60x0_regs PIOS_MPU60X0_ACCEL_16G
                    (quiet_bus (Some bound_dev))) 0x1C = Some 0x18"
proof -
  have d: "dev_ptr (quiet_bus (Some bound_dev)) = Some bound_dev"
    by (rule faulty_bus_dev(4))
  have ok: "fst (PIOS_MPU6500_SetReg reg data (quiet_bus (Some bound_dev))) = 0" for reg data
    by (simp add: SetReg_result ClaimBus_cases quiet_bus_def)
  show ?thesis
    using range_cached_always_programmed_if_sent
            [OF d, of mpu60x0_regs PIOS_MPU60X0_SCALE_2000_DEG PIOS_MPU60X0_ACCEL_16G] d
    by (simp add: ok mpu60x0_regs_def)
qed

subsection \<open>A write that fails\<close>

lemma one_shot_first:
  "cached_gyro_range
     (PIOS_MPU6500_SetGyroRange mpu60x0_regs PIOS_MPU60X0_SCALE_250_DEG one_shot_bus)
     = Some PIOS_MPU60X0_SCALE_250_DEG"
  "programmed
     (PIOS_MPU6500_SetGyroRange mpu60x0_regs PIOS_MPU60X0_SCALE_250_DEG one_shot_bus) 0x1B
     = Some 0x00"
proof -
  have d: "dev_ptr one_shot_bus = Some bound_dev"
    by (simp add: one_shot_bus_def quiet_bus_def)
  have ok: "fst (PIOS_MPU6500_SetReg reg data one_shot_bus) = 0" for reg data
    by (simp add: SetReg_result ClaimBus_cases one_shot_bus_def quiet_bus_def)
  show "cached_gyro_range
     (PIOS_MPU6500_SetGyroRange mpu60x0_regs PIOS_MPU60X0_SCALE_250_DEG one_shot_bus)
     = Some PIOS_MPU60X0_SCALE_250_DEG"
    by (rule SetGyroRange_effect(1) [OF d])
  show "programmed
     (PIOS_MPU6500_SetGyroRange mpu60x0_regs PIOS_MPU60X0_SCALE_250_DEG one_shot_bus) 0x1B
     = Some 0x00"
    by (simp add: SetGyroRange_effect(2) [OF d] ok mpu60x0_regs_def)
qed


lemmas run_defs =
  PIOS_MPU6500_SetGyroRange_def PIOS_MPU6500_SetAccelRange_def update_dev_def and_then_def
  PIOS_MPU6500_SetReg_def ClaimBus_cases PIOS_SPI_TransferByte_def
  PIOS_MPU6500_ReleaseBus_def PIOS_SPI_ReleaseBus_def PIOS_SPI_RC_PinSet_def
  PIOS_SENSORS_SetMaxGyro_def emit_def Let_def case_prod_beta
  cached_gyro_range_def programmed_def hw_register_def chip_after_def chip_reset_def
  pios_mpu6500_dev_MAGIC_def

text \<open>
  C2 as stated fails. On a bus that is granted once and never again, a first call
  sets 250 deg/s: it is cached and its code 0x00 is in register 0x1B. A second call
  asks for 2000 deg/s (code 0x18): the claim is refused, nothing is sent, the register
  still holds 0x00, and the cache says 2000 deg/s.
\<close>

theorem range_cache_counterexample:
  "cached_gyro_range
     (and_then (PIOS_MPU6500_SetGyroRange mpu60x0_regs PIOS_MPU60X0_SCALE_250_DEG one_shot_bus)
        (PIOS_MPU6500_SetGyroRange mpu60x0_regs PIOS_MPU60X0_SCALE_2000_DEG))
     = Some PIOS_MPU60X0_SCALE_2000_DEG
   \<and> programmed
     (and_then (PIOS_MPU6500_SetGyroRange mpu60x0_regs PIOS_MPU60X0_SCALE_250_DEG one_shot_bus)
        (PIOS_MPU6500_SetGyroRange mpu60x0_regs PIOS_MPU60X0_SCALE_2000_DEG)) 0x1B
     = Some 0x00
   \<and> (word_of_int (range_value mpu60x0_regs PIOS_MPU60X0_SCALE_2000_DEG) :: 8 word) = 0x18"
  by (simp add: run_defs one_shot_bus_def quiet_bus_def bound_dev_def mpu60x0_regs_def)

subsection \<open>What the handler enqueues\<close>




subsection \<open>Runs on a healthy bus\<close>

lemma apply_writes_append:
  "apply_writes R (ws @ ws') = apply_writes (apply_writes R ws) ws'"
  by (induction ws arbitrary: R) auto

lemma apply_writes_later:
  "k \<notin> (\<lambda>(a, v). 0x7f AND a) ` set ws \<Longrightarrow> apply_writes R ws k = R k"
  by (induction ws arbitrary: R) auto

lemma apply_writes_last_write:
  assumes "k = 0x7f AND a" and "k \<notin> (\<lambda>(a, v). 0x7f AND a) ` set post"
  shows "apply_writes R (pre @ (a, v) # post) k = Some v"
  using assms by (simp add: apply_writes_append apply_writes_later)

lemma healthy_extends: "healthy s \<Longrightarrow> extends s s' \<Longrightarrow> healthy s'"
  using extends_fields [of s s'] by (simp add: healthy_def)

lemma healthy_dev: "healthy s \<Longrightarrow> \<exists>dev. dev_ptr s = Some dev"
  by (cases "dev_ptr s") (simp_all add: healthy_def)

lemma healthy_claim:
  "healthy s \<Longrightarrow> fst (PIOS_MPU6500_ClaimBus s) = 0"
  by (simp add: ClaimBus_cases healthy_def)

lemma reaches_start: "healthy s \<Longrightarrow> reaches s [] s"
  by (simp add: reaches_def)

lemma reaches_SetReg:
  assumes "reaches s ws s1"
  shows "reaches s (ws @ [(reg, data)]) (snd (PIOS_MPU6500_SetReg reg data s1))"
proof -
  have h1: "healthy s1" and r1: "hw_register s1 = apply_writes (hw_register s) ws"
    using assms by (simp_all add: reaches_def)
  have "healthy (snd (PIOS_MPU6500_SetReg reg data s1))"
    using h1 by (rule healthy_extends) simp
  moreover have "hw_register (snd (PIOS_MPU6500_SetReg reg data s1))
      = (hw_register s1)(0x7f AND reg \<mapsto> data)"
    using h1 healthy_claim [OF h1] by (simp add: SetReg_hw_register healthy_def)
  ultimately show ?thesis by (simp add: reaches_def r1 apply_writes_append)
qed

lemma hw_register_emit_other:
  assumes "\<And>c. chip_step c e = c"
  shows "hw_register (emit e s) = hw_register s"
  by (rule ext) (simp add: hw_register_def emit_def chip_after_append assms)

lemma reaches_same_registers:
  assumes "reaches s ws s1" and "extends s1 s2" and "hw_register s2 = hw_register s1"
  shows "reaches s ws s2"
  using assms healthy_extends by (auto simp add: reaches_def)

lemma reaches_Delay: "reaches s ws s1 \<Longrightarrow> reaches s ws (PIOS_DELAY_WaitmS n s1)"
  by (rule reaches_same_registers)
    (simp_all add: PIOS_DELAY_WaitmS_def hw_register_emit_other)

lemma reaches_WDG: "reaches s ws s1 \<Longrightarrow> reaches s ws (PIOS_WDG_Clear s1)"
  by (rule reaches_same_registers)
    (simp_all add: PIOS_WDG_Clear_def hw_register_emit_other)

lemma reaches_SetMaxGyro: "reaches s ws s1 \<Longrightarrow> reaches s ws (PIOS_SENSORS_SetMaxGyro n s1)"
  by (rule reaches_same_registers)
    (simp_all add: PIOS_SENSORS_SetMaxGyro_def hw_register_emit_other)

lemma reaches_update:
  assumes "reaches s ws s1" and "\<And>dev. magic (f dev) = magic dev"
    and "\<And>dev. spi_id (f dev) = spi_id dev"
  shows "\<exists>s'. update_dev f s1 = Inr s' \<and> reaches s ws s'"
proof -
  have h1: "healthy s1" and r1: "hw_register s1 = apply_writes (hw_register s) ws"
    using assms(1) by (simp_all add: reaches_def)
  obtain dev where d: "dev_ptr s1 = Some dev" using healthy_dev [OF h1] by blast
  have "update_dev f s1 = Inr (s1\<lparr>dev_ptr := Some (f dev)\<rparr>)"
    by (simp add: update_dev_def d)
  moreover have "healthy (s1\<lparr>dev_ptr := Some (f dev)\<rparr>)"
    using h1 d by (auto simp add: healthy_def assms(2,3) split: if_splits)
  ultimately show ?thesis using r1 by (simp add: reaches_def)
qed


lemma reaches_SetLPF:
  assumes "reaches s ws s1"
  shows "\<exists>s'. PIOS_MPU6500_SetLPF h f s1 = Inr s'
           \<and> reaches s (ws @ [(PIOS_MPU60X0_DLPF_CFG_REG h, word_of_int (filter_value h f))]) s'"
proof -
  have "\<exists>s'. update_dev (\<lambda>dev. dev\<lparr>filter := f\<rparr>)
               (snd (PIOS_MPU6500_SetReg (PIOS_MPU60X0_DLPF_CFG_REG h)
                       (word_of_int (filter_value h f)) s1)) = Inr s'
           \<and> reaches s (ws @ [(PIOS_MPU60X0_DLPF_CFG_REG h, word_of_int (filter_value h f))]) s'"
    by (rule reaches_update [OF reaches_SetReg [OF assms]]) simp_all
  then show ?thesis by (simp add: PIOS_MPU6500_SetLPF_def case_prod_beta)
qed

lemma reaches_SetAccelRange:
  assumes "reaches s ws s1"
  shows "\<exists>s'. PIOS_MPU6500_SetAccelRange h r s1 = Inr s'
           \<and> reaches s (ws @ [(PIOS_MPU60X0_ACCEL_CFG_REG h,
                                 word_of_int (accel_range_value h r))]) s'"
proof -
  have "\<exists>s'. update_dev (\<lambda>dev. dev\<lparr>accel_range := r\<rparr>)
               (snd (PIOS_MPU6500_SetReg (PIOS_MPU60X0_ACCEL_CFG_REG h)
                       (word_of_int (accel_range_value h r)) s1)) = Inr s'
           \<and> reaches s (ws @ [(PIOS_MPU60X0_ACCEL_CFG_REG h,
                                 word_of_int (accel_range_value h r))]) s'"
    by (rule reaches_update [OF reaches_SetReg [OF assms]]) simp_all
  then show ?thesis by (simp add: PIOS_MPU6500_SetAccelRange_def case_prod_beta)
qed

lemma reaches_SetGyroRange:
  assumes "reaches s ws s1"
  shows "\<exists>s'. PIOS_MPU6500_SetGyroRange h r s1 = Inr s'
           \<and> reaches s (ws @ [(PIOS_MPU60X0_GYRO_CFG_REG h, word_of_int (range_value h r))]) s'"
proof -
  let ?s1 = "snd (PIOS_MPU6500_SetReg (PIOS_MPU60X0_GYRO_CFG_REG h)
                    (word_of_int (range_value h r)) s1)"
  let ?ws = "ws @ [(PIOS_MPU60X0_GYRO_CFG_REG h, word_of_int (range_value h r))]"
  define s2 where "s2 = (case r of
                  PIOS_MPU60X0_SCALE_250_DEG \<Rightarrow> PIOS_SENSORS_SetMaxGyro 250 ?s1
                | PIOS_MPU60X0_SCALE_500_DEG \<Rightarrow> PIOS_SENSORS_SetMaxGyro 500 ?s1
                | PIOS_MPU60X0_SCALE_1000_DEG \<Rightarrow> PIOS_SENSORS_SetMaxGyro 1000 ?s1
                | PIOS_MPU60X0_SCALE_2000_DEG \<Rightarrow> PIOS_SENSORS_SetMaxGyro 2000 ?s1
                | PIOS_MPU60X0_SCALE_UNLISTED _ \<Rightarrow> ?s1)"
  have r1: "reaches s ?ws ?s1" by (rule reaches_SetReg [OF assms])
  have "reaches s ?ws s2"
    using r1 by (cases r) (auto simp add: s2_def reaches_SetMaxGyro)
  then have "\<exists>s'. update_dev (\<lambda>dev. dev\<lparr>gyro_range := r\<rparr>) s2 = Inr s' \<and> reaches s ?ws s'"
    by (rule reaches_update) simp_all
  then show ?thesis by (simp add: PIOS_MPU6500_SetGyroRange_def case_prod_beta s2_def)
qed

lemma reaches_SetSampleRate:
  assumes "reaches s ws s1" and "r \<noteq> 0"
  shows "\<exists>s' v. PIOS_MPU6500_SetSampleRate h r s1 = Inr s'
           \<and> reaches s (ws @ [(PIOS_MPU60X0_SMPLRT_DIV_REG h, v)]) s'"
proof -
  have h1: "healthy s1" using assms(1) by (simp add: reaches_def)
  obtain dev where d: "dev_ptr s1 = Some dev" using healthy_dev [OF h1] by blast
  define fq :: "16 word" where
    "fq = (if filter dev \<noteq> PIOS_MPU60X0_LOWPASS_256_HZ then 1000 else 8000)"
  have "(if r > fq then fq else r) \<noteq> 0" using assms(2) by (simp add: fq_def)
  then have "PIOS_MPU6500_SetSampleRate h r s1
       = Inr (snd (PIOS_MPU6500_SetReg (PIOS_MPU60X0_SMPLRT_DIV_REG h)
                (word_of_int (samplerate_divisor fq (if r > fq then fq else r))) s1))"
    using assms(2) d by (auto simp add: PIOS_MPU6500_SetSampleRate_def fq_def Let_def)
  then show ?thesis using reaches_SetReg [OF assms(1)] by auto
qed

lemma reaches_accel_step:
  assumes "reaches s ws s1"
  shows "\<exists>s'. (if PIOS_MPU6500_ACCEL b
                then PIOS_MPU6500_SetAccelRange h PIOS_MPU60X0_ACCEL_8G s1
                else Inr s1) = Inr s'
           \<and> reaches s (ws @ (if PIOS_MPU6500_ACCEL b
                               then [(PIOS_MPU60X0_ACCEL_CFG_REG h,
                                      word_of_int (accel_range_value h PIOS_MPU60X0_ACCEL_8G))]
                               else [])) s'"
  using assms reaches_SetAccelRange [OF assms, of h PIOS_MPU60X0_ACCEL_8G] by simp


text \<open>
  The simple sequence on a healthy bus returns, and the registers of the sensor then
  hold the writes of the sequence, in their order, over what they held before.
\<close>

lemma reaches_Config_simple:
  assumes hs: "healthy s" and r: "default_samplerate c \<noteq> 0"
  shows "\<exists>s' v. Config_simple b h c s = Inr s'
     \<and> reaches s
          ([(PIOS_MPU60X0_PWR_MGMT_REG h, PIOS_MPU60X0_PWRMGMT_IMU_RST h),
            (PIOS_MPU60X0_USER_CTRL_REG h, PIOS_MPU60X0_USERCTL_GYRO_RST h),
            (PIOS_MPU60X0_PWR_MGMT_REG h, Pwr_mgmt_clk c),
            (PIOS_MPU60X0_USER_CTRL_REG h, User_ctl c),
            (PIOS_MPU60X0_DLPF_CFG_REG h, word_of_int (filter_value h (default_filter c))),
            (PIOS_MPU60X0_SMPLRT_DIV_REG h, v),
            (PIOS_MPU60X0_GYRO_CFG_REG h,
             word_of_int (range_value h PIOS_MPU60X0_SCALE_500_DEG))]
           @ (if PIOS_MPU6500_ACCEL b
              then [(PIOS_MPU60X0_ACCEL_CFG_REG h,
                     word_of_int (accel_range_value h PIOS_MPU60X0_ACCEL_8G))]
              else [])
           @ [(PIOS_MPU60X0_INT_CFG_REG h, interrupt_cfg c),
              (PIOS_MPU60X0_INT_EN_REG h, interrupt_en c)]) s'"
proof -
  define s0 where "s0 =
     (let s = snd (PIOS_MPU6500_SetReg (PIOS_MPU60X0_PWR_MGMT_REG h)
                     (PIOS_MPU60X0_PWRMGMT_IMU_RST h) s);
          s = PIOS_DELAY_WaitmS 50 s;
          s = PIOS_WDG_Clear s;
          s = snd (PIOS_MPU6500_SetReg (PIOS_MPU60X0_USER_CTRL_REG h)
                     (PIOS_MPU60X0_USERCTL_GYRO_RST h) s);
          s = PIOS_DELAY_WaitmS 10 s;
          s = snd (PIOS_MPU6500_SetReg (PIOS_MPU60X0_PWR_MGMT_REG h) (Pwr_mgmt_clk c) s)
      in snd (PIOS_MPU6500_SetReg (PIOS_MPU60X0_USER_CTRL_REG h) (User_ctl c) s))"
  let ?w0 = "[(PIOS_MPU60X0_PWR_MGMT_REG h, PIOS_MPU60X0_PWRMGMT_IMU_RST h),
            (PIOS_MPU60X0_USER_CTRL_REG h, PIOS_MPU60X0_USERCTL_GYRO_RST h),
            (PIOS_MPU60X0_PWR_MGMT_REG h, Pwr_mgmt_clk c),
            (PIOS_MPU60X0_USER_CTRL_REG h, User_ctl c)]"
  have "reaches s ([] @ [(PIOS_MPU60X0_PWR_MGMT_REG h, PIOS_MPU60X0_PWRMGMT_IMU_RST h)]
                      @ [(PIOS_MPU60X0_USER_CTRL_REG h, PIOS_MPU60X0_USERCTL_GYRO_RST h)]
                      @ [(PIOS_MPU60X0_PWR_MGMT_REG h, Pwr_mgmt_clk c)]
                      @ [(PIOS_MPU60X0_USER_CTRL_REG h, User_ctl c)]) s0"
    unfolding s0_def Let_def append_assoc [symmetric]
    by (intro reaches_SetReg reaches_Delay reaches_WDG reaches_start hs)
  then have a0: "reaches s ?w0 s0" by simp
  obtain s1 where 1: "PIOS_MPU6500_SetLPF h (default_filter c) s0 = Inr s1"
    and a1: "reaches s (?w0 @ [(PIOS_MPU60X0_DLPF_CFG_REG h,
                                word_of_int (filter_value h (default_filter c)))]) s1"
    using reaches_SetLPF [OF a0] by blast
  obtain s2 v where 2: "PIOS_MPU6500_SetSampleRate h (default_samplerate c) s1 = Inr s2"
    and a2: "reaches s ((?w0 @ [(PIOS_MPU60X0_DLPF_CFG_REG h,
                                word_of_int (filter_value h (default_filter c)))])
                        @ [(PIOS_MPU60X0_SMPLRT_DIV_REG h, v)]) s2"
    using reaches_SetSampleRate [OF a1 r] by blast
  obtain s3 where 3: "PIOS_MPU6500_SetGyroRange h PIOS_MPU60X0_SCALE_500_DEG s2 = Inr s3"
    and a3: "reaches s (((?w0 @ [(PIOS_MPU60X0_DLPF_CFG_REG h,
                                word_of_int (filter_value h (default_filter c)))])
                        @ [(PIOS_MPU60X0_SMPLRT_DIV_REG h, v)])
                        @ [(PIOS_MPU60X0_GYRO_CFG_REG h,
                            word_of_int (range_value h PIOS_MPU60X0_SCALE_500_DEG))]) s3"
    using reaches_SetGyroRange [OF a2] by blast
  obtain s4 where 4: "(if PIOS_MPU6500_ACCEL b
                then PIOS_MPU6500_SetAccelRange h PIOS_MPU60X0_ACCEL_8G s3
                else Inr s3) = Inr s4"
    and a4: "reaches s ((((?w0 @ [(PIOS_MPU60X0_DLPF_CFG_REG h,
                                word_of_int (filter_value h (default_filter c)))])
                        @ [(PIOS_MPU60X0_SMPLRT_DIV_REG h, v)])
                        @ [(PIOS_MPU60X0_GYRO_CFG_REG h,
                            word_of_int (range_value h PIOS_MPU60X0_SCALE_500_DEG))])
                        @ (if PIOS_MPU6500_ACCEL b
                           then [(PIOS_MPU60X0_ACCEL_CFG_REG h,
                                  word_of_int (accel_range_value h PIOS_MPU60X0_ACCEL_8G))]
                           else [])) s4"
    using reaches_accel_step [OF a3] by blast
  define s5 where "s5 =
     snd (PIOS_MPU6500_SetReg (PIOS_MPU60X0_INT_EN_REG h) (interrupt_en c)
       (snd (PIOS_MPU6500_SetReg (PIOS_MPU60X0_INT_CFG_REG h) (interrupt_cfg c) s4)))"
  have a5: "reaches s (((((?w0 @ [(PIOS_MPU60X0_DLPF_CFG_REG h,
                                word_of_int (filter_value h (default_filter c)))])
                        @ [(PIOS_MPU60X0_SMPLRT_DIV_REG h, v)])
                        @ [(PIOS_MPU60X0_GYRO_CFG_REG h,
                            word_of_int (range_value h PIOS_MPU60X0_SCALE_500_DEG))])
                        @ (if PIOS_MPU6500_ACCEL b
                           then [(PIOS_MPU60X0_ACCEL_CFG_REG h,
                                  word_of_int (accel_range_value h PIOS_MPU60X0_ACCEL_8G))]
                           else []))
                        @ [(PIOS_MPU60X0_INT_CFG_REG h, interrupt_cfg c)]
                        @ [(PIOS_MPU60X0_INT_EN_REG h, interrupt_en c)]) s5"
    unfolding s5_def append_assoc [symmetric]
    by (intro reaches_SetReg a4)
  have "\<exists>s'. update_dev (\<lambda>dev. dev\<lparr>configured := True\<rparr>) s5 = Inr s' \<and>
          reaches s (((((?w0 @ [(PIOS_MPU60X0_DLPF_CFG_REG h,
                                word_of_int (filter_value h (default_filter c)))])
                        @ [(PIOS_MPU60X0_SMPLRT_DIV_REG h, v)])
                        @ [(PIOS_MPU60X0_GYRO_CFG_REG h,
                            word_of_int (range_value h PIOS_MPU60X0_SCALE_500_DEG))])
                        @ (if PIOS_MPU6500_ACCEL b
                           then [(PIOS_MPU60X0_ACCEL_CFG_REG h,
                                  word_of_int (accel_range_value h PIOS_MPU60X0_ACCEL_8G))]
                           else []))
                        @ [(PIOS_MPU60X0_INT_CFG_REG h, interrupt_cfg c)]
                        @ [(PIOS_MPU60X0_INT_EN_REG h, interrupt_en c)]) s'"
    by (rule reaches_update [OF a5]) simp_all
  then obtain s6 where 6: "update_dev (\<lambda>dev. dev\<lparr>configured := True\<rparr>) s5 = Inr s6"
    and a6: "reaches s (((((?w0 @ [(PIOS_MPU60X0_DLPF_CFG_REG h,
                                word_of_int (filter_value h (default_filter c)))])
                        @ [(PIOS_MPU60X0_SMPLRT_DIV_REG h, v)])
                        @ [(PIOS_MPU60X0_GYRO_CFG_REG h,
                            word_of_int (range_value h PIOS_MPU60X0_SCALE_500_DEG))])
                        @ (if PIOS_MPU6500_ACCEL b
                           then [(PIOS_MPU60X0_ACCEL_CFG_REG h,
                                  word_of_int (accel_range_value h PIOS_MPU60X0_ACCEL_8G))]
                           else []))
                        @ [(PIOS_MPU60X0_INT_CFG_REG h, interrupt_cfg c)]
                        @ [(PIOS_MPU60X0_INT_EN_REG h, interrupt_en c)]) s6"
    by blast
  have "Config_simple b h c s =
      and_then (PIOS_MPU6500_SetLPF h (default_filter c) s0) (\<lambda>s.
      and_then (PIOS_MPU6500_SetSampleRate h (default_samplerate c) s) (\<lambda>s.
      and_then (PIOS_MPU6500_SetGyroRange h PIOS_MPU60X0_SCALE_500_DEG s) (\<lambda>s.
      and_then (if PIOS_MPU6500_ACCEL b
                then PIOS_MPU6500_SetAccelRange h PIOS_MPU60X0_ACCEL_8G s
                else Inr s) (\<lambda>s.
        update_dev (\<lambda>dev. dev\<lparr>configured := True\<rparr>)
          (snd (PIOS_MPU6500_SetReg (PIOS_MPU60X0_INT_EN_REG h) (interrupt_en c)
            (snd (PIOS_MPU6500_SetReg (PIOS_MPU60X0_INT_CFG_REG h) (interrupt_cfg c)
               s))))))))"
    by (simp add: Config_simple_def s0_def Let_def)
  then have "Config_simple b h c s = Inr s6"
    by (simp add: 1 2 3 4 6 [unfolded s5_def] and_then_def)
  moreover have "reaches s
          ([(PIOS_MPU60X0_PWR_MGMT_REG h, PIOS_MPU60X0_PWRMGMT_IMU_RST h),
            (PIOS_MPU60X0_USER_CTRL_REG h, PIOS_MPU60X0_USERCTL_GYRO_RST h),
            (PIOS_MPU60X0_PWR_MGMT_REG h, Pwr_mgmt_clk c),
            (PIOS_MPU60X0_USER_CTRL_REG h, User_ctl c),
            (PIOS_MPU60X0_DLPF_CFG_REG h, word_of_int (filter_value h (default_filter c))),
            (PIOS_MPU60X0_SMPLRT_DIV_REG h, v),
            (PIOS_MPU60X0_GYRO_CFG_REG h,
             word_of_int (range_value h PIOS_MPU60X0_SCALE_500_DEG))]
           @ (if PIOS_MPU6500_ACCEL b
              then [(PIOS_MPU60X0_ACCEL_CFG_REG h,
                     word_of_int (accel_range_value h PIOS_MPU60X0_ACCEL_8G))]
              else [])
           @ [(PIOS_MPU60X0_INT_CFG_REG h, interrupt_cfg c),
              (PIOS_MPU60X0_INT_EN_REG h, interrupt_en c)]) s6"
    using a6 by simp
  ultimately show ?thesis by blast
qed


subsection \<open>The sequence with the reset loops on a healthy bus\<close>

lemma hw_register_emit_PinSet:
  "hw_register (emit (Ev_SPI_RC_PinSet i sl l) s) = hw_register s"
  by (rule ext) (simp add: hw_register_def emit_def chip_after_append)

lemma read_address_bit: "(0x80 OR reg) AND 0x80 \<noteq> (0 :: 8 word)"
proof -
  have "(0x80 OR reg) AND 0x80 = (0x80 :: 8 word)"
    by (simp add: word_bw_comms word_ao_absorbs)
  then show ?thesis by simp
qed

lemma ClaimBus_hw_register: "hw_register (snd (PIOS_MPU6500_ClaimBus s)) = hw_register s"
  by (simp add: ClaimBus_cases hw_register_emit_other hw_register_emit_PinSet)

lemma reaches_ClaimBus:
  assumes "reaches s ws s1"
  shows "reaches s ws (snd (PIOS_MPU6500_ClaimBus s1))"
  by (rule reaches_same_registers [OF assms]) (simp_all add: ClaimBus_hw_register)

lemma ReleaseBus_hw_register: "hw_register (snd (PIOS_MPU6500_ReleaseBus s)) = hw_register s"
  by (simp add: PIOS_MPU6500_ReleaseBus_def PIOS_SPI_ReleaseBus_def PIOS_SPI_RC_PinSet_def
      hw_register_emit_other hw_register_emit_PinSet split: option.split)

lemma reaches_ReleaseBus:
  assumes "reaches s ws s1"
  shows "reaches s ws (snd (PIOS_MPU6500_ReleaseBus s1))"
  by (rule reaches_same_registers [OF assms]) (simp_all add: ReleaseBus_hw_register)

lemma GetReg_hw_register: "hw_register (snd (PIOS_MPU6500_GetReg reg s)) = hw_register s"
  by (rule ext)
    (simp add: PIOS_MPU6500_GetReg_def ClaimBus_cases PIOS_SPI_TransferByte_def
      PIOS_MPU6500_ReleaseBus_def PIOS_SPI_ReleaseBus_def PIOS_SPI_RC_PinSet_def
      Let_def case_prod_beta hw_register_def emit_def chip_after_append read_address_bit
      split: option.split)

lemma reaches_GetReg:
  assumes "reaches s ws s1"
  shows "reaches s ws (snd (PIOS_MPU6500_GetReg reg s1))"
  by (rule reaches_same_registers [OF assms]) (simp_all add: GetReg_hw_register)

lemma healthy_GetReg: "healthy s \<Longrightarrow> fst (PIOS_MPU6500_GetReg reg s) = 0"
  by (simp add: GetReg_result ClaimBus_cases healthy_def)

lemma reaches_poll:
  assumes "reaches s ws s1"
  shows "\<exists>s'. poll_until_clear (PIOS_MPU6500_GetReg reg) m s1 = Some s' \<and> reaches s ws s'"
proof -
  have d: "reaches s ws (PIOS_DELAY_WaitmS 5 s1)" by (rule reaches_Delay [OF assms])
  then have "healthy (PIOS_DELAY_WaitmS 5 s1)" by (simp add: reaches_def)
  then have "fst (PIOS_MPU6500_GetReg reg (PIOS_DELAY_WaitmS 5 s1)) = 0"
    by (rule healthy_GetReg)
  then have "poll_until_clear (PIOS_MPU6500_GetReg reg) m s1
      = Some (snd (PIOS_MPU6500_GetReg reg (PIOS_DELAY_WaitmS 5 s1)))"
    by (subst poll_until_clear.simps) (simp add: Let_def case_prod_beta)
  then show ?thesis using reaches_GetReg [OF d] by simp
qed


text \<open>What follows the two reset loops, from a state that a healthy run has reached.\<close>

lemma reaches_Config_after_reset:
  assumes a: "reaches s ws s1" and r: "default_samplerate c \<noteq> 0"
  shows "\<exists>s' v. Config_after_reset b h c s1 = Inr s'
     \<and> reaches s
          (ws @ [(PIOS_MPU60X0_PWR_MGMT_REG h, Pwr_mgmt_clk c),
                 (PIOS_MPU60X0_INT_CFG_REG h, interrupt_cfg c),
                 (PIOS_MPU60X0_INT_EN_REG h, interrupt_en c)]
           @ (if PIOS_MPU6500_ACCEL b
              then [(PIOS_MPU60X0_ACCEL_CFG_REG h,
                     word_of_int (accel_range_value h PIOS_MPU60X0_ACCEL_8G))]
              else [])
           @ [(PIOS_MPU60X0_DLPF_CFG_REG h, word_of_int (filter_value h (default_filter c))),
              (PIOS_MPU60X0_SMPLRT_DIV_REG h, v),
              (PIOS_MPU60X0_GYRO_CFG_REG h,
               word_of_int (range_value h PIOS_MPU60X0_SCALE_500_DEG)),
              (PIOS_MPU60X0_USER_CTRL_REG h, User_ctl c),
              (PIOS_MPU60X0_PWR_MGMT_REG h, Pwr_mgmt_clk c),
              (PIOS_MPU60X0_INT_CFG_REG h, interrupt_cfg c),
              (PIOS_MPU60X0_INT_EN_REG h, interrupt_en c)]) s'"
proof -
  define s0 where "s0 =
     (let s = PIOS_DELAY_WaitmS 25 s1;
          s = snd (PIOS_MPU6500_SetReg (PIOS_MPU60X0_PWR_MGMT_REG h) (Pwr_mgmt_clk c) s);
          s = snd (PIOS_MPU6500_SetReg (PIOS_MPU60X0_INT_CFG_REG h) (interrupt_cfg c) s)
      in snd (PIOS_MPU6500_SetReg (PIOS_MPU60X0_INT_EN_REG h) (interrupt_en c) s))"
  define w0 where "w0 = ws @ [(PIOS_MPU60X0_PWR_MGMT_REG h, Pwr_mgmt_clk c),
                 (PIOS_MPU60X0_INT_CFG_REG h, interrupt_cfg c),
                 (PIOS_MPU60X0_INT_EN_REG h, interrupt_en c)]"
  have "reaches s (((ws @ [(PIOS_MPU60X0_PWR_MGMT_REG h, Pwr_mgmt_clk c)])
                      @ [(PIOS_MPU60X0_INT_CFG_REG h, interrupt_cfg c)])
                      @ [(PIOS_MPU60X0_INT_EN_REG h, interrupt_en c)]) s0"
    unfolding s0_def Let_def
    by (intro reaches_SetReg reaches_Delay a)
  then have a0: "reaches s w0 s0" by (simp add: w0_def)
  define w1 where "w1 = w0 @ (if PIOS_MPU6500_ACCEL b
              then [(PIOS_MPU60X0_ACCEL_CFG_REG h,
                     word_of_int (accel_range_value h PIOS_MPU60X0_ACCEL_8G))]
              else [])"
  obtain s2 where 1: "(if PIOS_MPU6500_ACCEL b
                then PIOS_MPU6500_SetAccelRange h PIOS_MPU60X0_ACCEL_8G s0
                else Inr s0) = Inr s2"
    and a1: "reaches s w1 s2"
    using reaches_accel_step [OF a0] unfolding w1_def by blast
  define w2 where "w2 = w1 @ [(PIOS_MPU60X0_DLPF_CFG_REG h,
                               word_of_int (filter_value h (default_filter c)))]"
  obtain s3 where 2: "PIOS_MPU6500_SetLPF h (default_filter c) s2 = Inr s3"
    and a2: "reaches s w2 s3"
    using reaches_SetLPF [OF a1] unfolding w2_def by blast
  obtain s4 v where 3: "PIOS_MPU6500_SetSampleRate h (default_samplerate c) s3 = Inr s4"
    and a3: "reaches s (w2 @ [(PIOS_MPU60X0_SMPLRT_DIV_REG h, v)]) s4"
    using reaches_SetSampleRate [OF a2 r] by blast
  define w3 where "w3 = w2 @ [(PIOS_MPU60X0_SMPLRT_DIV_REG h, v)]"
  have a3': "reaches s w3 s4" using a3 by (simp add: w3_def)
  define w4 where "w4 = w3 @ [(PIOS_MPU60X0_GYRO_CFG_REG h,
                               word_of_int (range_value h PIOS_MPU60X0_SCALE_500_DEG))]"
  obtain s5 where 4: "PIOS_MPU6500_SetGyroRange h PIOS_MPU60X0_SCALE_500_DEG s4 = Inr s5"
    and a4: "reaches s w4 s5"
    using reaches_SetGyroRange [OF a3'] unfolding w4_def by blast
  define s6 where "s6 =
     (let s = snd (PIOS_MPU6500_SetReg (PIOS_MPU60X0_USER_CTRL_REG h) (User_ctl c) s5);
          s = snd (PIOS_MPU6500_SetReg (PIOS_MPU60X0_PWR_MGMT_REG h) (Pwr_mgmt_clk c) s);
          s = snd (PIOS_MPU6500_SetReg (PIOS_MPU60X0_INT_CFG_REG h) (interrupt_cfg c) s)
      in snd (PIOS_MPU6500_SetReg (PIOS_MPU60X0_INT_EN_REG h) (interrupt_en c) s))"
  define w5 where "w5 = w4 @ [(PIOS_MPU60X0_USER_CTRL_REG h, User_ctl c),
              (PIOS_MPU60X0_PWR_MGMT_REG h, Pwr_mgmt_clk c),
              (PIOS_MPU60X0_INT_CFG_REG h, interrupt_cfg c),
              (PIOS_MPU60X0_INT_EN_REG h, interrupt_en c)]"
  have "reaches s ((((w4 @ [(PIOS_MPU60X0_USER_CTRL_REG h, User_ctl c)])
                      @ [(PIOS_MPU60X0_PWR_MGMT_REG h, Pwr_mgmt_clk c)])
                      @ [(PIOS_MPU60X0_INT_CFG_REG h, interrupt_cfg c)])
                      @ [(PIOS_MPU60X0_INT_EN_REG h, interrupt_en c)]) s6"
    unfolding s6_def Let_def
    by (intro reaches_SetReg a4)
  then have a5: "reaches s w5 s6" by (simp add: w5_def)
  have "\<exists>s'. update_dev (\<lambda>dev. dev\<lparr>configured := True\<rparr>) s6 = Inr s' \<and> reaches s w5 s'"
    by (rule reaches_update [OF a5]) simp_all
  then obtain s7 where 6: "update_dev (\<lambda>dev. dev\<lparr>configured := True\<rparr>) s6 = Inr s7"
    and a6: "reaches s w5 s7"
    by blast
  have "Config_after_reset b h c s1 =
      and_then (if PIOS_MPU6500_ACCEL b
                then PIOS_MPU6500_SetAccelRange h PIOS_MPU60X0_ACCEL_8G s0
                else Inr s0) (\<lambda>s.
      and_then (PIOS_MPU6500_SetLPF h (default_filter c) s) (\<lambda>s.
      and_then (PIOS_MPU6500_SetSampleRate h (default_samplerate c) s) (\<lambda>s.
      and_then (PIOS_MPU6500_SetGyroRange h PIOS_MPU60X0_SCALE_500_DEG s) (\<lambda>s.
        update_dev (\<lambda>dev. dev\<lparr>configured := True\<rparr>)
          (let s = snd (PIOS_MPU6500_SetReg (PIOS_MPU60X0_USER_CTRL_REG h) (User_ctl c) s);
               s = snd (PIOS_MPU6500_SetReg (PIOS_MPU60X0_PWR_MGMT_REG h) (Pwr_mgmt_clk c) s);
               s = snd (PIOS_MPU6500_SetReg (PIOS_MPU60X0_INT_CFG_REG h) (interrupt_cfg c) s)
           in snd (PIOS_MPU6500_SetReg (PIOS_MPU60X0_INT_EN_REG h) (interrupt_en c) s))))))"
    by (simp add: Config_after_reset_def s0_def Let_def)
  then have "Config_after_reset b h c s1 = Inr s7"
    by (simp add: 1 2 3 4 6 [unfolded s6_def Let_def] and_then_def)
  moreover have "w5 = ws @ [(PIOS_MPU60X0_PWR_MGMT_REG h, Pwr_mgmt_clk c),
                 (PIOS_MPU60X0_INT_CFG_REG h, interrupt_cfg c),
                 (PIOS_MPU60X0_INT_EN_REG h, interrupt_en c)]
           @ (if PIOS_MPU6500_ACCEL b
              then [(PIOS_MPU60X0_ACCEL_CFG_REG h,
                     word_of_int (accel_range_value h PIOS_MPU60X0_ACCEL_8G))]
              else [])
           @ [(PIOS_MPU60X0_DLPF_CFG_REG h, word_of_int (filter_value h (default_filter c))),
              (PIOS_MPU60X0_SMPLRT_DIV_REG h, v),
              (PIOS_MPU60X0_GYRO_CFG_REG h,
               word_of_int (range_value h PIOS_MPU60X0_SCALE_500_DEG)),
              (PIOS_MPU60X0_USER_CTRL_REG h, User_ctl c),
              (PIOS_MPU60X0_PWR_MGMT_REG h, Pwr_mgmt_clk c),
              (PIOS_MPU60X0_INT_CFG_REG h, interrupt_cfg c),
              (PIOS_MPU60X0_INT_EN_REG h, interrupt_en c)]"
    by (simp add: w5_def w4_def w3_def w2_def w1_def w0_def)
  ultimately show ?thesis using a6 by auto
qed

text \<open>
  The sequence with the reset loops on a healthy bus: every read returns zero, so each
  loop ends after its first read, and the sequence returns.
\<close>

lemma reaches_Config_polling:
  assumes hs: "healthy s" and r: "default_samplerate c \<noteq> 0"
  shows "\<exists>s' v. Config_polling b h c s = Some (Inr s')
     \<and> reaches s
          ([(PIOS_MPU60X0_PWR_MGMT_REG h, 0x80 OR Pwr_mgmt_clk c),
            (PIOS_MPU60X0_USER_CTRL_REG h, 0x80 OR 0x01 OR 0x02 OR 0x04)]
           @ [(PIOS_MPU60X0_PWR_MGMT_REG h, Pwr_mgmt_clk c),
              (PIOS_MPU60X0_INT_CFG_REG h, interrupt_cfg c),
              (PIOS_MPU60X0_INT_EN_REG h, interrupt_en c)]
           @ (if PIOS_MPU6500_ACCEL b
              then [(PIOS_MPU60X0_ACCEL_CFG_REG h,
                     word_of_int (accel_range_value h PIOS_MPU60X0_ACCEL_8G))]
              else [])
           @ [(PIOS_MPU60X0_DLPF_CFG_REG h, word_of_int (filter_value h (default_filter c))),
              (PIOS_MPU60X0_SMPLRT_DIV_REG h, v),
              (PIOS_MPU60X0_GYRO_CFG_REG h,
               word_of_int (range_value h PIOS_MPU60X0_SCALE_500_DEG)),
              (PIOS_MPU60X0_USER_CTRL_REG h, User_ctl c),
              (PIOS_MPU60X0_PWR_MGMT_REG h, Pwr_mgmt_clk c),
              (PIOS_MPU60X0_INT_CFG_REG h, interrupt_cfg c),
              (PIOS_MPU60X0_INT_EN_REG h, interrupt_en c)]) s'"
proof -
  have "reaches s ([] @ [(PIOS_MPU60X0_PWR_MGMT_REG h, 0x80 OR Pwr_mgmt_clk c)])
          (before_first_loop h c s)"
    unfolding before_first_loop_def Let_def
    by (intro reaches_SetReg reaches_Delay reaches_ReleaseBus reaches_ClaimBus
          reaches_start hs)
  then have a0: "reaches s [(PIOS_MPU60X0_PWR_MGMT_REG h, 0x80 OR Pwr_mgmt_clk c)]
          (before_first_loop h c s)"
    by simp
  obtain s1 where 1: "poll_until_clear (PIOS_MPU6500_GetReg (PIOS_MPU60X0_PWR_MGMT_REG h))
                        0x80 (before_first_loop h c s) = Some s1"
    and a1: "reaches s [(PIOS_MPU60X0_PWR_MGMT_REG h, 0x80 OR Pwr_mgmt_clk c)] s1"
    using reaches_poll [OF a0] by blast
  define s2 where "s2 = snd (PIOS_MPU6500_SetReg (PIOS_MPU60X0_USER_CTRL_REG h)
                               (0x80 OR 0x01 OR 0x02 OR 0x04) (PIOS_DELAY_WaitmS 25 s1))"
  define w2 where "w2 = [(PIOS_MPU60X0_PWR_MGMT_REG h, 0x80 OR Pwr_mgmt_clk c),
            (PIOS_MPU60X0_USER_CTRL_REG h, 0x80 OR 0x01 OR 0x02 OR (0x04 :: 8 word))]"
  have "reaches s ([(PIOS_MPU60X0_PWR_MGMT_REG h, 0x80 OR Pwr_mgmt_clk c)]
                    @ [(PIOS_MPU60X0_USER_CTRL_REG h, 0x80 OR 0x01 OR 0x02 OR 0x04)]) s2"
    unfolding s2_def by (intro reaches_SetReg reaches_Delay a1)
  then have a2: "reaches s w2 s2" by (simp add: w2_def)
  obtain s3 where 3: "poll_until_clear (PIOS_MPU6500_GetReg (PIOS_MPU60X0_USER_CTRL_REG h))
                        0x07 s2 = Some s3"
    and a3: "reaches s w2 s3"
    using reaches_poll [OF a2] by blast
  obtain s4 v where 4: "Config_after_reset b h c s3 = Inr s4"
    and a4: "reaches s
          (w2 @ [(PIOS_MPU60X0_PWR_MGMT_REG h, Pwr_mgmt_clk c),
                 (PIOS_MPU60X0_INT_CFG_REG h, interrupt_cfg c),
                 (PIOS_MPU60X0_INT_EN_REG h, interrupt_en c)]
           @ (if PIOS_MPU6500_ACCEL b
              then [(PIOS_MPU60X0_ACCEL_CFG_REG h,
                     word_of_int (accel_range_value h PIOS_MPU60X0_ACCEL_8G))]
              else [])
           @ [(PIOS_MPU60X0_DLPF_CFG_REG h, word_of_int (filter_value h (default_filter c))),
              (PIOS_MPU60X0_SMPLRT_DIV_REG h, v),
              (PIOS_MPU60X0_GYRO_CFG_REG h,
               word_of_int (range_value h PIOS_MPU60X0_SCALE_500_DEG)),
              (PIOS_MPU60X0_USER_CTRL_REG h, User_ctl c),
              (PIOS_MPU60X0_PWR_MGMT_REG h, Pwr_mgmt_clk c),
              (PIOS_MPU60X0_INT_CFG_REG h, interrupt_cfg c),
              (PIOS_MPU60X0_INT_EN_REG h, interrupt_en c)]) s4"
    using reaches_Config_after_reset [OF a3 r] by blast
  have "Config_polling b h c s = Some (Inr s4)"
    using 3 by (simp add: Config_polling_unfold 1 s2_def 4)
  then show ?thesis using a4 unfolding w2_def by auto
qed


subsection \<open>Default ranges\<close>

text \<open>
  On a healthy bus, with the registers the sequence writes at distinct addresses, both
  sequences return, and the last value the sensor has received for its gyro
  configuration register is the code of 500 deg/s; in the build with the accel, the
  last value it has received for its accel configuration register is the code of 8 g.
\<close>

lemma Config_registers:
  assumes hs: "healthy s" and r: "default_samplerate c \<noteq> 0"
    and dist: "distinct (map ((AND) 0x7f) (written_registers h))"
  shows "\<exists>s'. PIOS_MPU6500_Config b h c s = Some (Inr s')
     \<and> hw_register s' (0x7f AND PIOS_MPU60X0_GYRO_CFG_REG h)
         = Some (word_of_int (range_value h PIOS_MPU60X0_SCALE_500_DEG))
     \<and> (PIOS_MPU6500_ACCEL b \<longrightarrow>
          hw_register s' (0x7f AND PIOS_MPU60X0_ACCEL_CFG_REG h)
            = Some (word_of_int (accel_range_value h PIOS_MPU60X0_ACCEL_8G)))"
proof (cases "PIOS_MPU6500_SIMPLE_INIT_SEQUENCE b")
  case True
  obtain s' v where 1: "Config_simple b h c s = Inr s'"
    and 2: "reaches s
          ([(PIOS_MPU60X0_PWR_MGMT_REG h, PIOS_MPU60X0_PWRMGMT_IMU_RST h),
            (PIOS_MPU60X0_USER_CTRL_REG h, PIOS_MPU60X0_USERCTL_GYRO_RST h),
            (PIOS_MPU60X0_PWR_MGMT_REG h, Pwr_mgmt_clk c),
            (PIOS_MPU60X0_USER_CTRL_REG h, User_ctl c),
            (PIOS_MPU60X0_DLPF_CFG_REG h, word_of_int (filter_value h (default_filter c))),
            (PIOS_MPU60X0_SMPLRT_DIV_REG h, v),
            (PIOS_MPU60X0_GYRO_CFG_REG h,
             word_of_int (range_value h PIOS_MPU60X0_SCALE_500_DEG))]
           @ (if PIOS_MPU6500_ACCEL b
              then [(PIOS_MPU60X0_ACCEL_CFG_REG h,
                     word_of_int (accel_range_value h PIOS_MPU60X0_ACCEL_8G))]
              else [])
           @ [(PIOS_MPU60X0_INT_CFG_REG h, interrupt_cfg c),
              (PIOS_MPU60X0_INT_EN_REG h, interrupt_en c)]) s'"
    using reaches_Config_simple [OF hs r] by blast
  have "PIOS_MPU6500_Config b h c s = Some (Inr s')"
    by (simp add: PIOS_MPU6500_Config_def True 1)
  moreover have "hw_register s' (0x7f AND PIOS_MPU60X0_GYRO_CFG_REG h)
         = Some (word_of_int (range_value h PIOS_MPU60X0_SCALE_500_DEG))"
    using 2 dist by (auto simp add: reaches_def written_registers_def apply_writes_append)
  moreover have "hw_register s' (0x7f AND PIOS_MPU60X0_ACCEL_CFG_REG h)
            = Some (word_of_int (accel_range_value h PIOS_MPU60X0_ACCEL_8G))"
    if "PIOS_MPU6500_ACCEL b"
    using 2 dist that
    by (auto simp add: reaches_def written_registers_def apply_writes_append)
  ultimately show ?thesis by blast
next
  case False
  obtain s' v where 1: "Config_polling b h c s = Some (Inr s')"
    and 2: "reaches s
          ([(PIOS_MPU60X0_PWR_MGMT_REG h, 0x80 OR Pwr_mgmt_clk c),
            (PIOS_MPU60X0_USER_CTRL_REG h, 0x80 OR 0x01 OR 0x02 OR 0x04)]
           @ [(PIOS_MPU60X0_PWR_MGMT_REG h, Pwr_mgmt_clk c),
              (PIOS_MPU60X0_INT_CFG_REG h, interrupt_cfg c),
              (PIOS_MPU60X0_INT_EN_REG h, interrupt_en c)]
           @ (if PIOS_MPU6500_ACCEL b
              then [(PIOS_MPU60X0_ACCEL_CFG_REG h,
                     word_of_int (accel_range_value h PIOS_MPU60X0_ACCEL_8G))]
              else [])
           @ [(PIOS_MPU60X0_DLPF_CFG_REG h, word_of_int (filter_value h (default_filter c))),
              (PIOS_MPU60X0_SMPLRT_DIV_REG h, v),
              (PIOS_MPU60X0_GYRO_CFG_REG h,
               word_of_int (range_value h PIOS_MPU60X0_SCALE_500_DEG)),
              (PIOS_MPU60X0_USER_CTRL_REG h, User_ctl c),
              (PIOS_MPU60X0_PWR_MGMT_REG h, Pwr_mgmt_clk c),
              (PIOS_MPU60X0_INT_CFG_REG h, interrupt_cfg c),
              (PIOS_MPU60X0_INT_EN_REG h, interrupt_en c)]) s'"
    using reaches_Config_polling [OF hs r] by blast
  have "PIOS_MPU6500_Config b h c s = Some (Inr s')"
    by (simp add: PIOS_MPU6500_Config_def False 1)
  moreover have "hw_register s' (0x7f AND PIOS_MPU60X0_GYRO_CFG_REG h)
         = Some (word_of_int (range_value h PIOS_MPU60X0_SCALE_500_DEG))"
    using 2 dist by (auto simp add: reaches_def written_registers_def apply_writes_append)
  moreover have "hw_register s' (0x7f AND PIOS_MPU60X0_ACCEL_CFG_REG h)
            = Some (word_of_int (accel_range_value h PIOS_MPU60X0_ACCEL_8G))"
    if "PIOS_MPU6500_ACCEL b"
    using 2 dist that
    by (auto simp add: reaches_def written_registers_def apply_writes_append)
  ultimately show ?thesis by blast
qed

lemma quiet_bus_healthy: "healthy (quiet_bus (Some bound_dev))"
  by (simp add: healthy_def quiet_bus_def bound_dev_valid)

lemma mpu60x0_regs_distinct: "distinct (map ((AND) 0x7f) (written_registers mpu60x0_regs))"
  by (simp add: written_registers_def mpu60x0_regs_def)


lemma Config_registers_after:
  assumes "healthy s" and "default_samplerate c \<noteq> 0"
    and "distinct (map ((AND) 0x7f) (written_registers h))"
  shows "registers_after (PIOS_MPU6500_Config b h c s) (0x7f AND PIOS_MPU60X0_GYRO_CFG_REG h)
           = Some (word_of_int (range_value h PIOS_MPU60X0_SCALE_500_DEG))"
    and "PIOS_MPU6500_ACCEL b \<Longrightarrow>
         registers_after (PIOS_MPU6500_Config b h c s) (0x7f AND PIOS_MPU60X0_ACCEL_CFG_REG h)
           = Some (word_of_int (accel_range_value h PIOS_MPU60X0_ACCEL_8G))"
    and "PIOS_MPU6500_Config b h c s \<noteq> None"
proof -
  obtain s' where 1: "PIOS_MPU6500_Config b h c s = Some (Inr s')"
    and 2: "hw_register s' (0x7f AND PIOS_MPU60X0_GYRO_CFG_REG h)
         = Some (word_of_int (range_value h PIOS_MPU60X0_SCALE_500_DEG))"
    and 3: "PIOS_MPU6500_ACCEL b \<longrightarrow>
          hw_register s' (0x7f AND PIOS_MPU60X0_ACCEL_CFG_REG h)
            = Some (word_of_int (accel_range_value h PIOS_MPU60X0_ACCEL_8G))"
    using Config_registers [OF assms] by blast
  show "registers_after (PIOS_MPU6500_Config b h c s) (0x7f AND PIOS_MPU60X0_GYRO_CFG_REG h)
           = Some (word_of_int (range_value h PIOS_MPU60X0_SCALE_500_DEG))"
    by (simp add: registers_after_def 1 2)
  show "registers_after (PIOS_MPU6500_Config b h c s) (0x7f AND PIOS_MPU60X0_ACCEL_CFG_REG h)
           = Some (word_of_int (accel_range_value h PIOS_MPU60X0_ACCEL_8G))"
    if "PIOS_MPU6500_ACCEL b"
    using 3 that by (simp add: registers_after_def 1)
  show "PIOS_MPU6500_Config b h c s \<noteq> None" by (simp add: 1)
qed

text \<open>
  C5, as amended. On a bus that grants every claim and answers every byte with zero,
  for an allocated and bound device, a non-zero default rate and registers at distinct
  addresses, the configuration sequence returns, and the gyro full-scale range it has
  programmed is 500 deg/s, the second-narrowest of the four: the gyro configuration
  register of the sensor holds the code of 500 deg/s, and the device structure records
  500 deg/s. In the build with the accel, the accel full-scale range it has programmed
  is 8 g, the second-widest of the four: the accel configuration register of the sensor
  holds the code of 8 g, and the device structure records 8 g.
\<close>

theorem Config_programs_default_ranges:
  "healthy s \<Longrightarrow> default_samplerate c \<noteq> 0 \<Longrightarrow>
   distinct (map ((AND) 0x7f) (written_registers h)) \<Longrightarrow>
     registers_after (PIOS_MPU6500_Config b h c s) (0x7f AND PIOS_MPU60X0_GYRO_CFG_REG h)
       = Some (word_of_int (range_value h PIOS_MPU60X0_SCALE_500_DEG))
     \<and> map_option gyro_range (dev_after (PIOS_MPU6500_Config b h c s))
         = Some PIOS_MPU60X0_SCALE_500_DEG
     \<and> (PIOS_MPU6500_ACCEL b \<longrightarrow>
          registers_after (PIOS_MPU6500_Config b h c s)
              (0x7f AND PIOS_MPU60X0_ACCEL_CFG_REG h)
            = Some (word_of_int (accel_range_value h PIOS_MPU60X0_ACCEL_8G))
          \<and> map_option accel_range (dev_after (PIOS_MPU6500_Config b h c s))
              = Some PIOS_MPU60X0_ACCEL_8G)"
proof -
  assume hs: "healthy s" and r: "default_samplerate c \<noteq> 0"
    and dist: "distinct (map ((AND) 0x7f) (written_registers h))"
  obtain dev where d: "dev_ptr s = Some dev" using healthy_dev [OF hs] by blast
  note ret = Config_registers_after(3) [OF hs r dist, of b]
  show ?thesis
    using Config_registers_after(1) [OF hs r dist, of b]
      Config_registers_after(2) [OF hs r dist, of b]
      ranges_after(1) [OF d r ret] ranges_after(2) [OF d r ret]
    by simp
qed

theorem Config_programs_default_ranges_witness:
  "healthy (quiet_bus (Some bound_dev)) \<and> default_samplerate board_cfg \<noteq> 0
   \<and> distinct (map ((AND) 0x7f) (written_registers mpu60x0_regs))
   \<and> PIOS_MPU6500_ACCEL polling_build
   \<and> registers_after
        (PIOS_MPU6500_Config polling_build mpu60x0_regs board_cfg (quiet_bus (Some bound_dev)))
        0x1B = Some 0x08
   \<and> map_option gyro_range
        (dev_after (PIOS_MPU6500_Config polling_build mpu60x0_regs board_cfg
                      (quiet_bus (Some bound_dev))))
       = Some PIOS_MPU60X0_SCALE_500_DEG
   \<and> registers_after
        (PIOS_MPU6500_Config polling_build mpu60x0_regs board_cfg (quiet_bus (Some bound_dev)))
        0x1C = Some 0x10
   \<and> map_option accel_range
        (dev_after (PIOS_MPU6500_Config polling_build mpu60x0_regs board_cfg
                      (quiet_bus (Some bound_dev))))
       = Some PIOS_MPU60X0_ACCEL_8G"
proof -
  have a: "PIOS_MPU6500_ACCEL polling_build" by (simp add: polling_build_def)
  have g: "0x7f AND PIOS_MPU60X0_GYRO_CFG_REG mpu60x0_regs = 0x1B"
    "0x7f AND PIOS_MPU60X0_ACCEL_CFG_REG mpu60x0_regs = 0x1C"
    "word_of_int (range_value mpu60x0_regs PIOS_MPU60X0_SCALE_500_DEG) = (0x08 :: 8 word)"
    "word_of_int (accel_range_value mpu60x0_regs PIOS_MPU60X0_ACCEL_8G) = (0x10 :: 8 word)"
    by (simp_all add: mpu60x0_regs_def)
  show ?thesis
    using Config_programs_default_ranges
            [OF quiet_bus_healthy board_cfg_rate mpu60x0_regs_distinct, of polling_build]
      quiet_bus_healthy board_cfg_rate mpu60x0_regs_distinct a
    unfolding g by simp
qed

text \<open>
  C5 as stated fails: after the sequence has run on the quiet bus, the gyro
  configuration register of the sensor holds 0x08, the code of 500 deg/s and not that
  of 1000 deg/s, and the accel configuration register holds 0x10, the code of 8 g and
  not that of 4 g; the device structure records neither 1000 deg/s nor 4 g.
\<close>

theorem Config_programs_default_ranges_counterexample:
  "registers_after
     (PIOS_MPU6500_Config simple_build mpu60x0_regs board_cfg (quiet_bus (Some bound_dev)))
     (0x7f AND PIOS_MPU60X0_GYRO_CFG_REG mpu60x0_regs)
     \<noteq> Some (word_of_int (range_value mpu60x0_regs PIOS_MPU60X0_SCALE_1000_DEG))
   \<and> registers_after
        (PIOS_MPU6500_Config simple_build mpu60x0_regs board_cfg (quiet_bus (Some bound_dev)))
        (0x7f AND PIOS_MPU60X0_ACCEL_CFG_REG mpu60x0_regs)
       \<noteq> Some (word_of_int (accel_range_value mpu60x0_regs PIOS_MPU60X0_ACCEL_4G))
   \<and> map_option gyro_range
        (dev_after (PIOS_MPU6500_Config simple_build mpu60x0_regs board_cfg
                      (quiet_bus (Some bound_dev))))
       \<noteq> Some PIOS_MPU60X0_SCALE_1000_DEG
   \<and> map_option accel_range
        (dev_after (PIOS_MPU6500_Config simple_build mpu60x0_regs board_cfg
                      (quiet_bus (Some bound_dev))))
       \<noteq> Some PIOS_MPU60X0_ACCEL_4G"
proof -
  have a: "PIOS_MPU6500_ACCEL simple_build" by (simp add: simple_build_def)
  have d: "dev_ptr (quiet_bus (Some bound_dev)) = Some bound_dev"
    by (rule faulty_bus_dev(4))
  have c: "word_of_int (range_value mpu60x0_regs PIOS_MPU60X0_SCALE_500_DEG)
             \<noteq> (word_of_int (range_value mpu60x0_regs PIOS_MPU60X0_SCALE_1000_DEG) :: 8 word)"
    "word_of_int (accel_range_value mpu60x0_regs PIOS_MPU60X0_ACCEL_8G)
       \<noteq> (word_of_int (accel_range_value mpu60x0_regs PIOS_MPU60X0_ACCEL_4G) :: 8 word)"
    by (simp_all add: mpu60x0_regs_def)
  show ?thesis
    using c
    by (simp add:
        Config_registers_after(1) [OF quiet_bus_healthy board_cfg_rate mpu60x0_regs_distinct]
        Config_registers_after(2) [OF quiet_bus_healthy board_cfg_rate mpu60x0_regs_distinct a]
        ranges_after(1) [OF d board_cfg_rate simple_Config_returns]
        ranges_after(2) [OF d board_cfg_rate simple_Config_returns a])
qed

end
